theory Spec2Isabelle
  imports Complex_Main "HOL-Library.Word" "HOL-Library.Monad_Syntax"
begin

unbundle bit_operations_syntax

section \<open>The interpolation check of a radiosonde profile\<close>

text \<open>
  This theory embeds \<open>ProfileCheckInterpolation::runCheck\<close> (lines 25 to 141 of its
  source file). The C++ function reads its inputs from the profile data handler, calls
  \<open>correctVector\<close> and \<open>calcStdLevels\<close> of its base classes, then loops over the standard
  levels.

  Conventions of the embedding.
  \<^item> A \<open>std::vector\<close> is a list. \<open>operator[]\<close> with an index outside the vector is
    undefined behaviour in C++; so is signed overflow of an \<open>int\<close>. Both are the
    result \<open>None\<close> of the model, every defined run is \<open>Some\<close> of the new state.
    \<open>vec_at\<close>, \<open>vec_set\<close> and \<open>incr\<close> below are the only places where \<open>None\<close> arises,
    together with a negative size given to \<open>assign\<close> and a pressure that does not round
    to an \<open>int\<close>. On valid, well-formed input the run is defined (\<open>runCheck_defined\<close>).
  \<^item> \<open>int\<close> indices and counters are HOL integers with the range check written out;
    the QC flag words, on which the code only works bitwise, are 32-bit words.
  \<^item> \<open>float\<close> is a type variable \<open>'f\<close> that carries only the syntax of the arithmetic
    the code uses (\<open>+\<close>, \<open>-\<close>, \<open>*\<close>, \<open>/\<close>, \<open>abs\<close>, \<open><\<close>, \<open>\<le>\<close>, \<open>1\<close>): the type classes
    involved have no axioms, so nothing proved here relies on a law that IEEE
    arithmetic lacks. The operations that leave \<open>float\<close> (comparison with \<open>==\<close>,
    conversion from \<open>int\<close>, rounding to whole hPa, the double multiplication by
    100.0) are the fields of \<open>float_ops\<close>. The instance \<open>real_ops\<close> over the real
    numbers is used to run the model on concrete profiles.
  \<^item> Debug output (\<open>oops::Log::debug\<close>) is not modelled; the warnings are.
\<close>

subsection \<open>Vectors and machine integers\<close>

definition INT_MAX :: int where
  "INT_MAX = 2147483647"

definition INT_MIN :: int where
  "INT_MIN = - 2147483648"

text \<open>\<open>v[i]\<close> as an rvalue.\<close>

definition vec_at :: "'a list \<Rightarrow> int \<Rightarrow> 'a option" where
  "vec_at v i = (if 0 \<le> i \<and> i < int (length v) then Some (v ! nat i) else None)"

text \<open>\<open>v[i] = x\<close>.\<close>

definition vec_set :: "'a list \<Rightarrow> int \<Rightarrow> 'a \<Rightarrow> 'a list option" where
  "vec_set v i x = (if 0 \<le> i \<and> i < int (length v) then Some (v[nat i := x]) else None)"

text \<open>\<open>c++\<close> on an \<open>int\<close>.\<close>

definition incr :: "int \<Rightarrow> int option" where
  "incr c = (if c < INT_MAX then Some (c + 1) else None)"

text \<open>\<open>v[i]++\<close> on a \<open>std::vector<int>\<close>.\<close>

definition vec_incr :: "int list \<Rightarrow> int \<Rightarrow> int list option" where
  "vec_incr v i = do { c \<leftarrow> vec_at v i; c' \<leftarrow> incr c; vec_set v i c' }"

text \<open>\<open>v[i] |= m\<close> on the flag words.\<close>

definition vec_or :: "32 word list \<Rightarrow> int \<Rightarrow> 32 word \<Rightarrow> 32 word list option" where
  "vec_or v i m = do { w \<leftarrow> vec_at v i; vec_set v i (w OR m) }"

text \<open>\<open>a / b\<close> on \<open>int\<close>: the quotient is truncated towards zero.\<close>

definition c_div :: "int \<Rightarrow> int \<Rightarrow> int" where
  "c_div a b = sgn a * sgn b * (\<bar>a\<bar> div \<bar>b\<bar>)"

subsection \<open>Floating point operations taken as parameters\<close>

record 'f float_ops =
  f_eq :: "'f \<Rightarrow> 'f \<Rightarrow> bool"
  f_of_int :: "int \<Rightarrow> 'f"
  f_round_hPa :: "'f \<Rightarrow> int option"
  f_hPa_to_Pa :: "'f \<Rightarrow> 'f"

text \<open>
  \<^item> \<open>f_eq a b\<close> is \<open>a == b\<close> on \<open>float\<close>;
  \<^item> \<open>f_of_int n\<close> is the conversion of the \<open>int\<close> operand in \<open>StandardLevels_[i] <= IPStd\<close>;
  \<^item> \<open>f_round_hPa p\<close> is \<open>int IPStd = std::round(p * 0.01)\<close>, \<open>None\<close> when the rounded
    value is not an \<open>int\<close>;
  \<^item> \<open>f_hPa_to_Pa g\<close> is \<open>g * 100.0\<close> stored in a \<open>float\<close>.
\<close>

text \<open>\<open>std::round\<close>: to the nearest integer, halfway cases away from zero.\<close>

definition c_round :: "real \<Rightarrow> int" where
  "c_round x = (if 0 \<le> x then \<lfloor>x + 1 / 2\<rfloor> else \<lceil>x - 1 / 2\<rceil>)"

definition real_ops :: "real float_ops" where
  "real_ops = \<lparr>
     f_eq = (\<lambda>a b. a = b),
     f_of_int = (\<lambda>n. of_int n),
     f_round_hPa = (\<lambda>p. let r = c_round (p * (1 / 100))
                         in if INT_MIN \<le> r \<and> r \<le> INT_MAX then Some r else None),
     f_hPa_to_Pa = (\<lambda>g. g * 100) \<rparr>"

subsection \<open>Configuration, classification and state\<close>

text \<open>
  The options read through \<open>options_\<close>, the two tables \<open>StandardLevels_\<close> and
  \<open>BigGaps_\<close> of \<open>ProfileStandardLevels\<close>, the two flag constants of
  \<open>ufo::FlagsProfile\<close> and \<open>missingValueFloat\<close>. Their declarations are not part of
  the sources, so they are parameters of the model.
\<close>

record 'f params =
  ICheck_BigGapInit :: 'f
  ICheck_TolRelaxPThresh :: 'f
  ICheck_TolRelax :: 'f
  ICheck_TInterpTol :: 'f
  StandardLevels :: "'f list"
  BigGaps :: "'f list"
  SurfaceLevelFlag :: "32 word"
  InterpolationFlag :: "32 word"
  missingValueFloat :: 'f

text \<open>
  What \<open>calcStdLevels\<close> leaves in the members of \<open>ProfileStandardLevels\<close> that
  \<open>runCheck\<close> reads. \<open>calcStdLevels\<close> itself is not part of the sources: the model
  takes it as a function parameter \<open>calc\<close>.
\<close>

record 'f std_levels =
  NumStd :: int
  NumSig :: int
  StdLev :: "int list"
  SigBelow :: "int list"
  SigAbove :: "int list"
  LogP :: "'f list"

text \<open>The vectors \<open>runCheck\<close> only reads.\<close>

record 'f profile =
  pressures :: "'f list"
  tObs :: "'f list"
  tBkg :: "'f list"
  tObsCorrection :: "'f list"

text \<open>
  What \<open>runCheck\<close> may write: the flags and the three counters held by the data
  handler, the members \<open>LevErrors_\<close> and \<open>tInterp_\<close>, and the warning log.
\<close>

record 'f state =
  tFlags :: "32 word list"
  NumAnyErrors :: "int list"
  NumInterpErrors :: "int list"
  NumInterpErrObs :: "int list"
  LevErrors :: "int list"
  tInterp :: "'f list"
  warnings :: "string list"

subsection \<open>Preflight validation and bias correction\<close>

text \<open>
  \<open>oops::anyVectorEmpty\<close> and \<open>oops::allVectorsSameSize\<close> at the five vectors of
  lines 48 and 53; the vectors have different element types, so the model passes
  their sizes.
\<close>

definition anyVectorEmpty :: "nat list \<Rightarrow> bool" where
  "anyVectorEmpty sizes = (\<exists>n \<in> set sizes. n = 0)"

definition allVectorsSameSize :: "nat list \<Rightarrow> bool" where
  "allVectorsSameSize sizes = (case sizes of [] \<Rightarrow> True | n # ns \<Rightarrow> (\<forall>m \<in> set ns. m = n))"

definition inputSizes :: "'f profile \<Rightarrow> 'f state \<Rightarrow> nat list" where
  "inputSizes inp s =
     [length (pressures inp), length (tObs inp), length (tBkg inp),
      length (tFlags s), length (tObsCorrection inp)]"

text \<open>
  Modelled from the spec: \<open>correctVector\<close> is a member of \<open>ProfileCheckBase\<close>, which is
  not part of the sources. Section 4.2: each element of the result is the sum of the
  raw observed value and its bias correction at the same index.
\<close>

definition correctVector :: "('f::plus) list \<Rightarrow> 'f list \<Rightarrow> 'f list" where
  "correctVector v1 v2 = map2 (\<lambda>a b. a + b) v1 v2"

subsection \<open>The body of the loop over the standard levels\<close>

text \<open>
  Lines 80 to 86. The scan runs over \<open>StandardLevels_\<close> from index 0 and stops at the
  first entry that is \<open>\<le> IPStd\<close>; \<open>i\<close> is the index of the head of the remaining table.
\<close>

fun scanBands ::
  "('f::ord) float_ops \<Rightarrow> 'f list \<Rightarrow> int \<Rightarrow> 'f \<Rightarrow> nat \<Rightarrow> 'f list \<Rightarrow> 'f option" where
  "scanBands ops gaps IPStd BigGap i [] = Some BigGap"
| "scanBands ops gaps IPStd BigGap i (sl # sls) =
     (if sl \<le> f_of_int ops IPStd
      then map_option (f_hPa_to_Pa ops) (vec_at gaps (int i))
      else scanBands ops gaps IPStd BigGap (Suc i) sls)"

definition selectBigGap :: "('f::ord) float_ops \<Rightarrow> 'f params \<Rightarrow> int \<Rightarrow> 'f option" where
  "selectBigGap ops P IPStd =
     scanBands ops (BigGaps P) IPStd (ICheck_BigGapInit P) 0 (StandardLevels P)"

text \<open>Lines 92 to 94, with the short circuit of \<open>||\<close>: \<open>True\<close> means \<open>continue\<close>.\<close>

definition gapGuard ::
  "('f::{ord,minus}) float_ops \<Rightarrow> 'f std_levels \<Rightarrow> 'f list \<Rightarrow> 'f \<Rightarrow> 'f \<Rightarrow> int \<Rightarrow> int
     \<Rightarrow> bool option" where
  "gapGuard ops L prs PStd BigGap SigB SigA = do {
     pB \<leftarrow> vec_at prs SigB;
     if pB - PStd > BigGap then Some True
     else do {
       pA \<leftarrow> vec_at prs SigA;
       if PStd - pA > BigGap then Some True
       else do {
         lB \<leftarrow> vec_at (LogP L) SigB;
         lA \<leftarrow> vec_at (LogP L) SigA;
         Some (f_eq ops lB lA)
       }
     }
   }"

text \<open>Lines 96 to 99: the value assigned to \<open>tInterp_[jlev]\<close>.\<close>

definition interpolate ::
  "('f::{plus,minus,times,inverse}) std_levels \<Rightarrow> 'f list \<Rightarrow> int \<Rightarrow> int \<Rightarrow> int \<Rightarrow> 'f option" where
  "interpolate L tObsFinal jlev SigB SigA = do {
     lS \<leftarrow> vec_at (LogP L) jlev;
     lB \<leftarrow> vec_at (LogP L) SigB;
     lA \<leftarrow> vec_at (LogP L) SigA;
     let Ratio = (lS - lB) / (lA - lB);
     tB \<leftarrow> vec_at tObsFinal SigB;
     tA \<leftarrow> vec_at tObsFinal SigA;
     Some (tB + (tA - tB) * Ratio)
   }"

text \<open>Lines 102 to 104.\<close>

definition TolRelax :: "('f::{ord,one}) params \<Rightarrow> 'f \<Rightarrow> 'f" where
  "TolRelax P PStd = (if PStd < ICheck_TolRelaxPThresh P then ICheck_TolRelax P else 1)"

text \<open>Lines 105 and 106: the condition of the \<open>if\<close>.\<close>

definition exceedsTol :: "('f::{ord,one,minus,times,abs}) params \<Rightarrow> 'f \<Rightarrow> 'f \<Rightarrow> 'f \<Rightarrow> bool" where
  "exceedsTol P PStd tObsLev tInt =
     (\<bar>tObsLev - tInt\<bar> > ICheck_TInterpTol P * TolRelax P PStd)"

text \<open>Lines 107 to 118: the bookkeeping of a failed level.\<close>

definition recordFailure ::
  "'f params \<Rightarrow> 'f state \<Rightarrow> int \<Rightarrow> int \<Rightarrow> int \<Rightarrow> int \<Rightarrow> ('f state \<times> int) option" where
  "recordFailure P s NumErrors jlev SigB SigA = do {
     nae \<leftarrow> vec_incr (NumAnyErrors s) 0;
     nie \<leftarrow> vec_incr (NumInterpErrors s) 0;
     NumErrors' \<leftarrow> incr NumErrors;
     f1 \<leftarrow> vec_or (tFlags s) jlev (InterpolationFlag P);
     f2 \<leftarrow> vec_or f1 SigB (InterpolationFlag P);
     f3 \<leftarrow> vec_or f2 SigA (InterpolationFlag P);
     l1 \<leftarrow> vec_incr (LevErrors s) jlev;
     l2 \<leftarrow> vec_incr l1 SigB;
     l3 \<leftarrow> vec_incr l2 SigA;
     Some (s\<lparr>tFlags := f3, NumAnyErrors := nae, NumInterpErrors := nie, LevErrors := l3\<rparr>,
           NumErrors')
   }"

text \<open>
  Lines 70 to 138: one iteration of the loop, for the loop variable \<open>jlevstd\<close>. The
  local \<open>NumErrors\<close> is threaded beside the state.
\<close>

definition checkLevel ::
  "('f::{ord,one,plus,minus,times,inverse,abs}) float_ops \<Rightarrow> 'f params \<Rightarrow> 'f std_levels
     \<Rightarrow> 'f list \<Rightarrow> 'f list \<Rightarrow> 'f state \<Rightarrow> int \<Rightarrow> int \<Rightarrow> ('f state \<times> int) option" where
  "checkLevel ops P L prs tObsFinal s NumErrors jlevstd = do {
     jlev \<leftarrow> vec_at (StdLev L) jlevstd;
     fl \<leftarrow> vec_at (tFlags s) jlev;
     if fl AND SurfaceLevelFlag P \<noteq> 0 then Some (s, NumErrors)
     else do {
       SigB \<leftarrow> vec_at (SigBelow L) jlevstd;
       SigA \<leftarrow> vec_at (SigAbove L) jlevstd;
       PStd \<leftarrow> vec_at prs jlev;
       IPStd \<leftarrow> f_round_hPa ops PStd;
       BigGap \<leftarrow> selectBigGap ops P IPStd;
       if NumSig L < max 3 (c_div (NumStd L) 2) then Some (s, NumErrors)
       else if SigB = - 1 \<or> SigA = - 1 then Some (s, NumErrors)
       else do {
         skip \<leftarrow> gapGuard ops L prs PStd BigGap SigB SigA;
         if skip then Some (s, NumErrors)
         else do {
           tInt \<leftarrow> interpolate L tObsFinal jlev SigB SigA;
           ti \<leftarrow> vec_set (tInterp s) jlev tInt;
           tObsLev \<leftarrow> vec_at tObsFinal jlev;
           if exceedsTol P PStd tObsLev tInt
           then recordFailure P (s\<lparr>tInterp := ti\<rparr>) NumErrors jlev SigB SigA
           else Some (s\<lparr>tInterp := ti\<rparr>, NumErrors)
         }
       }
     }
   }"

subsection \<open>The loop and the whole check\<close>

text \<open>
  Lines 69 to 139. The loop visits the values of \<open>jlevstd\<close> in the order of the list it
  is given; \<open>runCheck\<close> gives it \<open>[0..NumStd_ - 1]\<close>.
\<close>

fun stdLevelLoop ::
  "('f::{ord,one,plus,minus,times,inverse,abs}) float_ops \<Rightarrow> 'f params \<Rightarrow> 'f std_levels
     \<Rightarrow> 'f list \<Rightarrow> 'f list \<Rightarrow> int list \<Rightarrow> 'f state \<times> int \<Rightarrow> ('f state \<times> int) option" where
  "stdLevelLoop ops P L prs tObsFinal [] sn = Some sn"
| "stdLevelLoop ops P L prs tObsFinal (jlevstd # js) sn =
     (case checkLevel ops P L prs tObsFinal (fst sn) (snd sn) jlevstd of
        None \<Rightarrow> None
      | Some sn' \<Rightarrow> stdLevelLoop ops P L prs tObsFinal js sn')"

text \<open>
  Lines 59 to 140, after the validation: the check with the order of the loop as a
  parameter \<open>order\<close>, a function from \<open>NumStd_\<close> to the list of the values of \<open>jlevstd\<close>.
\<close>

definition checkInOrder ::
  "(int \<Rightarrow> int list) \<Rightarrow> ('f::{ord,one,plus,minus,times,inverse,abs}) float_ops \<Rightarrow> 'f params
     \<Rightarrow> (int \<Rightarrow> 'f list \<Rightarrow> 'f list \<Rightarrow> 32 word list \<Rightarrow> 'f std_levels)
     \<Rightarrow> int \<Rightarrow> 'f profile \<Rightarrow> 'f state \<Rightarrow> 'f state option" where
  "checkInOrder order ops P calc numLevelsToCheck inp s =
     (let tObsFinal = correctVector (tObs inp) (tObsCorrection inp);
          L = calc numLevelsToCheck (pressures inp) tObsFinal (tFlags s)
      in if numLevelsToCheck < 0 then None
         else
           let s1 = s\<lparr>LevErrors := replicate (nat numLevelsToCheck) (- 1),
                      tInterp := replicate (nat numLevelsToCheck) (missingValueFloat P)\<rparr>
           in case stdLevelLoop ops P L (pressures inp) tObsFinal (order (NumStd L)) (s1, 0) of
                None \<Rightarrow> None
              | Some (s2, NumErrors) \<Rightarrow>
                  if NumErrors > 0
                  then map_option (\<lambda>c. s2\<lparr>NumInterpErrObs := c\<rparr>) (vec_incr (NumInterpErrObs s2) 0)
                  else Some s2)"

text \<open>\<open>for (int jlevstd = 0; jlevstd < NumStd_; ++jlevstd)\<close>.\<close>

definition loopOrder :: "int \<Rightarrow> int list" where
  "loopOrder n = [0..n - 1]"

text \<open>Lines 25 to 141.\<close>

definition runCheck ::
  "('f::{ord,one,plus,minus,times,inverse,abs}) float_ops \<Rightarrow> 'f params
     \<Rightarrow> (int \<Rightarrow> 'f list \<Rightarrow> 'f list \<Rightarrow> 32 word list \<Rightarrow> 'f std_levels)
     \<Rightarrow> int \<Rightarrow> 'f profile \<Rightarrow> 'f state \<Rightarrow> 'f state option" where
  "runCheck ops P calc numLevelsToCheck inp s =
     (if anyVectorEmpty (inputSizes inp s)
      then Some (s\<lparr>warnings := warnings s @
             [''At least one vector is empty. Check will not be performed.'']\<rparr>)
      else if \<not> allVectorsSameSize (inputSizes inp s)
      then Some (s\<lparr>warnings := warnings s @
             [''Not all vectors have the same size. Check will not be performed.'']\<rparr>)
      else checkInOrder loopOrder ops P calc numLevelsToCheck inp s)"

subsection \<open>The verdict on one standard level, as predicates on the inputs\<close>

text \<open>
  The statements below speak about a level that passes all guards, or that fails the
  tolerance test. These predicates collect the conditions of lines 72 to 106 for the
  loop variable \<open>jlevstd\<close> at the flags \<open>flags\<close>; they read the vectors with \<open>!\<close>, which
  is the value \<open>checkLevel\<close> reads whenever \<open>checkLevel\<close> is defined.
\<close>

text \<open>The indices \<open>jlev\<close>, \<open>SigB\<close> and \<open>SigA\<close> of lines 70, 73 and 74.\<close>

definition triple :: "'f std_levels \<Rightarrow> int \<Rightarrow> int list" where
  "triple L jlevstd =
     [StdLev L ! nat jlevstd, SigBelow L ! nat jlevstd, SigAbove L ! nat jlevstd]"

text \<open>\<open>BigGap\<close> after line 86.\<close>

definition levelBigGap :: "('f::ord) float_ops \<Rightarrow> 'f params \<Rightarrow> 'f list \<Rightarrow> int \<Rightarrow> 'f option" where
  "levelBigGap ops P prs jlev = do {
     IPStd \<leftarrow> f_round_hPa ops (prs ! nat jlev);
     selectBigGap ops P IPStd
   }"

text \<open>None of the \<open>continue\<close> statements of lines 72, 88, 90 and 92 to 94 is taken.\<close>

definition passesGuards ::
  "('f::{ord,minus}) float_ops \<Rightarrow> 'f params \<Rightarrow> 'f std_levels \<Rightarrow> 'f list \<Rightarrow> 32 word list
     \<Rightarrow> int \<Rightarrow> bool" where
  "passesGuards ops P L prs flags jlevstd =
     (let jlev = StdLev L ! nat jlevstd;
          SigB = SigBelow L ! nat jlevstd;
          SigA = SigAbove L ! nat jlevstd;
          PStd = prs ! nat jlev
      in flags ! nat jlev AND SurfaceLevelFlag P = 0 \<and>
         \<not> NumSig L < max 3 (c_div (NumStd L) 2) \<and>
         SigB \<noteq> - 1 \<and> SigA \<noteq> - 1 \<and>
         (case levelBigGap ops P prs jlev of
            None \<Rightarrow> False
          | Some BigGap \<Rightarrow>
              \<not> prs ! nat SigB - PStd > BigGap \<and>
              \<not> PStd - prs ! nat SigA > BigGap \<and>
              \<not> f_eq ops (LogP L ! nat SigB) (LogP L ! nat SigA)))"

text \<open>The right-hand side of line 99, with \<open>Ratio\<close> of lines 96 and 97.\<close>

definition interpValue ::
  "('f::{plus,minus,times,inverse}) std_levels \<Rightarrow> 'f list \<Rightarrow> int \<Rightarrow> 'f" where
  "interpValue L tObsFinal jlevstd =
     (let jlev = StdLev L ! nat jlevstd;
          SigB = SigBelow L ! nat jlevstd;
          SigA = SigAbove L ! nat jlevstd;
          Ratio = (LogP L ! nat jlev - LogP L ! nat SigB) /
                  (LogP L ! nat SigA - LogP L ! nat SigB)
      in tObsFinal ! nat SigB + (tObsFinal ! nat SigA - tObsFinal ! nat SigB) * Ratio)"

text \<open>The level is evaluated and the condition of lines 105 and 106 holds.\<close>

definition levelFails ::
  "('f::{ord,one,plus,minus,times,inverse,abs}) float_ops \<Rightarrow> 'f params \<Rightarrow> 'f std_levels
     \<Rightarrow> 'f list \<Rightarrow> 'f list \<Rightarrow> 32 word list \<Rightarrow> int \<Rightarrow> bool" where
  "levelFails ops P L prs tObsFinal flags jlevstd =
     (passesGuards ops P L prs flags jlevstd \<and>
      exceedsTol P (prs ! nat (StdLev L ! nat jlevstd))
        (tObsFinal ! nat (StdLev L ! nat jlevstd)) (interpValue L tObsFinal jlevstd))"

subsection \<open>Names for the intermediate values of \<open>runCheck\<close>\<close>

text \<open>
  \<open>tObsFinal\<close> after line 60, the members set by \<open>calcStdLevels\<close> at line 62 and the
  state after the two \<open>assign\<close> calls of lines 64 and 65.
\<close>

abbreviation tObsFinalOf :: "('f::plus) profile \<Rightarrow> 'f list" where
  "tObsFinalOf inp \<equiv> correctVector (tObs inp) (tObsCorrection inp)"

abbreviation stdLevelsOf ::
  "(int \<Rightarrow> ('f::plus) list \<Rightarrow> 'f list \<Rightarrow> 32 word list \<Rightarrow> 'f std_levels)
     \<Rightarrow> int \<Rightarrow> 'f profile \<Rightarrow> 'f state \<Rightarrow> 'f std_levels" where
  "stdLevelsOf calc numLevelsToCheck inp s \<equiv>
     calc numLevelsToCheck (pressures inp) (tObsFinalOf inp) (tFlags s)"

abbreviation loopStart :: "'f params \<Rightarrow> int \<Rightarrow> 'f state \<Rightarrow> 'f state" where
  "loopStart P numLevelsToCheck s \<equiv>
     s\<lparr>LevErrors := replicate (nat numLevelsToCheck) (- 1),
       tInterp := replicate (nat numLevelsToCheck) (missingValueFloat P)\<rparr>"

subsection \<open>The gap selection as the specification words it\<close>

text \<open>
  The specification describes the selection of \<open>BigGap\<close> as: the table of (band, gap)
  pairs is scanned and the first band whose threshold is \<open>\<ge>\<close> the rounded pressure gives
  the gap, times 100; the initial value is kept when no band matches. This definition
  follows those words; it is compared with \<open>selectBigGap\<close> below.
\<close>

definition spec_selectBigGap :: "('f::ord) float_ops \<Rightarrow> 'f params \<Rightarrow> int \<Rightarrow> 'f option" where
  "spec_selectBigGap ops P IPStd =
     (case find (\<lambda>(band, gap). band \<ge> f_of_int ops IPStd)
             (zip (StandardLevels P) (BigGaps P)) of
        None \<Rightarrow> Some (ICheck_BigGapInit P)
      | Some (band, gap) \<Rightarrow> Some (f_hPa_to_Pa ops gap))"

subsection \<open>A concrete profile\<close>

text \<open>
  A profile of five levels over the real numbers, used to run the model. Levels 1 and 3
  (925 hPa and 700 hPa) are standard, levels 0, 2 and 4 significant; level 2 is the
  upper bracket of level 1 and the lower bracket of level 3. Level 0 carries the
  surface bit. The corrected temperatures are 288, 290, 280, 275, 255 K and the
  interpolated ones 284 K at level 1 and 270 K at level 3, so both standard levels
  miss the tolerance of 1 K. \<open>LogP\<close> holds rounded logarithms.
\<close>

definition exParams :: "real params" where
  "exParams = \<lparr>
     ICheck_BigGapInit = 50000, ICheck_TolRelaxPThresh = 50000, ICheck_TolRelax = 3 / 2,
     ICheck_TInterpTol = 1,
     StandardLevels = [1000, 500, 150, 100], BigGaps = [500, 400, 50, 40],
     SurfaceLevelFlag = 4, InterpolationFlag = 16, missingValueFloat = - 9999 \<rparr>"

definition exLevels :: "real std_levels" where
  "exLevels = \<lparr>
     NumStd = 2, NumSig = 3, StdLev = [1, 3], SigBelow = [0, 2], SigAbove = [2, 4],
     LogP = [115 / 10, 114 / 10, 113 / 10, 111 / 10, 108 / 10] \<rparr>"

definition exCalc :: "int \<Rightarrow> real list \<Rightarrow> real list \<Rightarrow> 32 word list \<Rightarrow> real std_levels" where
  "exCalc n prs t f = exLevels"

definition exProfile :: "real profile" where
  "exProfile = \<lparr>
     pressures = [100000, 92500, 85000, 70000, 50000],
     tObs = [287, 289, 279, 274, 254],
     tBkg = [288, 284, 280, 270, 255],
     tObsCorrection = [1, 1, 1, 1, 1] \<rparr>"

definition exObsFinal :: "real list" where
  "exObsFinal = [288, 290, 280, 275, 255]"

definition exState :: "real state" where
  "exState = \<lparr>
     tFlags = [4, 0, 0, 0, 0], NumAnyErrors = [0], NumInterpErrors = [0],
     NumInterpErrObs = [0], LevErrors = [], tInterp = [], warnings = [] \<rparr>"

text \<open>The state after lines 64 and 65, at the start of the loop.\<close>

definition exStart :: "real state" where
  "exStart = exState\<lparr>LevErrors := [- 1, - 1, - 1, - 1, - 1],
                      tInterp := [- 9999, - 9999, - 9999, - 9999, - 9999]\<rparr>"

text \<open>
  Two variants of the profile. In \<open>exLevelsDyadic\<close> the log-pressures are dyadic
  fractions: every operation of lines 96 to 99 and of line 105 is then exact in binary
  floating point, so that the value over the reals is the value a \<open>float\<close> holds. In
  \<open>exParamsRelaxed\<close> the threshold of the relaxation lies above the pressure of level 1,
  so that the tolerance of level 1 is relaxed to 1.5 K.
\<close>

definition exLevelsDyadic :: "real std_levels" where
  "exLevelsDyadic = exLevels\<lparr>LogP := [23 / 2, 45 / 4, 11, 21 / 2, 10]\<rparr>"

definition exParamsRelaxed :: "real params" where
  "exParamsRelaxed = exParams\<lparr>ICheck_TolRelaxPThresh := 95000\<rparr>"

text \<open>
  A second profile, of six levels, in which the triples of the two standard levels
  (levels 1 and 4) are disjoint: \<open>[1, 0, 2]\<close> and \<open>[4, 3, 5]\<close>. The interpolated
  temperatures are 284 K and 255 K against corrected observations of 290 K and 258 K,
  so both levels fail.
\<close>

definition exLevels6 :: "real std_levels" where
  "exLevels6 = \<lparr>
     NumStd = 2, NumSig = 4, StdLev = [1, 4], SigBelow = [0, 3], SigAbove = [2, 5],
     LogP = [115 / 10, 114 / 10, 113 / 10, 111 / 10, 108 / 10, 106 / 10] \<rparr>"

definition exCalc6 :: "int \<Rightarrow> real list \<Rightarrow> real list \<Rightarrow> 32 word list \<Rightarrow> real std_levels" where
  "exCalc6 n prs t f = exLevels6"

definition exProfile6 :: "real profile" where
  "exProfile6 = \<lparr>
     pressures = [100000, 92500, 85000, 70000, 50000, 40000],
     tObs = [287, 289, 279, 269, 257, 244],
     tBkg = [288, 284, 280, 270, 255, 245],
     tObsCorrection = [1, 1, 1, 1, 1, 1] \<rparr>"

definition exObsFinal6 :: "real list" where
  "exObsFinal6 = [288, 290, 280, 270, 258, 245]"

definition exState6 :: "real state" where
  "exState6 = \<lparr>
     tFlags = [4, 0, 0, 0, 0, 0], NumAnyErrors = [0], NumInterpErrors = [0],
     NumInterpErrObs = [0], LevErrors = [], tInterp = [], warnings = [] \<rparr>"

definition exStart6 :: "real state" where
  "exStart6 = exState6\<lparr>LevErrors := [- 1, - 1, - 1, - 1, - 1, - 1],
                        tInterp := [- 9999, - 9999, - 9999, - 9999, - 9999, - 9999]\<rparr>"

subsection \<open>Disjoint triples\<close>

text \<open>
  The levels of \<open>js\<close> are visited once each, their indices \<open>StdLev_[j]\<close> are not negative,
  and the triples of those that pass the guards at the flags \<open>f\<close> are pairwise disjoint.
\<close>

definition evaluatedApart ::
  "('f::{ord,minus}) float_ops \<Rightarrow> 'f params \<Rightarrow> 'f std_levels \<Rightarrow> 'f list \<Rightarrow> int list
     \<Rightarrow> 32 word list \<Rightarrow> bool" where
  "evaluatedApart ops P L prs js f =
     (distinct js \<and> (\<forall>k \<in> set js. 0 \<le> StdLev L ! nat k) \<and>
      (\<forall>j \<in> set js. \<forall>k \<in> set js.
         j \<noteq> k \<and> passesGuards ops P L prs f j \<and> passesGuards ops P L prs f k
         \<longrightarrow> set (triple L j) \<inter> set (triple L k) = {}))"

subsection \<open>Well-formed inputs\<close>

text \<open>
  The conditions under which no access of \<open>runCheck\<close> leaves its vector and no counter
  overflows. For the loop variable \<open>jlevstd\<close>: the three index vectors have an entry
  for it, \<open>jlev\<close> is a level below \<open>N\<close>, each bracket is \<open>-1\<close> or a level below \<open>N\<close>, and
  the pressure of \<open>jlev\<close> rounds to an \<open>int\<close>.
\<close>

definition levelInRange :: "nat \<Rightarrow> int \<Rightarrow> bool" where
  "levelInRange N i = (0 \<le> i \<and> nat i < N)"

definition levelWellFormed ::
  "'f float_ops \<Rightarrow> 'f std_levels \<Rightarrow> 'f list \<Rightarrow> nat \<Rightarrow> int \<Rightarrow> bool" where
  "levelWellFormed ops L prs N jlevstd =
     (0 \<le> jlevstd \<and> nat jlevstd < length (StdLev L) \<and> nat jlevstd < length (SigBelow L) \<and>
      nat jlevstd < length (SigAbove L) \<and>
      levelInRange N (StdLev L ! nat jlevstd) \<and>
      f_round_hPa ops (prs ! nat (StdLev L ! nat jlevstd)) \<noteq> None \<and>
      (SigBelow L ! nat jlevstd = - 1 \<or> levelInRange N (SigBelow L ! nat jlevstd)) \<and>
      (SigAbove L ! nat jlevstd = - 1 \<or> levelInRange N (SigAbove L ! nat jlevstd)))"

text \<open>
  For one iteration from the state \<open>s\<close> with the local counter \<open>NumErrors\<close>: the level is
  well formed, the vectors have at least \<open>N\<close> entries, \<open>BigGaps_\<close> is as long as
  \<open>StandardLevels_\<close>, and the counters have room for the increments of one failure
  (an evaluated level may fail, and the increments of lines 107 to 118 then must not
  overflow).
\<close>

definition stepWellFormed ::
  "'f float_ops \<Rightarrow> 'f params \<Rightarrow> 'f std_levels \<Rightarrow> 'f list \<Rightarrow> 'f list \<Rightarrow> 'f state \<Rightarrow> int
     \<Rightarrow> nat \<Rightarrow> int \<Rightarrow> bool" where
  "stepWellFormed ops P L prs tObsFinal s NumErrors N jlevstd =
     (levelWellFormed ops L prs N jlevstd \<and>
      N \<le> length (tFlags s) \<and> N \<le> length prs \<and> N \<le> length (LogP L) \<and>
      N \<le> length tObsFinal \<and> N \<le> length (LevErrors s) \<and> N \<le> length (tInterp s) \<and>
      length (StandardLevels P) \<le> length (BigGaps P) \<and>
      NumAnyErrors s \<noteq> [] \<and> NumAnyErrors s ! 0 < INT_MAX \<and>
      NumInterpErrors s \<noteq> [] \<and> NumInterpErrors s ! 0 < INT_MAX \<and>
      NumErrors < INT_MAX \<and>
      (\<forall>e \<in> set (LevErrors s). e + 3 \<le> INT_MAX))"

text \<open>
  For the whole call: \<open>numLevelsToCheck\<close> is not negative and not larger than the read
  vectors, \<open>NumStd_\<close> is not negative, \<open>BigGaps_\<close> is as long as \<open>StandardLevels_\<close>, every
  standard level is well formed, the counters exist and have room for one increment
  per standard level.
\<close>

definition wellFormed ::
  "('f::plus) float_ops \<Rightarrow> 'f params
     \<Rightarrow> (int \<Rightarrow> 'f list \<Rightarrow> 'f list \<Rightarrow> 32 word list \<Rightarrow> 'f std_levels)
     \<Rightarrow> int \<Rightarrow> 'f profile \<Rightarrow> 'f state \<Rightarrow> bool" where
  "wellFormed ops P calc numLevelsToCheck inp s =
     (let L = stdLevelsOf calc numLevelsToCheck inp s; N = nat numLevelsToCheck
      in 0 \<le> numLevelsToCheck \<and> N \<le> length (pressures inp) \<and> N \<le> length (LogP L) \<and>
         0 \<le> NumStd L \<and>
         length (StandardLevels P) \<le> length (BigGaps P) \<and>
         (\<forall>j \<in> set (loopOrder (NumStd L)). levelWellFormed ops L (pressures inp) N j) \<and>
         NumAnyErrors s \<noteq> [] \<and> NumAnyErrors s ! 0 + NumStd L \<le> INT_MAX \<and>
         NumInterpErrors s \<noteq> [] \<and> NumInterpErrors s ! 0 + NumStd L \<le> INT_MAX \<and>
         NumInterpErrObs s \<noteq> [] \<and> NumInterpErrObs s ! 0 < INT_MAX \<and>
         3 * NumStd L \<le> INT_MAX)"

section \<open>Properties of the model\<close>

subsection \<open>Vector access\<close>

lemma vec_at_Some: "vec_at v i = Some x \<longleftrightarrow> 0 \<le> i \<and> nat i < length v \<and> x = v ! nat i"
  by (auto simp: vec_at_def nat_less_iff)

lemma vec_set_Some:
  "vec_set v i x = Some v' \<longleftrightarrow> 0 \<le> i \<and> nat i < length v \<and> v' = v[nat i := x]"
  by (auto simp: vec_set_def nat_less_iff)

lemma incr_Some: "incr c = Some c' \<longleftrightarrow> c < INT_MAX \<and> c' = c + 1"
  by (auto simp: incr_def)

lemma vec_or_Some:
  "vec_or v i m = Some v' \<longleftrightarrow> 0 \<le> i \<and> nat i < length v \<and> v' = v[nat i := v ! nat i OR m]"
  by (auto simp: vec_or_def vec_at_def vec_set_def nat_less_iff)

lemma vec_incr_Some:
  "vec_incr v i = Some v' \<longleftrightarrow>
     0 \<le> i \<and> nat i < length v \<and> v ! nat i < INT_MAX \<and> v' = v[nat i := v ! nat i + 1]"
  by (auto simp: vec_incr_def vec_at_def vec_set_def incr_def nat_less_iff)

lemma or3_nth:
  fixes v :: "32 word list"
  assumes "a < length v" "b < length v" "c < length v"
  shows "(v[a := v ! a OR m, b := (v[a := v ! a OR m]) ! b OR m,
           c := (v[a := v ! a OR m, b := (v[a := v ! a OR m]) ! b OR m]) ! c OR m]) ! i
         = (if i = a \<or> i = b \<or> i = c then v ! i OR m else v ! i)"
  using assms by (auto simp: nth_list_update or.assoc)

lemma incr3_nth:
  fixes v :: "int list"
  assumes "a < length v" "b < length v" "c < length v"
  shows "(v[a := v ! a + 1, b := (v[a := v ! a + 1]) ! b + 1,
           c := (v[a := v ! a + 1, b := (v[a := v ! a + 1]) ! b + 1]) ! c + 1]) ! i
         = v ! i + (if a = i then 1 else 0) + (if b = i then 1 else 0) + (if c = i then 1 else 0)"
  using assms by (auto simp: nth_list_update)

subsection \<open>The bookkeeping of a failed level\<close>

lemma recordFailure_SomeD:
  assumes "recordFailure P s n jlev SigB SigA = Some (s', n')"
  obtains nae nie f1 f2 f3 l1 l2 l3 where
    "vec_incr (NumAnyErrors s) 0 = Some nae"
    "vec_incr (NumInterpErrors s) 0 = Some nie"
    "incr n = Some n'"
    "vec_or (tFlags s) jlev (InterpolationFlag P) = Some f1"
    "vec_or f1 SigB (InterpolationFlag P) = Some f2"
    "vec_or f2 SigA (InterpolationFlag P) = Some f3"
    "vec_incr (LevErrors s) jlev = Some l1"
    "vec_incr l1 SigB = Some l2"
    "vec_incr l2 SigA = Some l3"
    "s' = s\<lparr>tFlags := f3, NumAnyErrors := nae, NumInterpErrors := nie, LevErrors := l3\<rparr>"
  using assms unfolding recordFailure_def
  by (auto split: Option.bind_splits)

lemma recordFailure_effect:
  assumes "recordFailure P s n jlev SigB SigA = Some (s', n')"
  shows "n' = n + 1"
    and "tInterp s' = tInterp s"
    and "warnings s' = warnings s"
    and "NumInterpErrObs s' = NumInterpErrObs s"
    and "NumAnyErrors s \<noteq> []"
    and "NumAnyErrors s' = (NumAnyErrors s)[0 := NumAnyErrors s ! 0 + 1]"
    and "NumInterpErrors s \<noteq> []"
    and "NumInterpErrors s' = (NumInterpErrors s)[0 := NumInterpErrors s ! 0 + 1]"
    and "0 \<le> jlev \<and> 0 \<le> SigB \<and> 0 \<le> SigA"
    and "nat jlev < length (tFlags s) \<and> nat SigB < length (tFlags s) \<and> nat SigA < length (tFlags s)"
    and "nat jlev < length (LevErrors s) \<and> nat SigB < length (LevErrors s) \<and>
         nat SigA < length (LevErrors s)"
    and "length (tFlags s') = length (tFlags s)"
    and "length (LevErrors s') = length (LevErrors s)"
    and "tFlags s' ! i =
           (if i = nat jlev \<or> i = nat SigB \<or> i = nat SigA
            then tFlags s ! i OR InterpolationFlag P else tFlags s ! i)"
    and "LevErrors s' ! i = LevErrors s ! i +
           (if nat jlev = i then 1 else 0) + (if nat SigB = i then 1 else 0) +
           (if nat SigA = i then 1 else 0)"
proof -
  from assms obtain nae nie f1 f2 f3 l1 l2 l3 where
    a: "vec_incr (NumAnyErrors s) 0 = Some nae"
    and b: "vec_incr (NumInterpErrors s) 0 = Some nie"
    and c: "incr n = Some n'"
    and f1: "vec_or (tFlags s) jlev (InterpolationFlag P) = Some f1"
    and f2: "vec_or f1 SigB (InterpolationFlag P) = Some f2"
    and f3: "vec_or f2 SigA (InterpolationFlag P) = Some f3"
    and l1: "vec_incr (LevErrors s) jlev = Some l1"
    and l2: "vec_incr l1 SigB = Some l2"
    and l3: "vec_incr l2 SigA = Some l3"
    and s': "s' = s\<lparr>tFlags := f3, NumAnyErrors := nae, NumInterpErrors := nie, LevErrors := l3\<rparr>"
    by (rule recordFailure_SomeD)
  show "n' = n + 1" using c by (simp add: incr_Some)
  show "tInterp s' = tInterp s" "warnings s' = warnings s"
    "NumInterpErrObs s' = NumInterpErrObs s"
    by (simp_all add: s')
  show "NumAnyErrors s \<noteq> []" using a by (auto simp: vec_incr_Some)
  show "NumAnyErrors s' = (NumAnyErrors s)[0 := NumAnyErrors s ! 0 + 1]"
    using a by (simp add: s' vec_incr_Some)
  show "NumInterpErrors s \<noteq> []" using b by (auto simp: vec_incr_Some)
  show "NumInterpErrors s' = (NumInterpErrors s)[0 := NumInterpErrors s ! 0 + 1]"
    using b by (simp add: s' vec_incr_Some)
  have fr: "0 \<le> jlev" "0 \<le> SigB" "0 \<le> SigA"
    "nat jlev < length (tFlags s)" "nat SigB < length (tFlags s)" "nat SigA < length (tFlags s)"
    using f1 f2 f3 by (auto simp: vec_or_Some)
  have lr: "nat jlev < length (LevErrors s)" "nat SigB < length (LevErrors s)"
    "nat SigA < length (LevErrors s)"
    using l1 l2 l3 by (auto simp: vec_incr_Some)
  show "0 \<le> jlev \<and> 0 \<le> SigB \<and> 0 \<le> SigA" using fr by simp
  show "nat jlev < length (tFlags s) \<and> nat SigB < length (tFlags s) \<and> nat SigA < length (tFlags s)"
    using fr by simp
  show "nat jlev < length (LevErrors s) \<and> nat SigB < length (LevErrors s) \<and>
         nat SigA < length (LevErrors s)"
    using lr by simp
  have f3_eq: "f3 = (tFlags s)[nat jlev := tFlags s ! nat jlev OR InterpolationFlag P,
      nat SigB := ((tFlags s)[nat jlev := tFlags s ! nat jlev OR InterpolationFlag P]) ! nat SigB
                    OR InterpolationFlag P,
      nat SigA := ((tFlags s)[nat jlev := tFlags s ! nat jlev OR InterpolationFlag P,
         nat SigB := ((tFlags s)[nat jlev := tFlags s ! nat jlev OR InterpolationFlag P]) ! nat SigB
                    OR InterpolationFlag P]) ! nat SigA OR InterpolationFlag P]"
    using f1 f2 f3 by (simp add: vec_or_Some)
  have l3_eq: "l3 = (LevErrors s)[nat jlev := LevErrors s ! nat jlev + 1,
      nat SigB := ((LevErrors s)[nat jlev := LevErrors s ! nat jlev + 1]) ! nat SigB + 1,
      nat SigA := ((LevErrors s)[nat jlev := LevErrors s ! nat jlev + 1,
         nat SigB := ((LevErrors s)[nat jlev := LevErrors s ! nat jlev + 1]) ! nat SigB + 1])
           ! nat SigA + 1]"
    using l1 l2 l3 by (simp add: vec_incr_Some)
  show "length (tFlags s') = length (tFlags s)" by (simp add: s' f3_eq)
  show "length (LevErrors s') = length (LevErrors s)" by (simp add: s' l3_eq)
  show "tFlags s' ! i =
           (if i = nat jlev \<or> i = nat SigB \<or> i = nat SigA
            then tFlags s ! i OR InterpolationFlag P else tFlags s ! i)"
    unfolding s' f3_eq using or3_nth [OF fr(4) fr(5) fr(6)] by simp
  show "LevErrors s' ! i = LevErrors s ! i +
           (if nat jlev = i then 1 else 0) + (if nat SigB = i then 1 else 0) +
           (if nat SigA = i then 1 else 0)"
    unfolding s' l3_eq using incr3_nth [OF lr(1) lr(2) lr(3)] by simp
qed

subsection \<open>One iteration of the loop\<close>

lemma vec_at_Some_int:
  "vec_at v i = Some x \<longleftrightarrow> 0 \<le> i \<and> i < int (length v) \<and> x = v ! nat i"
  by (auto simp: vec_at_def)

lemma vec_set_Some_int:
  "vec_set v i x = Some v' \<longleftrightarrow> 0 \<le> i \<and> i < int (length v) \<and> v' = v[nat i := x]"
  by (auto simp: vec_set_def)

lemma gapGuard_Some:
  "gapGuard ops L prs PStd BigGap SigB SigA = Some b \<Longrightarrow>
     b = (prs ! nat SigB - PStd > BigGap \<or> PStd - prs ! nat SigA > BigGap \<or>
          f_eq ops (LogP L ! nat SigB) (LogP L ! nat SigA))"
  by (auto simp: gapGuard_def vec_at_Some_int split: Option.bind_splits if_splits)

lemma interpolate_Some:
  "interpolate L tObsFinal (StdLev L ! nat j) (SigBelow L ! nat j) (SigAbove L ! nat j) = Some t
     \<Longrightarrow> t = interpValue L tObsFinal j"
  by (auto simp: interpolate_def interpValue_def Let_def vec_at_Some_int split: Option.bind_splits)

lemma checkLevel_defined:
  assumes "checkLevel ops P L prs tObsFinal s n j = Some sn"
  shows "0 \<le> j \<and> nat j < length (StdLev L) \<and> 0 \<le> StdLev L ! nat j \<and>
         nat (StdLev L ! nat j) < length (tFlags s)"
proof -
  from assms obtain jlev fl where "vec_at (StdLev L) j = Some jlev" "vec_at (tFlags s) jlev = Some fl"
    unfolding checkLevel_def by (auto split: Option.bind_splits)
  then show ?thesis by (simp add: vec_at_Some)
qed

lemma checkLevel_skip:
  assumes "checkLevel ops P L prs tObsFinal s n j = Some (s', n')"
    and "\<not> passesGuards ops P L prs (tFlags s) j"
  shows "s' = s \<and> n' = n"
  using assms
  by (auto simp: checkLevel_def passesGuards_def levelBigGap_def Let_def vec_at_Some_int
      dest!: gapGuard_Some split: Option.bind_splits if_splits)

lemma checkLevel_eval:
  assumes "checkLevel ops P L prs tObsFinal s n j = Some (s', n')"
    and "passesGuards ops P L prs (tFlags s) j"
  shows "0 \<le> StdLev L ! nat j \<and> StdLev L ! nat j < int (length (tInterp s)) \<and>
     (if levelFails ops P L prs tObsFinal (tFlags s) j
      then recordFailure P (s\<lparr>tInterp := (tInterp s)[nat (StdLev L ! nat j) := interpValue L tObsFinal j]\<rparr>)
             n (StdLev L ! nat j) (SigBelow L ! nat j) (SigAbove L ! nat j) = Some (s', n')
      else s' = s\<lparr>tInterp := (tInterp s)[nat (StdLev L ! nat j) := interpValue L tObsFinal j]\<rparr> \<and> n' = n)"
  using assms
  by (auto simp: checkLevel_def passesGuards_def levelFails_def levelBigGap_def Let_def vec_at_Some_int vec_set_Some_int
      dest!: gapGuard_Some interpolate_Some split: Option.bind_splits if_splits)

lemma triple_nat_mem:
  assumes "0 \<le> StdLev L ! nat j \<and> 0 \<le> SigBelow L ! nat j \<and> 0 \<le> SigAbove L ! nat j"
  shows "(i = nat (StdLev L ! nat j) \<or> i = nat (SigBelow L ! nat j) \<or> i = nat (SigAbove L ! nat j))
         \<longleftrightarrow> int i \<in> set (triple L j)"
proof -
  have "\<And>a. 0 \<le> a \<Longrightarrow> (i = nat a) = (int i = a)" by linarith
  with assms show ?thesis by (simp add: triple_def)
qed

lemma triple_count:
  assumes "0 \<le> StdLev L ! nat j \<and> 0 \<le> SigBelow L ! nat j \<and> 0 \<le> SigAbove L ! nat j"
  shows "x + (if nat (StdLev L ! nat j) = i then 1 else 0) +
           (if nat (SigBelow L ! nat j) = i then 1 else 0) +
           (if nat (SigAbove L ! nat j) = i then 1 else (0::int))
         = x + int (count_list (triple L j) (int i))"
proof -
  have "\<And>a. 0 \<le> a \<Longrightarrow> (nat a = i) = (a = int i)" by linarith
  with assms show ?thesis by (simp add: triple_def)
qed

lemma checkLevel_fails:
  assumes step: "checkLevel ops P L prs tObsFinal s n j = Some (s', n')"
    and fails: "levelFails ops P L prs tObsFinal (tFlags s) j"
  shows "n' = n + 1"
    and "tInterp s' = (tInterp s)[nat (StdLev L ! nat j) := interpValue L tObsFinal j]"
    and "nat (StdLev L ! nat j) < length (tInterp s)"
    and "warnings s' = warnings s"
    and "NumInterpErrObs s' = NumInterpErrObs s"
    and "NumAnyErrors s \<noteq> []"
    and "NumAnyErrors s' = (NumAnyErrors s)[0 := NumAnyErrors s ! 0 + 1]"
    and "NumInterpErrors s \<noteq> []"
    and "NumInterpErrors s' = (NumInterpErrors s)[0 := NumInterpErrors s ! 0 + 1]"
    and "\<forall>k \<in> set (triple L j). 0 \<le> k \<and> nat k < length (tFlags s) \<and> nat k < length (LevErrors s)"
    and "length (tFlags s') = length (tFlags s)"
    and "length (LevErrors s') = length (LevErrors s)"
    and "tFlags s' ! i =
           (if int i \<in> set (triple L j)
            then tFlags s ! i OR InterpolationFlag P else tFlags s ! i)"
    and "LevErrors s' ! i = LevErrors s ! i + int (count_list (triple L j) (int i))"
proof -
  let ?s1 = "s\<lparr>tInterp := (tInterp s)[nat (StdLev L ! nat j) := interpValue L tObsFinal j]\<rparr>"
  from fails have pg: "passesGuards ops P L prs (tFlags s) j" by (simp add: levelFails_def)
  from checkLevel_eval [OF step pg] fails
  have rng: "0 \<le> StdLev L ! nat j \<and> StdLev L ! nat j < int (length (tInterp s))"
    and rf: "recordFailure P ?s1 n (StdLev L ! nat j) (SigBelow L ! nat j) (SigAbove L ! nat j)
              = Some (s', n')"
    by simp_all
  note e = recordFailure_effect [OF rf]
  have nn: "0 \<le> StdLev L ! nat j \<and> 0 \<le> SigBelow L ! nat j \<and> 0 \<le> SigAbove L ! nat j"
    using e(9) .
  show "n' = n + 1" using e(1) .
  show "tInterp s' = (tInterp s)[nat (StdLev L ! nat j) := interpValue L tObsFinal j]"
    using e(2) by simp
  show "nat (StdLev L ! nat j) < length (tInterp s)" using rng by (simp add: nat_less_iff)
  show "warnings s' = warnings s" using e(3) by simp
  show "NumInterpErrObs s' = NumInterpErrObs s" using e(4) by simp
  show "NumAnyErrors s \<noteq> []" using e(5) by simp
  show "NumAnyErrors s' = (NumAnyErrors s)[0 := NumAnyErrors s ! 0 + 1]" using e(6) by simp
  show "NumInterpErrors s \<noteq> []" using e(7) by simp
  show "NumInterpErrors s' = (NumInterpErrors s)[0 := NumInterpErrors s ! 0 + 1]"
    using e(8) by simp
  show "\<forall>k \<in> set (triple L j). 0 \<le> k \<and> nat k < length (tFlags s) \<and> nat k < length (LevErrors s)"
    using e(9) e(10) e(11) by (simp add: triple_def)
  show "length (tFlags s') = length (tFlags s)" using e(12) by simp
  show "length (LevErrors s') = length (LevErrors s)" using e(13) by simp
  show "tFlags s' ! i =
           (if int i \<in> set (triple L j)
            then tFlags s ! i OR InterpolationFlag P else tFlags s ! i)"
    using e(14) [of i] unfolding triple_nat_mem [OF nn, of i] by simp
  show "LevErrors s' ! i = LevErrors s ! i + int (count_list (triple L j) (int i))"
    using e(15) [of i] unfolding triple_count [OF nn, of _ i] by simp
qed

lemma checkLevel_not_fails:
  assumes step: "checkLevel ops P L prs tObsFinal s n j = Some (s', n')"
    and nf: "\<not> levelFails ops P L prs tObsFinal (tFlags s) j"
  shows "n' = n"
    and "s' = s\<lparr>tInterp := tInterp s'\<rparr>"
    and "length (tInterp s') = length (tInterp s)"
    and "tInterp s' =
          (if passesGuards ops P L prs (tFlags s) j
           then (tInterp s)[nat (StdLev L ! nat j) := interpValue L tObsFinal j]
           else tInterp s)"
proof -
  have "n' = n \<and> s' = s\<lparr>tInterp := tInterp s'\<rparr> \<and> length (tInterp s') = length (tInterp s) \<and>
    tInterp s' =
          (if passesGuards ops P L prs (tFlags s) j
           then (tInterp s)[nat (StdLev L ! nat j) := interpValue L tObsFinal j]
           else tInterp s)"
  proof (cases "passesGuards ops P L prs (tFlags s) j")
    case True
    from checkLevel_eval [OF step True] nf show ?thesis using True by simp
  next
    case False
    from checkLevel_skip [OF step False] show ?thesis using False by simp
  qed
  then show "n' = n"
    and "s' = s\<lparr>tInterp := tInterp s'\<rparr>"
    and "length (tInterp s') = length (tInterp s)"
    and "tInterp s' =
          (if passesGuards ops P L prs (tFlags s) j
           then (tInterp s)[nat (StdLev L ! nat j) := interpValue L tObsFinal j]
           else tInterp s)"
    by blast+
qed

subsection \<open>Flags only gain bits\<close>

lemma and_or_zeroD:
  fixes a b c :: "32 word"
  assumes "(a OR b) AND c = 0"
  shows "a AND c = 0"
proof -
  have "(a AND c) OR (b AND c) = 0"
    using assms by (simp add: bit.conj_disj_distrib2)
  then show ?thesis by (simp add: or_eq_0_iff)
qed

lemma passesGuards_mono:
  assumes "f' ! nat (StdLev L ! nat j) = f ! nat (StdLev L ! nat j) \<or>
           f' ! nat (StdLev L ! nat j) = f ! nat (StdLev L ! nat j) OR m"
    and "passesGuards ops P L prs f' j"
  shows "passesGuards ops P L prs f j"
proof -
  from assms(2) have z': "f' ! nat (StdLev L ! nat j) AND SurfaceLevelFlag P = 0"
    by (simp add: passesGuards_def Let_def)
  from assms(1) have z: "f ! nat (StdLev L ! nat j) AND SurfaceLevelFlag P = 0"
  proof
    assume "f' ! nat (StdLev L ! nat j) = f ! nat (StdLev L ! nat j)"
    with z' show ?thesis by simp
  next
    assume "f' ! nat (StdLev L ! nat j) = f ! nat (StdLev L ! nat j) OR m"
    with z' show ?thesis by (simp add: and_or_zeroD)
  qed
  with assms(2) show ?thesis by (simp add: passesGuards_def Let_def)
qed

lemma levelFails_mono:
  assumes "f' ! nat (StdLev L ! nat j) = f ! nat (StdLev L ! nat j) \<or>
           f' ! nat (StdLev L ! nat j) = f ! nat (StdLev L ! nat j) OR m"
    and "levelFails ops P L prs tObsFinal f' j"
  shows "levelFails ops P L prs tObsFinal f j"
  using assms passesGuards_mono [of f' L j f m ops P prs] by (simp add: levelFails_def)

lemma checkLevel_flags:
  assumes "checkLevel ops P L prs tObsFinal s n j = Some (s', n')"
  shows "length (tFlags s') = length (tFlags s)"
    and "tFlags s' ! i = tFlags s ! i \<or>
         (tFlags s' ! i = tFlags s ! i OR InterpolationFlag P \<and>
          levelFails ops P L prs tObsFinal (tFlags s) j \<and> int i \<in> set (triple L j))"
proof -
  have "length (tFlags s') = length (tFlags s) \<and> (tFlags s' ! i = tFlags s ! i \<or>
         (tFlags s' ! i = tFlags s ! i OR InterpolationFlag P \<and>
          levelFails ops P L prs tObsFinal (tFlags s) j \<and> int i \<in> set (triple L j)))"
  proof (cases "levelFails ops P L prs tObsFinal (tFlags s) j")
    case True
    from checkLevel_fails(11) [OF assms True] checkLevel_fails(13) [OF assms True, of i] True
    show ?thesis by simp
  next
    case False
    from checkLevel_not_fails(2) [OF assms False] have "tFlags s' = tFlags (s\<lparr>tInterp := tInterp s'\<rparr>)"
      by simp
    then show ?thesis by simp
  qed
  then show "length (tFlags s') = length (tFlags s)"
    and "tFlags s' ! i = tFlags s ! i \<or>
         (tFlags s' ! i = tFlags s ! i OR InterpolationFlag P \<and>
          levelFails ops P L prs tObsFinal (tFlags s) j \<and> int i \<in> set (triple L j))"
    by blast+
qed

lemma checkLevel_frame:
  assumes "checkLevel ops P L prs tObsFinal s n j = Some (s', n')"
  shows "length (LevErrors s') = length (LevErrors s)"
    and "length (tInterp s') = length (tInterp s)"
    and "warnings s' = warnings s"
    and "NumInterpErrObs s' = NumInterpErrObs s"
    and "n \<le> n'"
proof -
  have "length (LevErrors s') = length (LevErrors s) \<and> length (tInterp s') = length (tInterp s) \<and>
    warnings s' = warnings s \<and> NumInterpErrObs s' = NumInterpErrObs s \<and> n \<le> n'"
  proof (cases "levelFails ops P L prs tObsFinal (tFlags s) j")
    case True
    note e = checkLevel_fails [OF assms True]
    show ?thesis using e(1) e(2) e(4) e(5) e(12) by simp
  next
    case False
    note e = checkLevel_not_fails [OF assms False]
    have "LevErrors s' = LevErrors (s\<lparr>tInterp := tInterp s'\<rparr>)"
      "warnings s' = warnings (s\<lparr>tInterp := tInterp s'\<rparr>)"
      "NumInterpErrObs s' = NumInterpErrObs (s\<lparr>tInterp := tInterp s'\<rparr>)"
      using e(2) by simp_all
    then show ?thesis using e(1) e(3) by simp
  qed
  then show "length (LevErrors s') = length (LevErrors s)"
    and "length (tInterp s') = length (tInterp s)"
    and "warnings s' = warnings s"
    and "NumInterpErrObs s' = NumInterpErrObs s"
    and "n \<le> n'"
    by blast+
qed

subsection \<open>The loop\<close>

lemma stdLevelLoop_Cons:
  "stdLevelLoop ops P L prs tObsFinal (j # js) (s, n) = Some r \<longleftrightarrow>
     (\<exists>s1 n1. checkLevel ops P L prs tObsFinal s n j = Some (s1, n1) \<and>
              stdLevelLoop ops P L prs tObsFinal js (s1, n1) = Some r)"
  by (auto split: option.splits)

lemma stdLevelLoop_flags:
  assumes "stdLevelLoop ops P L prs tObsFinal js (s, n) = Some (s', n')"
  shows "length (tFlags s') = length (tFlags s) \<and>
         (\<forall>i. tFlags s' ! i = tFlags s ! i \<or>
           (tFlags s' ! i = tFlags s ! i OR InterpolationFlag P \<and>
            (\<exists>j \<in> set js. levelFails ops P L prs tObsFinal (tFlags s) j \<and>
                           int i \<in> set (triple L j))))"
  using assms
proof (induction js arbitrary: s n)
  case Nil
  then show ?case by simp
next
  case (Cons j js)
  from Cons.prems obtain s1 n1 where
    step: "checkLevel ops P L prs tObsFinal s n j = Some (s1, n1)"
    and rest: "stdLevelLoop ops P L prs tObsFinal js (s1, n1) = Some (s', n')"
    by (cases "checkLevel ops P L prs tObsFinal s n j") auto
  note A = checkLevel_flags [OF step]
  note B = Cons.IH [OF rest]
  have mono: "levelFails ops P L prs tObsFinal (tFlags s) k"
    if "levelFails ops P L prs tObsFinal (tFlags s1) k" for k
    using levelFails_mono [OF _ that, of "tFlags s" "InterpolationFlag P"]
      A(2) [of "nat (StdLev L ! nat k)"] by blast
  have "tFlags s' ! i = tFlags s ! i \<or>
           (tFlags s' ! i = tFlags s ! i OR InterpolationFlag P \<and>
            (\<exists>k \<in> set (j # js). levelFails ops P L prs tObsFinal (tFlags s) k \<and>
                           int i \<in> set (triple L k)))" for i
  proof -
    from B have "tFlags s' ! i = tFlags s1 ! i \<or>
           (tFlags s' ! i = tFlags s1 ! i OR InterpolationFlag P \<and>
            (\<exists>k \<in> set js. levelFails ops P L prs tObsFinal (tFlags s1) k \<and>
                           int i \<in> set (triple L k)))" by blast
    then show ?thesis
    proof
      assume "tFlags s' ! i = tFlags s1 ! i"
      with A(2) [of i] show ?thesis by auto
    next
      assume b: "tFlags s' ! i = tFlags s1 ! i OR InterpolationFlag P \<and>
            (\<exists>k \<in> set js. levelFails ops P L prs tObsFinal (tFlags s1) k \<and>
                           int i \<in> set (triple L k))"
      then obtain k where k: "k \<in> set js" "levelFails ops P L prs tObsFinal (tFlags s1) k"
        "int i \<in> set (triple L k)" by blast
      have "tFlags s' ! i = tFlags s ! i OR InterpolationFlag P"
        using b A(2) [of i] by (auto simp: or.assoc)
      with k mono show ?thesis by auto
    qed
  qed
  with A(1) B show ?case by simp
qed

lemma stdLevelLoop_ConsE:
  assumes "stdLevelLoop ops P L prs tObsFinal (j # js) (s, n) = Some r"
  obtains s1 n1 where "checkLevel ops P L prs tObsFinal s n j = Some (s1, n1)"
    and "stdLevelLoop ops P L prs tObsFinal js (s1, n1) = Some r"
  using assms by (cases "checkLevel ops P L prs tObsFinal s n j") auto

lemma stdLevelLoop_frame:
  assumes "stdLevelLoop ops P L prs tObsFinal js (s, n) = Some (s', n')"
  shows "length (LevErrors s') = length (LevErrors s) \<and>
         length (tInterp s') = length (tInterp s) \<and>
         warnings s' = warnings s \<and> NumInterpErrObs s' = NumInterpErrObs s \<and> n \<le> n'"
  using assms
proof (induction js arbitrary: s n)
  case Nil
  then show ?case by simp
next
  case (Cons j js)
  from Cons.prems obtain s1 n1 where
    step: "checkLevel ops P L prs tObsFinal s n j = Some (s1, n1)"
    and rest: "stdLevelLoop ops P L prs tObsFinal js (s1, n1) = Some (s', n')"
    by (rule stdLevelLoop_ConsE)
  from checkLevel_frame [OF step] Cons.IH [OF rest] show ?case by simp
qed

text \<open>A loop in which every level is skipped changes nothing.\<close>

lemma stdLevelLoop_all_skipped:
  assumes "stdLevelLoop ops P L prs tObsFinal js (s, n) = Some (s', n')"
    and "\<forall>j \<in> set js. \<not> passesGuards ops P L prs (tFlags s) j"
  shows "s' = s \<and> n' = n"
  using assms
proof (induction js arbitrary: s n)
  case Nil
  then show ?case by simp
next
  case (Cons j js)
  from Cons.prems(1) obtain s1 n1 where
    step: "checkLevel ops P L prs tObsFinal s n j = Some (s1, n1)"
    and rest: "stdLevelLoop ops P L prs tObsFinal js (s1, n1) = Some (s', n')"
    by (rule stdLevelLoop_ConsE)
  from Cons.prems(2) have "\<not> passesGuards ops P L prs (tFlags s) j" by simp
  from checkLevel_skip [OF step this] have eq: "s1 = s" "n1 = n" by simp_all
  from Cons.prems(2) have "\<forall>k \<in> set js. \<not> passesGuards ops P L prs (tFlags s1) k"
    by (simp add: eq)
  from Cons.IH [OF rest this] show ?case by (simp add: eq)
qed

text \<open>The local \<open>NumErrors\<close> grows exactly when some level of the loop fails.\<close>

lemma stdLevelLoop_NumErrors:
  assumes "stdLevelLoop ops P L prs tObsFinal js (s, n) = Some (s', n')"
  shows "n < n' \<longleftrightarrow> (\<exists>j \<in> set js. levelFails ops P L prs tObsFinal (tFlags s) j)"
  using assms
proof (induction js arbitrary: s n)
  case Nil
  then show ?case by simp
next
  case (Cons j js)
  from Cons.prems obtain s1 n1 where
    step: "checkLevel ops P L prs tObsFinal s n j = Some (s1, n1)"
    and rest: "stdLevelLoop ops P L prs tObsFinal js (s1, n1) = Some (s', n')"
    by (rule stdLevelLoop_ConsE)
  from stdLevelLoop_frame [OF rest] have le: "n1 \<le> n'" by simp
  show ?case
  proof (cases "levelFails ops P L prs tObsFinal (tFlags s) j")
    case True
    from checkLevel_fails(1) [OF step True] le have "n < n'" by simp
    with True show ?thesis by simp
  next
    case False
    note e = checkLevel_not_fails [OF step False]
    have "tFlags s1 = tFlags (s\<lparr>tInterp := tInterp s1\<rparr>)" using e(2) by simp
    then have "tFlags s1 = tFlags s" by simp
    with Cons.IH [OF rest] e(1) False show ?thesis by simp
  qed
qed

text \<open>A level whose flags carry a surface bit keeps it, and its \<open>tInterp\<close> entry is not written.\<close>

lemma and_or_nonzero:
  fixes a b c :: "32 word"
  assumes "a AND c \<noteq> 0"
  shows "(a OR b) AND c \<noteq> 0"
  using assms and_or_zeroD [of a b c] by blast

lemma checkLevel_surface:
  assumes step: "checkLevel ops P L prs tObsFinal s n j = Some (s', n')"
    and surf: "tFlags s ! lev AND SurfaceLevelFlag P \<noteq> 0"
  shows "tFlags s' ! lev AND SurfaceLevelFlag P \<noteq> 0 \<and> tInterp s' ! lev = tInterp s ! lev"
proof -
  have fl: "tFlags s' ! lev AND SurfaceLevelFlag P \<noteq> 0"
    using checkLevel_flags(2) [OF step, of lev] surf and_or_nonzero by auto
  have "tInterp s' ! lev = tInterp s ! lev"
  proof (cases "passesGuards ops P L prs (tFlags s) j")
    case False
    from checkLevel_skip [OF step False] show ?thesis by simp
  next
    case True
    then have "tFlags s ! nat (StdLev L ! nat j) AND SurfaceLevelFlag P = 0"
      by (simp add: passesGuards_def Let_def)
    with surf have ne: "nat (StdLev L ! nat j) \<noteq> lev" by auto
    have "tInterp s' = (tInterp s)[nat (StdLev L ! nat j) := interpValue L tObsFinal j]"
    proof (cases "levelFails ops P L prs tObsFinal (tFlags s) j")
      case True
      from checkLevel_fails(2) [OF step True] show ?thesis .
    next
      case False
      from checkLevel_not_fails(4) [OF step False] True show ?thesis by simp
    qed
    with ne show ?thesis by simp
  qed
  with fl show ?thesis by simp
qed

lemma stdLevelLoop_surface:
  assumes "stdLevelLoop ops P L prs tObsFinal js (s, n) = Some (s', n')"
    and "tFlags s ! lev AND SurfaceLevelFlag P \<noteq> 0"
  shows "tInterp s' ! lev = tInterp s ! lev"
  using assms
proof (induction js arbitrary: s n)
  case Nil
  then show ?case by simp
next
  case (Cons j js)
  from Cons.prems(1) obtain s1 n1 where
    step: "checkLevel ops P L prs tObsFinal s n j = Some (s1, n1)"
    and rest: "stdLevelLoop ops P L prs tObsFinal js (s1, n1) = Some (s', n')"
    by (rule stdLevelLoop_ConsE)
  from checkLevel_surface [OF step Cons.prems(2)]
  have a: "tFlags s1 ! lev AND SurfaceLevelFlag P \<noteq> 0" and b: "tInterp s1 ! lev = tInterp s ! lev"
    by simp_all
  from Cons.IH [OF rest a] b show ?case by simp
qed

subsection \<open>The whole check, and the concrete profile\<close>

lemmas ex_defs = exParams_def exLevels_def exCalc_def exProfile_def exObsFinal_def exState_def exStart_def

lemmas model_defs = checkLevel_def vec_at_def vec_set_def vec_or_def vec_incr_def incr_def
  INT_MAX_def INT_MIN_def real_ops_def c_round_def selectBigGap_def c_div_def gapGuard_def
  interpolate_def exceedsTol_def TolRelax_def recordFailure_def

lemma ex_correct: "correctVector (tObs exProfile) (tObsCorrection exProfile) = exObsFinal"
  by (simp add: ex_defs correctVector_def)

lemma ex_step0:
  "checkLevel real_ops exParams exLevels (pressures exProfile) exObsFinal exStart 0 0 =
     Some (exStart\<lparr>tFlags := [20, 16, 16, 0, 0], NumAnyErrors := [1], NumInterpErrors := [1],
                   LevErrors := [0, 0, 0, - 1, - 1],
                   tInterp := [- 9999, 284, - 9999, - 9999, - 9999]\<rparr>, 1)"
  by (simp add: ex_defs model_defs)

lemma ex_step1:
  "checkLevel real_ops exParams exLevels (pressures exProfile) exObsFinal
     (exStart\<lparr>tFlags := [20, 16, 16, 0, 0], NumAnyErrors := [1], NumInterpErrors := [1],
                   LevErrors := [0, 0, 0, - 1, - 1],
                   tInterp := [- 9999, 284, - 9999, - 9999, - 9999]\<rparr>) 1 1 =
     Some (exStart\<lparr>tFlags := [20, 16, 16, 16, 16], NumAnyErrors := [2], NumInterpErrors := [2],
                   LevErrors := [0, 0, 1, 0, 0],
                   tInterp := [- 9999, 284, - 9999, 270, - 9999]\<rparr>, 2)"
  by (simp add: ex_defs model_defs)

lemma ex_loop:
  "stdLevelLoop real_ops exParams exLevels (pressures exProfile) exObsFinal [0, 1] (exStart, 0) =
     Some (exStart\<lparr>tFlags := [20, 16, 16, 16, 16], NumAnyErrors := [2], NumInterpErrors := [2],
                   LevErrors := [0, 0, 1, 0, 0],
                   tInterp := [- 9999, 284, - 9999, 270, - 9999]\<rparr>, 2)"
  by (simp add: ex_step0 ex_step1)

lemma ex_valid:
  "\<not> anyVectorEmpty (inputSizes exProfile exState)" "allVectorsSameSize (inputSizes exProfile exState)"
  by (simp_all add: anyVectorEmpty_def allVectorsSameSize_def inputSizes_def ex_defs)

lemma checkInOrder_loop:
  assumes "0 \<le> nl"
    and "stdLevelLoop ops P
           (calc nl (pressures inp) (correctVector (tObs inp) (tObsCorrection inp)) (tFlags s))
           (pressures inp) (correctVector (tObs inp) (tObsCorrection inp))
           (order (NumStd (calc nl (pressures inp)
                     (correctVector (tObs inp) (tObsCorrection inp)) (tFlags s))))
           (s\<lparr>LevErrors := replicate (nat nl) (- 1),
              tInterp := replicate (nat nl) (missingValueFloat P)\<rparr>, 0) = Some (s2, k)"
  shows "checkInOrder order ops P calc nl inp s =
           (if 0 < k
            then map_option (\<lambda>c. s2\<lparr>NumInterpErrObs := c\<rparr>) (vec_incr (NumInterpErrObs s2) 0)
            else Some s2)"
  using assms by (simp add: checkInOrder_def Let_def)

lemma runCheck_valid:
  assumes "\<not> anyVectorEmpty (inputSizes inp s)" and "allVectorsSameSize (inputSizes inp s)"
  shows "runCheck ops P calc nl inp s = checkInOrder loopOrder ops P calc nl inp s"
  using assms by (simp add: runCheck_def)

lemma ex_run:
  "runCheck real_ops exParams exCalc 5 exProfile exState =
     Some (exStart\<lparr>tFlags := [20, 16, 16, 16, 16], NumAnyErrors := [2], NumInterpErrors := [2],
                   NumInterpErrObs := [1], LevErrors := [0, 0, 1, 0, 0],
                   tInterp := [- 9999, 284, - 9999, 270, - 9999]\<rparr>)"
proof -
  have a: "exState\<lparr>LevErrors := replicate (nat 5) (- 1),
              tInterp := replicate (nat 5) (missingValueFloat exParams)\<rparr> = exStart"
    by (simp add: exStart_def exParams_def eval_nat_numeral)
  have b: "loopOrder (NumStd exLevels) = [0, 1]"
    by (simp add: loopOrder_def exLevels_def upto_rec1)
  have "stdLevelLoop real_ops exParams
           (exCalc 5 (pressures exProfile) (correctVector (tObs exProfile) (tObsCorrection exProfile))
              (tFlags exState))
           (pressures exProfile) (correctVector (tObs exProfile) (tObsCorrection exProfile))
           (loopOrder (NumStd (exCalc 5 (pressures exProfile)
                     (correctVector (tObs exProfile) (tObsCorrection exProfile)) (tFlags exState))))
           (exState\<lparr>LevErrors := replicate (nat 5) (- 1),
              tInterp := replicate (nat 5) (missingValueFloat exParams)\<rparr>, 0) =
         Some (exStart\<lparr>tFlags := [20, 16, 16, 16, 16], NumAnyErrors := [2], NumInterpErrors := [2],
                   LevErrors := [0, 0, 1, 0, 0],
                   tInterp := [- 9999, 284, - 9999, 270, - 9999]\<rparr>, 2)"
    unfolding exCalc_def ex_correct a b by (rule ex_loop)
  from checkInOrder_loop [where calc = exCalc and order = loopOrder and nl = 5 and inp = exProfile
      and s = exState and ops = real_ops and P = exParams, OF _ this]
  have "checkInOrder loopOrder real_ops exParams exCalc 5 exProfile exState =
     Some (exStart\<lparr>tFlags := [20, 16, 16, 16, 16], NumAnyErrors := [2], NumInterpErrors := [2],
                   NumInterpErrObs := [1], LevErrors := [0, 0, 1, 0, 0],
                   tInterp := [- 9999, 284, - 9999, 270, - 9999]\<rparr>)"
    by (simp add: vec_incr_def vec_at_def vec_set_def incr_def INT_MAX_def exStart_def exState_def)
  then show ?thesis by (simp only: runCheck_valid [OF ex_valid])
qed

lemma inputSizes_valid:
  "\<not> anyVectorEmpty (inputSizes inp s) \<and> allVectorsSameSize (inputSizes inp s) \<longleftrightarrow>
     pressures inp \<noteq> [] \<and> length (tObs inp) = length (pressures inp) \<and>
     length (tBkg inp) = length (pressures inp) \<and> length (tFlags s) = length (pressures inp) \<and>
     length (tObsCorrection inp) = length (pressures inp)"
  by (auto simp: anyVectorEmpty_def allVectorsSameSize_def inputSizes_def)

lemma anyVectorEmpty_inputSizes:
  "anyVectorEmpty (inputSizes inp s) \<longleftrightarrow>
     pressures inp = [] \<or> tObs inp = [] \<or> tBkg inp = [] \<or> tFlags s = [] \<or>
     tObsCorrection inp = []"
  by (auto simp: anyVectorEmpty_def inputSizes_def)

subsection \<open>The selection of the gap threshold\<close>

lemma scanBands_Some:
  assumes "scanBands ops gaps IPStd d i0 sls = Some g"
  shows "(\<exists>i < length sls. sls ! i \<le> f_of_int ops IPStd \<and>
            (\<forall>k < i. \<not> sls ! k \<le> f_of_int ops IPStd) \<and>
            i0 + i < length gaps \<and> g = f_hPa_to_Pa ops (gaps ! (i0 + i))) \<or>
         ((\<forall>k < length sls. \<not> sls ! k \<le> f_of_int ops IPStd) \<and> g = d)"
  using assms
proof (induction sls arbitrary: i0)
  case Nil
  then show ?case by simp
next
  case (Cons sl sls)
  show ?case
  proof (cases "sl \<le> f_of_int ops IPStd")
    case True
    with Cons.prems have "i0 < length gaps \<and> g = f_hPa_to_Pa ops (gaps ! i0)"
      by (auto simp: vec_at_def split: if_splits)
    with True have "0 < length (sl # sls) \<and> (sl # sls) ! 0 \<le> f_of_int ops IPStd \<and>
            (\<forall>k < 0. \<not> (sl # sls) ! k \<le> f_of_int ops IPStd) \<and>
            i0 + 0 < length gaps \<and> g = f_hPa_to_Pa ops (gaps ! (i0 + 0))"
      by simp
    then show ?thesis by blast
  next
    case False
    with Cons.prems have "scanBands ops gaps IPStd d (Suc i0) sls = Some g" by simp
    from Cons.IH [OF this] show ?thesis
    proof
      assume "\<exists>i < length sls. sls ! i \<le> f_of_int ops IPStd \<and>
            (\<forall>k < i. \<not> sls ! k \<le> f_of_int ops IPStd) \<and>
            Suc i0 + i < length gaps \<and> g = f_hPa_to_Pa ops (gaps ! (Suc i0 + i))"
      then obtain i where i: "i < length sls" "sls ! i \<le> f_of_int ops IPStd"
        "\<forall>k < i. \<not> sls ! k \<le> f_of_int ops IPStd"
        "Suc i0 + i < length gaps" "g = f_hPa_to_Pa ops (gaps ! (Suc i0 + i))"
        by blast
      have "\<forall>k < Suc i. \<not> (sl # sls) ! k \<le> f_of_int ops IPStd"
        using False i(3) by (auto simp: nth_Cons split: nat.splits)
      with i have "Suc i < length (sl # sls) \<and> (sl # sls) ! Suc i \<le> f_of_int ops IPStd \<and>
            (\<forall>k < Suc i. \<not> (sl # sls) ! k \<le> f_of_int ops IPStd) \<and>
            i0 + Suc i < length gaps \<and> g = f_hPa_to_Pa ops (gaps ! (i0 + Suc i))"
        by simp
      then show ?thesis by blast
    next
      assume a: "(\<forall>k < length sls. \<not> sls ! k \<le> f_of_int ops IPStd) \<and> g = d"
      have "\<forall>k < length (sl # sls). \<not> (sl # sls) ! k \<le> f_of_int ops IPStd"
        using False a by (auto simp: nth_Cons split: nat.splits)
      with a show ?thesis by blast
    qed
  qed
qed

subsection \<open>Verdicts on the concrete profile\<close>

lemma ex_passes0:
  "passesGuards real_ops exParams exLevels (pressures exProfile) (tFlags exStart) 0"
  by (simp add: passesGuards_def levelBigGap_def selectBigGap_def ex_defs
      real_ops_def c_round_def INT_MAX_def INT_MIN_def vec_at_def c_div_def)

lemma ex_fails0:
  "levelFails real_ops exParams exLevels (pressures exProfile) exObsFinal (tFlags exStart) 0"
  using ex_passes0
  by (simp add: levelFails_def interpValue_def exceedsTol_def TolRelax_def ex_defs)

subsection \<open>From the loop to the whole check\<close>

lemma checkInOrder_SomeE:
  assumes "checkInOrder order ops P calc nl inp s = Some out"
  obtains s2 k where "0 \<le> nl"
    and "stdLevelLoop ops P (stdLevelsOf calc nl inp s) (pressures inp) (tObsFinalOf inp)
           (order (NumStd (stdLevelsOf calc nl inp s))) (loopStart P nl s, 0) = Some (s2, k)"
    and "0 < k \<Longrightarrow> NumInterpErrObs s2 \<noteq> [] \<and>
           out = s2\<lparr>NumInterpErrObs := (NumInterpErrObs s2)[0 := NumInterpErrObs s2 ! 0 + 1]\<rparr>"
    and "\<not> 0 < k \<Longrightarrow> out = s2"
proof -
  from assms have nl: "0 \<le> nl"
    by (auto simp: checkInOrder_def Let_def split: if_splits)
  with assms obtain s2 k where
    loop: "stdLevelLoop ops P (stdLevelsOf calc nl inp s) (pressures inp) (tObsFinalOf inp)
           (order (NumStd (stdLevelsOf calc nl inp s))) (loopStart P nl s, 0) = Some (s2, k)"
    by (auto simp: checkInOrder_def Let_def split: option.splits)
  from assms checkInOrder_loop [where calc = calc and order = order, OF nl loop]
  have out: "(if 0 < k
            then map_option (\<lambda>c. s2\<lparr>NumInterpErrObs := c\<rparr>) (vec_incr (NumInterpErrObs s2) 0)
            else Some s2) = Some out" by simp
  have a: "NumInterpErrObs s2 \<noteq> [] \<and>
           out = s2\<lparr>NumInterpErrObs := (NumInterpErrObs s2)[0 := NumInterpErrObs s2 ! 0 + 1]\<rparr>"
    if "0 < k"
    using out that by (auto simp: vec_incr_Some)
  have b: "out = s2" if "\<not> 0 < k" using out that by simp
  from nl loop a b that show thesis by blast
qed

lemma set_loopOrder: "j \<in> set (loopOrder n) \<longleftrightarrow> 0 \<le> j \<and> j < n"
  by (auto simp: loopOrder_def)

lemma runCheck_SomeE:
  assumes "runCheck ops P calc nl inp s = Some out"
    and "\<not> anyVectorEmpty (inputSizes inp s)" and "allVectorsSameSize (inputSizes inp s)"
  obtains s2 k where "0 \<le> nl"
    and "stdLevelLoop ops P (stdLevelsOf calc nl inp s) (pressures inp) (tObsFinalOf inp)
           (loopOrder (NumStd (stdLevelsOf calc nl inp s))) (loopStart P nl s, 0) = Some (s2, k)"
    and "0 < k \<Longrightarrow> NumInterpErrObs s2 \<noteq> [] \<and>
           out = s2\<lparr>NumInterpErrObs := (NumInterpErrObs s2)[0 := NumInterpErrObs s2 ! 0 + 1]\<rparr>"
    and "\<not> 0 < k \<Longrightarrow> out = s2"
proof -
  from assms have "checkInOrder loopOrder ops P calc nl inp s = Some out"
    by (simp add: runCheck_valid)
  from checkInOrder_SomeE [OF this] that show thesis by blast
qed

lemma runCheck_invalid:
  assumes "runCheck ops P calc nl inp s = Some out"
    and "\<not> (\<not> anyVectorEmpty (inputSizes inp s) \<and> allVectorsSameSize (inputSizes inp s))"
  shows "\<exists>w. out = s\<lparr>warnings := w\<rparr>"
  using assms by (auto simp: runCheck_def split: if_splits)

lemma ex_fails_at_input:
  "levelFails real_ops exParams (stdLevelsOf exCalc 5 exProfile exState) (pressures exProfile)
     (tObsFinalOf exProfile) (tFlags exState) 0"
  using ex_fails0 by (simp add: exCalc_def ex_correct exStart_def)

lemma runCheck_from_loop:
  assumes "\<not> anyVectorEmpty (inputSizes inp s)" and "allVectorsSameSize (inputSizes inp s)"
    and "0 \<le> nl"
    and "stdLevelsOf calc nl inp s = L"
    and "stdLevelLoop ops P L (pressures inp) (tObsFinalOf inp) (loopOrder (NumStd L))
           (loopStart P nl s, 0) = Some (s2, k)"
  shows "runCheck ops P calc nl inp s =
           (if 0 < k
            then map_option (\<lambda>c. s2\<lparr>NumInterpErrObs := c\<rparr>) (vec_incr (NumInterpErrObs s2) 0)
            else Some s2)"
proof -
  from assms(4,5) have "stdLevelLoop ops P (stdLevelsOf calc nl inp s) (pressures inp) (tObsFinalOf inp)
           (loopOrder (NumStd (stdLevelsOf calc nl inp s))) (loopStart P nl s, 0) = Some (s2, k)"
    by simp
  from checkInOrder_loop [where calc = calc and order = loopOrder, OF assms(3) this]
  show ?thesis by (simp only: runCheck_valid [OF assms(1,2)])
qed

lemma ex_sparse_steps:
  "checkLevel real_ops exParams (exLevels\<lparr>NumSig := 2\<rparr>) (pressures exProfile) exObsFinal exStart 0 0
     = Some (exStart, 0)"
  "checkLevel real_ops exParams (exLevels\<lparr>NumSig := 2\<rparr>) (pressures exProfile) exObsFinal exStart 0 1
     = Some (exStart, 0)"
  by (simp_all add: ex_defs model_defs)

lemma ex_sparse_run:
  "runCheck real_ops exParams (\<lambda>n prs t f. exLevels\<lparr>NumSig := 2\<rparr>) 5 exProfile exState = Some exStart"
proof -
  have a: "loopStart exParams 5 exState = exStart"
    by (simp add: exStart_def exParams_def eval_nat_numeral)
  have b: "loopOrder (NumStd (exLevels\<lparr>NumSig := 2\<rparr>)) = [0, 1]"
    by (simp add: loopOrder_def exLevels_def upto_rec1)
  have "stdLevelLoop real_ops exParams (exLevels\<lparr>NumSig := 2\<rparr>) (pressures exProfile)
          (tObsFinalOf exProfile) (loopOrder (NumStd (exLevels\<lparr>NumSig := 2\<rparr>)))
          (loopStart exParams 5 exState, 0) = Some (exStart, 0)"
    unfolding a b ex_correct by (simp add: ex_sparse_steps)
  from runCheck_from_loop [where calc = "\<lambda>n prs t f. exLevels\<lparr>NumSig := 2\<rparr>", OF ex_valid _ _ this]
  show ?thesis by simp
qed

lemma ex_no_bracket_step:
  "checkLevel real_ops exParams (exLevels\<lparr>SigBelow := [- 1, 2]\<rparr>) (pressures exProfile) exObsFinal
     exStart 0 0 = Some (exStart, 0)"
  by (simp add: ex_defs model_defs)

lemma ex_surface_steps:
  "checkLevel real_ops exParams exLevels (pressures exProfile) exObsFinal
     (exStart\<lparr>tFlags := [4, 4, 0, 0, 0]\<rparr>) 0 0 = Some (exStart\<lparr>tFlags := [4, 4, 0, 0, 0]\<rparr>, 0)"
  "checkLevel real_ops exParams exLevels (pressures exProfile) exObsFinal
     (exStart\<lparr>tFlags := [4, 4, 0, 0, 0]\<rparr>) 0 1 =
   Some (exStart\<lparr>tFlags := [4, 4, 16, 16, 16], NumAnyErrors := [1], NumInterpErrors := [1],
                 LevErrors := [- 1, - 1, 0, 0, 0],
                 tInterp := [- 9999, - 9999, - 9999, 270, - 9999]\<rparr>, 1)"
  by (simp_all add: ex_defs model_defs)

lemma ex_surface_run:
  "runCheck real_ops exParams exCalc 5 exProfile (exState\<lparr>tFlags := [4, 4, 0, 0, 0]\<rparr>) =
   Some (exStart\<lparr>tFlags := [4, 4, 16, 16, 16], NumAnyErrors := [1], NumInterpErrors := [1],
                 NumInterpErrObs := [1], LevErrors := [- 1, - 1, 0, 0, 0],
                 tInterp := [- 9999, - 9999, - 9999, 270, - 9999]\<rparr>)"
proof -
  have v: "\<not> anyVectorEmpty (inputSizes exProfile (exState\<lparr>tFlags := [4, 4, 0, 0, 0]\<rparr>))"
    "allVectorsSameSize (inputSizes exProfile (exState\<lparr>tFlags := [4, 4, 0, 0, 0]\<rparr>))"
    by (simp_all add: anyVectorEmpty_def allVectorsSameSize_def inputSizes_def ex_defs)
  have a: "loopStart exParams 5 (exState\<lparr>tFlags := [4, 4, 0, 0, 0]\<rparr>) =
             exStart\<lparr>tFlags := [4, 4, 0, 0, 0]\<rparr>"
    by (simp add: exStart_def exParams_def eval_nat_numeral)
  have b: "loopOrder (NumStd exLevels) = [0, 1]"
    by (simp add: loopOrder_def exLevels_def upto_rec1)
  have "stdLevelLoop real_ops exParams exLevels (pressures exProfile)
          (tObsFinalOf exProfile) (loopOrder (NumStd exLevels))
          (loopStart exParams 5 (exState\<lparr>tFlags := [4, 4, 0, 0, 0]\<rparr>), 0) =
        Some (exStart\<lparr>tFlags := [4, 4, 16, 16, 16], NumAnyErrors := [1], NumInterpErrors := [1],
                 LevErrors := [- 1, - 1, 0, 0, 0],
                 tInterp := [- 9999, - 9999, - 9999, 270, - 9999]\<rparr>, 1)"
    unfolding a b ex_correct by (simp add: ex_surface_steps)
  from runCheck_from_loop [where calc = exCalc, OF v _ _ this]
  show ?thesis
    by (simp add: exCalc_def vec_incr_def vec_at_def vec_set_def incr_def INT_MAX_def
        exStart_def exState_def)
qed

subsection \<open>The loop in closed form\<close>

text \<open>
  The verdict on a level depends on the flags only through the surface bits of its own
  flag word. When the verdicts of the levels still to come are not changed by an
  iteration (the invariant \<open>Q\<close> below provides this), the result of the loop is a
  function of the verdicts at the flags the loop starts with.
\<close>

lemma passesGuards_cong:
  assumes "f' ! nat (StdLev L ! nat j) AND SurfaceLevelFlag P =
           f ! nat (StdLev L ! nat j) AND SurfaceLevelFlag P"
  shows "passesGuards ops P L prs f' j = passesGuards ops P L prs f j"
  using assms by (simp add: passesGuards_def Let_def)

lemma levelFails_passes_cong:
  assumes "passesGuards ops P L prs f' j = passesGuards ops P L prs f j"
  shows "levelFails ops P L prs tObsFinal f' j = levelFails ops P L prs tObsFinal f j"
  using assms by (simp add: levelFails_def)

lemma counter_twice:
  "xs \<noteq> [] \<Longrightarrow> (xs[0 := xs ! 0 + 1])[0 := xs[0 := xs ! 0 + 1] ! 0 + m] = xs[0 := xs ! 0 + (1 + m :: int)]"
  by (cases xs) simp_all

lemma stdLevelLoop_closed_form:
  fixes Q :: "int list \<Rightarrow> 32 word list \<Rightarrow> bool"
  assumes Q1: "\<And>j js s n s1 n1. Q (j # js) (tFlags s) \<Longrightarrow>
      checkLevel ops P L prs tObsFinal s n j = Some (s1, n1) \<Longrightarrow>
      Q js (tFlags s1) \<and>
      (\<forall>k \<in> set js. passesGuards ops P L prs (tFlags s1) k = passesGuards ops P L prs (tFlags s) k)"
    and "Q js (tFlags s)"
    and "stdLevelLoop ops P L prs tObsFinal js (s, n) = Some (s', n')"
  shows "n' = n + int (length (filter (levelFails ops P L prs tObsFinal (tFlags s)) js)) \<and>
    NumAnyErrors s' = (NumAnyErrors s)[0 := NumAnyErrors s ! 0 +
       int (length (filter (levelFails ops P L prs tObsFinal (tFlags s)) js))] \<and>
    NumInterpErrors s' = (NumInterpErrors s)[0 := NumInterpErrors s ! 0 +
       int (length (filter (levelFails ops P L prs tObsFinal (tFlags s)) js))] \<and>
    (\<forall>i. LevErrors s' ! i = LevErrors s ! i +
       (\<Sum>j\<leftarrow>js. if levelFails ops P L prs tObsFinal (tFlags s) j
                 then int (count_list (triple L j) (int i)) else 0)) \<and>
    (\<forall>i. tFlags s' ! i =
       (if \<exists>j \<in> set js. levelFails ops P L prs tObsFinal (tFlags s) j \<and> int i \<in> set (triple L j)
        then tFlags s ! i OR InterpolationFlag P else tFlags s ! i)) \<and>
    (\<forall>i. (\<forall>j \<in> set js. passesGuards ops P L prs (tFlags s) j \<longrightarrow> nat (StdLev L ! nat j) \<noteq> i)
        \<longrightarrow> tInterp s' ! i = tInterp s ! i)"
  using assms(2,3)
proof (induction js arbitrary: s n)
  case Nil
  then show ?case by simp
next
  case (Cons j js)
  let ?F = "levelFails ops P L prs tObsFinal"
  let ?G = "passesGuards ops P L prs"
  from Cons.prems(2) obtain s1 n1 where
    step: "checkLevel ops P L prs tObsFinal s n j = Some (s1, n1)"
    and rest: "stdLevelLoop ops P L prs tObsFinal js (s1, n1) = Some (s', n')"
    by (rule stdLevelLoop_ConsE)
  from Q1 [OF Cons.prems(1) step]
  have Q': "Q js (tFlags s1)"
    and stab: "\<And>k. k \<in> set js \<Longrightarrow> ?G (tFlags s1) k = ?G (tFlags s) k"
    by simp_all
  have stabF: "?F (tFlags s1) k = ?F (tFlags s) k" if "k \<in> set js" for k
    using stab [OF that] by (rule levelFails_passes_cong)
  have filt: "filter (?F (tFlags s1)) js = filter (?F (tFlags s)) js"
    using stabF by (auto intro: filter_cong)
  have sums: "(\<Sum>k\<leftarrow>js. if ?F (tFlags s1) k then int (count_list (triple L k) (int i)) else 0) =
              (\<Sum>k\<leftarrow>js. if ?F (tFlags s) k then int (count_list (triple L k) (int i)) else 0)" for i
    using stabF by (auto intro: arg_cong [where f = sum_list] map_cong)
  have ex: "(\<exists>k \<in> set js. ?F (tFlags s1) k \<and> int i \<in> set (triple L k)) =
            (\<exists>k \<in> set js. ?F (tFlags s) k \<and> int i \<in> set (triple L k))" for i
    using stabF by auto
  have al: "(\<forall>k \<in> set js. ?G (tFlags s1) k \<longrightarrow> nat (StdLev L ! nat k) \<noteq> i) =
            (\<forall>k \<in> set js. ?G (tFlags s) k \<longrightarrow> nat (StdLev L ! nat k) \<noteq> i)" for i
    using stab by auto
  note IH = Cons.IH [OF Q' rest, unfolded filt sums ex al]
  show ?case
  proof (cases "?F (tFlags s) j")
    case True
    note e = checkLevel_fails [OF step True]
    have pg: "?G (tFlags s) j" using True by (simp add: levelFails_def)
    have t: "tInterp s' ! i = tInterp s ! i"
      if "\<forall>k \<in> set (j # js). ?G (tFlags s) k \<longrightarrow> nat (StdLev L ! nat k) \<noteq> i" for i
    proof -
      from that pg have "nat (StdLev L ! nat j) \<noteq> i" by simp
      then have "tInterp s1 ! i = tInterp s ! i" using e(2) by simp
      moreover from that IH have "tInterp s' ! i = tInterp s1 ! i" by simp
      ultimately show ?thesis by simp
    qed
    have l: "LevErrors s' ! i = LevErrors s ! i +
       (\<Sum>k\<leftarrow>j # js. if ?F (tFlags s) k then int (count_list (triple L k) (int i)) else 0)" for i
      using IH e(14) [of i] True by simp
    have f: "tFlags s' ! i =
       (if \<exists>k \<in> set (j # js). ?F (tFlags s) k \<and> int i \<in> set (triple L k)
        then tFlags s ! i OR InterpolationFlag P else tFlags s ! i)" for i
      using IH e(13) [of i] True by (auto simp: or.assoc)
    have c: "n' = n + int (length (filter (?F (tFlags s)) (j # js)))"
      "NumAnyErrors s' = (NumAnyErrors s)[0 := NumAnyErrors s ! 0 +
         int (length (filter (?F (tFlags s)) (j # js)))]"
      "NumInterpErrors s' = (NumInterpErrors s)[0 := NumInterpErrors s ! 0 +
         int (length (filter (?F (tFlags s)) (j # js)))]"
      using IH e(1) e(7) e(9) counter_twice [OF e(6)] counter_twice [OF e(8)] True by simp_all
    from c l f t show ?thesis by blast
  next
    case False
    note e = checkLevel_not_fails [OF step False]
    have same: "tFlags s1 = tFlags s" "NumAnyErrors s1 = NumAnyErrors s"
      "NumInterpErrors s1 = NumInterpErrors s" "LevErrors s1 = LevErrors s"
    proof -
      have "tFlags s1 = tFlags (s\<lparr>tInterp := tInterp s1\<rparr>)"
        "NumAnyErrors s1 = NumAnyErrors (s\<lparr>tInterp := tInterp s1\<rparr>)"
        "NumInterpErrors s1 = NumInterpErrors (s\<lparr>tInterp := tInterp s1\<rparr>)"
        "LevErrors s1 = LevErrors (s\<lparr>tInterp := tInterp s1\<rparr>)"
        using e(2) by simp_all
      then show "tFlags s1 = tFlags s" "NumAnyErrors s1 = NumAnyErrors s"
        "NumInterpErrors s1 = NumInterpErrors s" "LevErrors s1 = LevErrors s"
        by simp_all
    qed
    have t: "tInterp s' ! i = tInterp s ! i"
      if "\<forall>k \<in> set (j # js). ?G (tFlags s) k \<longrightarrow> nat (StdLev L ! nat k) \<noteq> i" for i
    proof -
      from that have "?G (tFlags s) j \<longrightarrow> nat (StdLev L ! nat j) \<noteq> i" by simp
      then have "tInterp s1 ! i = tInterp s ! i" using e(4) by auto
      moreover from that IH have "tInterp s' ! i = tInterp s1 ! i" by simp
      ultimately show ?thesis by simp
    qed
    have l: "LevErrors s' ! i = LevErrors s ! i +
       (\<Sum>k\<leftarrow>j # js. if ?F (tFlags s) k then int (count_list (triple L k) (int i)) else 0)" for i
      using IH same False by simp
    have f: "tFlags s' ! i =
       (if \<exists>k \<in> set (j # js). ?F (tFlags s) k \<and> int i \<in> set (triple L k)
        then tFlags s ! i OR InterpolationFlag P else tFlags s ! i)" for i
      using IH same False by auto
    have c: "n' = n + int (length (filter (?F (tFlags s)) (j # js)))"
      "NumAnyErrors s' = (NumAnyErrors s)[0 := NumAnyErrors s ! 0 +
         int (length (filter (?F (tFlags s)) (j # js)))]"
      "NumInterpErrors s' = (NumInterpErrors s)[0 := NumInterpErrors s ! 0 +
         int (length (filter (?F (tFlags s)) (j # js)))]"
      using IH e(1) same False by simp_all
    from c l f t show ?thesis by blast
  qed
qed

lemma or_and_disjoint:
  fixes a m c :: "32 word"
  assumes "m AND c = 0"
  shows "(a OR m) AND c = a AND c"
  using assms by (simp add: bit.conj_disj_distrib2)

text \<open>When the two flag constants share no bit, an iteration changes no verdict.\<close>

lemma checkLevel_keeps_verdicts:
  assumes "InterpolationFlag P AND SurfaceLevelFlag P = 0"
    and "checkLevel ops P L prs tObsFinal s n j = Some (s1, n1)"
  shows "passesGuards ops P L prs (tFlags s1) k = passesGuards ops P L prs (tFlags s) k"
proof (rule passesGuards_cong)
  from checkLevel_flags(2) [OF assms(2), of "nat (StdLev L ! nat k)"]
  show "tFlags s1 ! nat (StdLev L ! nat k) AND SurfaceLevelFlag P =
        tFlags s ! nat (StdLev L ! nat k) AND SurfaceLevelFlag P"
    using or_and_disjoint [OF assms(1)] by auto
qed

lemma stdLevelLoop_totals:
  assumes "InterpolationFlag P AND SurfaceLevelFlag P = 0"
    and "stdLevelLoop ops P L prs tObsFinal js (s, n) = Some (s', n')"
  shows "NumAnyErrors s' = (NumAnyErrors s)[0 := NumAnyErrors s ! 0 +
       int (length (filter (levelFails ops P L prs tObsFinal (tFlags s)) js))]"
    and "NumInterpErrors s' = (NumInterpErrors s)[0 := NumInterpErrors s ! 0 +
       int (length (filter (levelFails ops P L prs tObsFinal (tFlags s)) js))]"
    and "LevErrors s' ! i = LevErrors s ! i +
       (\<Sum>j\<leftarrow>js. if levelFails ops P L prs tObsFinal (tFlags s) j
                 then int (count_list (triple L j) (int i)) else 0)"
proof -
  have "True \<and> (\<forall>k \<in> set js'. passesGuards ops P L prs (tFlags s1) k =
                                passesGuards ops P L prs (tFlags s0) k)"
    if "True" and "checkLevel ops P L prs tObsFinal s0 n0 j = Some (s1, n1)"
    for j js' s0 n0 s1 n1
    using checkLevel_keeps_verdicts [OF assms(1) that(2)] by simp
  from stdLevelLoop_closed_form [where Q = "\<lambda>js f. True", OF this _ assms(2)]
  show "NumAnyErrors s' = (NumAnyErrors s)[0 := NumAnyErrors s ! 0 +
       int (length (filter (levelFails ops P L prs tObsFinal (tFlags s)) js))]"
    and "NumInterpErrors s' = (NumInterpErrors s)[0 := NumInterpErrors s ! 0 +
       int (length (filter (levelFails ops P L prs tObsFinal (tFlags s)) js))]"
    and "LevErrors s' ! i = LevErrors s ! i +
       (\<Sum>j\<leftarrow>js. if levelFails ops P L prs tObsFinal (tFlags s) j
                 then int (count_list (triple L j) (int i)) else 0)"
    by simp_all
qed

subsection \<open>Order of the iterations\<close>

lemma stdLevelLoop_defined:
  assumes "stdLevelLoop ops P L prs tObsFinal js (s, n) = Some r"
  shows "\<forall>k \<in> set js. 0 \<le> StdLev L ! nat k"
  using assms
proof (induction js arbitrary: s n)
  case Nil
  then show ?case by simp
next
  case (Cons j js)
  from Cons.prems obtain s1 n1 where
    step: "checkLevel ops P L prs tObsFinal s n j = Some (s1, n1)"
    and rest: "stdLevelLoop ops P L prs tObsFinal js (s1, n1) = Some r"
    by (rule stdLevelLoop_ConsE)
  from checkLevel_defined [OF step] Cons.IH [OF rest] show ?case by simp
qed

lemma StdLev_in_triple: "StdLev L ! nat j \<in> set (triple L j)"
  by (simp add: triple_def)

lemma evaluatedApartD:
  assumes "evaluatedApart ops P L prs js f"
  shows "distinct js"
    and "k \<in> set js \<Longrightarrow> 0 \<le> StdLev L ! nat k"
    and "a \<in> set js \<Longrightarrow> b \<in> set js \<Longrightarrow> a \<noteq> b \<Longrightarrow>
         passesGuards ops P L prs f a \<Longrightarrow> passesGuards ops P L prs f b \<Longrightarrow>
         set (triple L a) \<inter> set (triple L b) = {}"
  using assms unfolding evaluatedApart_def by blast+

lemma evaluatedApart_step:
  assumes ap: "evaluatedApart ops P L prs (j # js) (tFlags s)"
    and step: "checkLevel ops P L prs tObsFinal s n j = Some (s1, n1)"
  shows "evaluatedApart ops P L prs js (tFlags s1) \<and>
         (\<forall>k \<in> set js. passesGuards ops P L prs (tFlags s1) k = passesGuards ops P L prs (tFlags s) k)"
proof -
  let ?G = "passesGuards ops P L prs"
  note dist = evaluatedApartD(1) [OF ap]
  note nn = evaluatedApartD(2) [OF ap]
  note dj = evaluatedApartD(3) [OF ap]
  have stab: "?G (tFlags s1) k = ?G (tFlags s) k" if k: "k \<in> set js" for k
  proof (rule iffI)
    assume "?G (tFlags s1) k"
    with checkLevel_flags(2) [OF step, of "nat (StdLev L ! nat k)"]
    show "?G (tFlags s) k" using passesGuards_mono by blast
  next
    assume pk: "?G (tFlags s) k"
    have "tFlags s1 ! nat (StdLev L ! nat k) = tFlags s ! nat (StdLev L ! nat k)"
    proof (cases "levelFails ops P L prs tObsFinal (tFlags s) j")
      case False
      from checkLevel_not_fails(2) [OF step False]
      have "tFlags s1 = tFlags (s\<lparr>tInterp := tInterp s1\<rparr>)" by simp
      then show ?thesis by simp
    next
      case True
      then have pj: "?G (tFlags s) j" by (simp add: levelFails_def)
      from dist k have "j \<noteq> k" by auto
      from dj [OF _ _ this pj pk] k
      have "set (triple L j) \<inter> set (triple L k) = {}" by simp
      with StdLev_in_triple [of L k] have "StdLev L ! nat k \<notin> set (triple L j)" by blast
      moreover from nn [of k] k have "int (nat (StdLev L ! nat k)) = StdLev L ! nat k" by simp
      ultimately have "int (nat (StdLev L ! nat k)) \<notin> set (triple L j)" by simp
      with checkLevel_fails(13) [OF step True, of "nat (StdLev L ! nat k)"]
      show ?thesis by simp
    qed
    then have "tFlags s1 ! nat (StdLev L ! nat k) AND SurfaceLevelFlag P =
               tFlags s ! nat (StdLev L ! nat k) AND SurfaceLevelFlag P" by simp
    from passesGuards_cong [OF this] pk show "?G (tFlags s1) k" by simp
  qed
  have "evaluatedApart ops P L prs js (tFlags s1)"
    unfolding evaluatedApart_def
  proof (intro conjI ballI impI)
    show "distinct js" using dist by simp
  next
    fix k assume "k \<in> set js"
    then show "0 \<le> StdLev L ! nat k" using nn by simp
  next
    fix a b assume a: "a \<in> set js" and b: "b \<in> set js"
      and h: "a \<noteq> b \<and> ?G (tFlags s1) a \<and> ?G (tFlags s1) b"
    with stab have "?G (tFlags s) a" "?G (tFlags s) b" by simp_all
    with dj [of a b] a b h show "set (triple L a) \<inter> set (triple L b) = {}" by simp
  qed
  with stab show ?thesis by simp
qed

lemma stdLevelLoop_closed_form_apart:
  assumes "evaluatedApart ops P L prs js (tFlags s)"
    and "stdLevelLoop ops P L prs tObsFinal js (s, n) = Some (s', n')"
  shows "n' = n + int (length (filter (levelFails ops P L prs tObsFinal (tFlags s)) js)) \<and>
    NumAnyErrors s' = (NumAnyErrors s)[0 := NumAnyErrors s ! 0 +
       int (length (filter (levelFails ops P L prs tObsFinal (tFlags s)) js))] \<and>
    NumInterpErrors s' = (NumInterpErrors s)[0 := NumInterpErrors s ! 0 +
       int (length (filter (levelFails ops P L prs tObsFinal (tFlags s)) js))] \<and>
    (\<forall>i. LevErrors s' ! i = LevErrors s ! i +
       (\<Sum>j\<leftarrow>js. if levelFails ops P L prs tObsFinal (tFlags s) j
                 then int (count_list (triple L j) (int i)) else 0)) \<and>
    (\<forall>i. tFlags s' ! i =
       (if \<exists>j \<in> set js. levelFails ops P L prs tObsFinal (tFlags s) j \<and> int i \<in> set (triple L j)
        then tFlags s ! i OR InterpolationFlag P else tFlags s ! i)) \<and>
    (\<forall>i. (\<forall>j \<in> set js. passesGuards ops P L prs (tFlags s) j \<longrightarrow> nat (StdLev L ! nat j) \<noteq> i)
        \<longrightarrow> tInterp s' ! i = tInterp s ! i)"
proof (rule stdLevelLoop_closed_form [where Q = "evaluatedApart ops P L prs"])
  fix j js s n s1 n1
  assume "evaluatedApart ops P L prs (j # js) (tFlags s)"
    and "checkLevel ops P L prs tObsFinal s n j = Some (s1, n1)"
  then show "evaluatedApart ops P L prs js (tFlags s1) \<and>
         (\<forall>k \<in> set js. passesGuards ops P L prs (tFlags s1) k = passesGuards ops P L prs (tFlags s) k)"
    by (rule evaluatedApart_step)
qed (rule assms)+

lemma stdLevelLoop_tInterp_written:
  assumes "evaluatedApart ops P L prs js (tFlags s)"
    and "stdLevelLoop ops P L prs tObsFinal js (s, n) = Some (s', n')"
  shows "\<forall>j \<in> set js. passesGuards ops P L prs (tFlags s) j \<longrightarrow>
           tInterp s' ! nat (StdLev L ! nat j) = interpValue L tObsFinal j"
  using assms
proof (induction js arbitrary: s n)
  case Nil
  then show ?case by simp
next
  case (Cons j js)
  let ?G = "passesGuards ops P L prs"
  from Cons.prems(2) obtain s1 n1 where
    step: "checkLevel ops P L prs tObsFinal s n j = Some (s1, n1)"
    and rest: "stdLevelLoop ops P L prs tObsFinal js (s1, n1) = Some (s', n')"
    by (rule stdLevelLoop_ConsE)
  from evaluatedApart_step [OF Cons.prems(1) step]
  have ap': "evaluatedApart ops P L prs js (tFlags s1)"
    and stab: "\<And>k. k \<in> set js \<Longrightarrow> ?G (tFlags s1) k = ?G (tFlags s) k"
    by simp_all
  note IH = Cons.IH [OF ap' rest]
  have head: "tInterp s' ! nat (StdLev L ! nat j) = interpValue L tObsFinal j"
    if pj: "?G (tFlags s) j"
  proof -
    from checkLevel_eval [OF step pj]
    have rng: "nat (StdLev L ! nat j) < length (tInterp s)" by (simp add: nat_less_iff)
    have "tInterp s1 = (tInterp s)[nat (StdLev L ! nat j) := interpValue L tObsFinal j]"
    proof (cases "levelFails ops P L prs tObsFinal (tFlags s) j")
      case True
      from checkLevel_fails(2) [OF step True] show ?thesis .
    next
      case False
      from checkLevel_not_fails(4) [OF step False] pj show ?thesis by simp
    qed
    with rng have v1: "tInterp s1 ! nat (StdLev L ! nat j) = interpValue L tObsFinal j" by simp
    have other: "\<forall>k \<in> set js. ?G (tFlags s1) k \<longrightarrow> nat (StdLev L ! nat k) \<noteq> nat (StdLev L ! nat j)"
    proof (intro ballI impI)
      fix k assume k: "k \<in> set js" and "?G (tFlags s1) k"
      with stab have pk: "?G (tFlags s) k" by simp
      from evaluatedApartD(1) [OF Cons.prems(1)] k have "j \<noteq> k" by auto
      from evaluatedApartD(3) [OF Cons.prems(1) _ _ this pj pk] k
      have "set (triple L j) \<inter> set (triple L k) = {}" by simp
      with StdLev_in_triple [of L j] StdLev_in_triple [of L k]
      have "StdLev L ! nat k \<noteq> StdLev L ! nat j" by auto
      moreover from evaluatedApartD(2) [OF Cons.prems(1)] k
      have "0 \<le> StdLev L ! nat k" "0 \<le> StdLev L ! nat j" by simp_all
      ultimately show "nat (StdLev L ! nat k) \<noteq> nat (StdLev L ! nat j)" by simp
    qed
    from stdLevelLoop_closed_form_apart [OF ap' rest]
    have "\<forall>i. (\<forall>k \<in> set js. ?G (tFlags s1) k \<longrightarrow> nat (StdLev L ! nat k) \<noteq> i)
        \<longrightarrow> tInterp s' ! i = tInterp s1 ! i"
      by blast
    with other v1 show ?thesis by simp
  qed
  show ?case
  proof (intro ballI impI)
    fix k assume k: "k \<in> set (j # js)" and pk: "?G (tFlags s) k"
    show "tInterp s' ! nat (StdLev L ! nat k) = interpValue L tObsFinal k"
    proof (cases "k = j")
      case True
      with head pk show ?thesis by simp
    next
      case False
      with k have kin: "k \<in> set js" by simp
      with stab pk have "?G (tFlags s1) k" by simp
      with IH kin show ?thesis by simp
    qed
  qed
qed

lemma stdLevelLoop_order:
  assumes ap: "evaluatedApart ops P L prs js (tFlags s)"
    and d': "distinct js'" and st: "set js' = set js"
    and l1: "stdLevelLoop ops P L prs tObsFinal js (s, n) = Some (s1, n1)"
    and l2: "stdLevelLoop ops P L prs tObsFinal js' (s, n) = Some (s2, n2)"
  shows "s2 = s1 \<and> n2 = n1"
proof -
  let ?G = "passesGuards ops P L prs (tFlags s)"
  let ?F = "levelFails ops P L prs tObsFinal (tFlags s)"
  note d = evaluatedApartD(1) [OF ap]
  have ap': "evaluatedApart ops P L prs js' (tFlags s)"
    using ap d' st by (simp add: evaluatedApart_def)
  note c1 = stdLevelLoop_closed_form_apart [OF ap l1]
  note c2 = stdLevelLoop_closed_form_apart [OF ap' l2]
  note w1 = stdLevelLoop_tInterp_written [OF ap l1]
  note w2 = stdLevelLoop_tInterp_written [OF ap' l2]
  note f1 = stdLevelLoop_frame [OF l1]
  note f2 = stdLevelLoop_frame [OF l2]
  note g1 = stdLevelLoop_flags [OF l1]
  note g2 = stdLevelLoop_flags [OF l2]
  have cnt: "length (filter ?F js') = length (filter ?F js)"
    using d d' st by (simp add: distinct_length_filter)
  have sm: "(\<Sum>j\<leftarrow>js'. if ?F j then int (count_list (triple L j) (int i)) else 0) =
            (\<Sum>j\<leftarrow>js. if ?F j then int (count_list (triple L j) (int i)) else 0)" for i
    using d d' st by (simp add: sum_list_distinct_conv_sum_set)
  have n: "n2 = n1" using c1 c2 cnt by simp
  have a: "NumAnyErrors s2 = NumAnyErrors s1" using c1 c2 cnt by simp
  have b: "NumInterpErrors s2 = NumInterpErrors s1" using c1 c2 cnt by simp
  have c: "NumInterpErrObs s2 = NumInterpErrObs s1" using f1 f2 by simp
  have w: "warnings s2 = warnings s1" using f1 f2 by simp
  have fl: "tFlags s2 = tFlags s1"
  proof (rule nth_equalityI)
    show "length (tFlags s2) = length (tFlags s1)" using g1 g2 by simp
  next
    fix i
    from c1 have "tFlags s1 ! i =
       (if \<exists>j \<in> set js. ?F j \<and> int i \<in> set (triple L j)
        then tFlags s ! i OR InterpolationFlag P else tFlags s ! i)" by blast
    moreover from c2 have "tFlags s2 ! i =
       (if \<exists>j \<in> set js'. ?F j \<and> int i \<in> set (triple L j)
        then tFlags s ! i OR InterpolationFlag P else tFlags s ! i)" by blast
    ultimately show "tFlags s2 ! i = tFlags s1 ! i" using st by simp
  qed
  have le: "LevErrors s2 = LevErrors s1"
  proof (rule nth_equalityI)
    show "length (LevErrors s2) = length (LevErrors s1)" using f1 f2 by simp
  next
    fix i
    from c1 have "LevErrors s1 ! i = LevErrors s ! i +
       (\<Sum>j\<leftarrow>js. if ?F j then int (count_list (triple L j) (int i)) else 0)" by blast
    moreover from c2 have "LevErrors s2 ! i = LevErrors s ! i +
       (\<Sum>j\<leftarrow>js'. if ?F j then int (count_list (triple L j) (int i)) else 0)" by blast
    ultimately show "LevErrors s2 ! i = LevErrors s1 ! i" using sm [of i] by simp
  qed
  have ti: "tInterp s2 = tInterp s1"
  proof (rule nth_equalityI)
    show "length (tInterp s2) = length (tInterp s1)" using f1 f2 by simp
  next
    fix i
    show "tInterp s2 ! i = tInterp s1 ! i"
    proof (cases "\<exists>j \<in> set js. ?G j \<and> nat (StdLev L ! nat j) = i")
      case True
      then obtain j where j: "j \<in> set js" "?G j" "nat (StdLev L ! nat j) = i" by blast
      from w1 j have "tInterp s1 ! i = interpValue L tObsFinal j" by auto
      moreover from w2 j st have "tInterp s2 ! i = interpValue L tObsFinal j" by auto
      ultimately show ?thesis by simp
    next
      case False
      then have no: "\<forall>j \<in> set js. ?G j \<longrightarrow> nat (StdLev L ! nat j) \<noteq> i" by blast
      with c1 have "tInterp s1 ! i = tInterp s ! i" by blast
      moreover from no st have "\<forall>j \<in> set js'. ?G j \<longrightarrow> nat (StdLev L ! nat j) \<noteq> i" by simp
      with c2 have "tInterp s2 ! i = tInterp s ! i" by blast
      ultimately show ?thesis by simp
    qed
  qed
  have "s2 = s1" using a b c w fl le ti by (simp add: state.equality)
  with n show ?thesis by simp
qed

subsection \<open>Running the loop again\<close>

lemma stdLevelLoop_saturated:
  assumes "stdLevelLoop ops P L prs tObsFinal js (s, n) = Some (s', n')"
  shows "\<forall>j \<in> set js. levelFails ops P L prs tObsFinal (tFlags s') j \<longrightarrow>
           (\<forall>i. int i \<in> set (triple L j) \<longrightarrow> tFlags s' ! i OR InterpolationFlag P = tFlags s' ! i)"
  using assms
proof (induction js arbitrary: s n)
  case Nil
  then show ?case by simp
next
  case (Cons j js)
  let ?F = "levelFails ops P L prs tObsFinal"
  from Cons.prems obtain s1 n1 where
    step: "checkLevel ops P L prs tObsFinal s n j = Some (s1, n1)"
    and rest: "stdLevelLoop ops P L prs tObsFinal js (s1, n1) = Some (s', n')"
    by (rule stdLevelLoop_ConsE)
  note IH = Cons.IH [OF rest]
  have head: "tFlags s' ! i OR InterpolationFlag P = tFlags s' ! i"
    if fj: "?F (tFlags s') j" and i: "int i \<in> set (triple L j)" for i
  proof -
    from stdLevelLoop_flags [OF Cons.prems]
    have "tFlags s' ! nat (StdLev L ! nat j) = tFlags s ! nat (StdLev L ! nat j) \<or>
          tFlags s' ! nat (StdLev L ! nat j) = tFlags s ! nat (StdLev L ! nat j) OR InterpolationFlag P"
      by blast
    from levelFails_mono [OF this fj] have "?F (tFlags s) j" .
    from checkLevel_fails(13) [OF step this, of i] i
    have "tFlags s1 ! i = tFlags s ! i OR InterpolationFlag P" by simp
    moreover from stdLevelLoop_flags [OF rest]
    have "tFlags s' ! i = tFlags s1 ! i \<or> tFlags s' ! i = tFlags s1 ! i OR InterpolationFlag P"
      by blast
    ultimately show ?thesis by (auto simp: or.assoc)
  qed
  show ?case
  proof (intro ballI impI allI)
    fix k i assume "k \<in> set (j # js)" "?F (tFlags s') k" "int i \<in> set (triple L k)"
    with head IH show "tFlags s' ! i OR InterpolationFlag P = tFlags s' ! i"
      by (cases "k = j") auto
  qed
qed

lemma stdLevelLoop_no_new_flags:
  assumes "stdLevelLoop ops P L prs tObsFinal js (s, n) = Some (s', n')"
    and "\<forall>j \<in> set js. levelFails ops P L prs tObsFinal (tFlags s) j \<longrightarrow>
           (\<forall>i. int i \<in> set (triple L j) \<longrightarrow> tFlags s ! i OR InterpolationFlag P = tFlags s ! i)"
  shows "tFlags s' = tFlags s"
  using assms
proof (induction js arbitrary: s n)
  case Nil
  then show ?case by simp
next
  case (Cons j js)
  let ?F = "levelFails ops P L prs tObsFinal"
  from Cons.prems(1) obtain s1 n1 where
    step: "checkLevel ops P L prs tObsFinal s n j = Some (s1, n1)"
    and rest: "stdLevelLoop ops P L prs tObsFinal js (s1, n1) = Some (s', n')"
    by (rule stdLevelLoop_ConsE)
  have eq: "tFlags s1 = tFlags s"
  proof (cases "?F (tFlags s) j")
    case False
    from checkLevel_not_fails(2) [OF step False]
    have "tFlags s1 = tFlags (s\<lparr>tInterp := tInterp s1\<rparr>)" by simp
    then show ?thesis by simp
  next
    case True
    show ?thesis
    proof (rule nth_equalityI)
      show "length (tFlags s1) = length (tFlags s)" by (rule checkLevel_fails(11) [OF step True])
    next
      fix i
      from checkLevel_fails(13) [OF step True, of i] Cons.prems(2) True
      show "tFlags s1 ! i = tFlags s ! i" by auto
    qed
  qed
  from Cons.prems(2) have "\<forall>k \<in> set js. ?F (tFlags s1) k \<longrightarrow>
           (\<forall>i. int i \<in> set (triple L k) \<longrightarrow> tFlags s1 ! i OR InterpolationFlag P = tFlags s1 ! i)"
    by (simp add: eq)
  from Cons.IH [OF rest this] eq show ?case by simp
qed

lemmas ex6_defs = exParams_def exLevels6_def exCalc6_def exProfile6_def exObsFinal6_def
  exState6_def exStart6_def

lemma ex6_correct: "tObsFinalOf exProfile6 = exObsFinal6"
  by (simp add: ex6_defs correctVector_def)

lemma ex6_valid:
  "\<not> anyVectorEmpty (inputSizes exProfile6 exState6)"
  "allVectorsSameSize (inputSizes exProfile6 exState6)"
  by (simp_all add: anyVectorEmpty_def allVectorsSameSize_def inputSizes_def ex6_defs)

lemma ex6_steps:
  "checkLevel real_ops exParams exLevels6 (pressures exProfile6) exObsFinal6 exStart6 0 0 =
     Some (exStart6\<lparr>tFlags := [20, 16, 16, 0, 0, 0], NumAnyErrors := [1], NumInterpErrors := [1],
                    LevErrors := [0, 0, 0, - 1, - 1, - 1],
                    tInterp := [- 9999, 284, - 9999, - 9999, - 9999, - 9999]\<rparr>, 1)"
  "checkLevel real_ops exParams exLevels6 (pressures exProfile6) exObsFinal6
     (exStart6\<lparr>tFlags := [20, 16, 16, 0, 0, 0], NumAnyErrors := [1], NumInterpErrors := [1],
                    LevErrors := [0, 0, 0, - 1, - 1, - 1],
                    tInterp := [- 9999, 284, - 9999, - 9999, - 9999, - 9999]\<rparr>) 1 1 =
     Some (exStart6\<lparr>tFlags := [20, 16, 16, 16, 16, 16], NumAnyErrors := [2], NumInterpErrors := [2],
                    LevErrors := [0, 0, 0, 0, 0, 0],
                    tInterp := [- 9999, 284, - 9999, - 9999, 255, - 9999]\<rparr>, 2)"
  "checkLevel real_ops exParams exLevels6 (pressures exProfile6) exObsFinal6 exStart6 0 1 =
     Some (exStart6\<lparr>tFlags := [4, 0, 0, 16, 16, 16], NumAnyErrors := [1], NumInterpErrors := [1],
                    LevErrors := [- 1, - 1, - 1, 0, 0, 0],
                    tInterp := [- 9999, - 9999, - 9999, - 9999, 255, - 9999]\<rparr>, 1)"
  "checkLevel real_ops exParams exLevels6 (pressures exProfile6) exObsFinal6
     (exStart6\<lparr>tFlags := [4, 0, 0, 16, 16, 16], NumAnyErrors := [1], NumInterpErrors := [1],
                    LevErrors := [- 1, - 1, - 1, 0, 0, 0],
                    tInterp := [- 9999, - 9999, - 9999, - 9999, 255, - 9999]\<rparr>) 1 0 =
     Some (exStart6\<lparr>tFlags := [20, 16, 16, 16, 16, 16], NumAnyErrors := [2], NumInterpErrors := [2],
                    LevErrors := [0, 0, 0, 0, 0, 0],
                    tInterp := [- 9999, 284, - 9999, - 9999, 255, - 9999]\<rparr>, 2)"
  by (simp_all add: ex6_defs model_defs)

lemma ex6_loops:
  "stdLevelLoop real_ops exParams exLevels6 (pressures exProfile6) exObsFinal6 [0, 1] (exStart6, 0) =
     Some (exStart6\<lparr>tFlags := [20, 16, 16, 16, 16, 16], NumAnyErrors := [2], NumInterpErrors := [2],
                    LevErrors := [0, 0, 0, 0, 0, 0],
                    tInterp := [- 9999, 284, - 9999, - 9999, 255, - 9999]\<rparr>, 2)"
  "stdLevelLoop real_ops exParams exLevels6 (pressures exProfile6) exObsFinal6 [1, 0] (exStart6, 0) =
     Some (exStart6\<lparr>tFlags := [20, 16, 16, 16, 16, 16], NumAnyErrors := [2], NumInterpErrors := [2],
                    LevErrors := [0, 0, 0, 0, 0, 0],
                    tInterp := [- 9999, 284, - 9999, - 9999, 255, - 9999]\<rparr>, 2)"
  by (simp_all add: ex6_steps)

lemma ex6_start: "loopStart exParams 6 exState6 = exStart6"
  by (simp add: exStart6_def exParams_def eval_nat_numeral)

lemma ex6_order: "loopOrder (NumStd exLevels6) = [0, 1]"
  by (simp add: loopOrder_def exLevels6_def upto_rec1)

lemma ex6_finish:
  "map_option (\<lambda>c. (exStart6\<lparr>tFlags := [20, 16, 16, 16, 16, 16], NumAnyErrors := [2],
        NumInterpErrors := [2], LevErrors := [0, 0, 0, 0, 0, 0],
        tInterp := [- 9999, 284, - 9999, - 9999, 255, - 9999]\<rparr>)\<lparr>NumInterpErrObs := c\<rparr>)
     (vec_incr (NumInterpErrObs (exStart6\<lparr>tFlags := [20, 16, 16, 16, 16, 16], NumAnyErrors := [2],
        NumInterpErrors := [2], LevErrors := [0, 0, 0, 0, 0, 0],
        tInterp := [- 9999, 284, - 9999, - 9999, 255, - 9999]\<rparr>)) 0) =
   Some (exStart6\<lparr>tFlags := [20, 16, 16, 16, 16, 16], NumAnyErrors := [2], NumInterpErrors := [2],
                  NumInterpErrObs := [1], LevErrors := [0, 0, 0, 0, 0, 0],
                  tInterp := [- 9999, 284, - 9999, - 9999, 255, - 9999]\<rparr>)"
  by (simp add: vec_incr_def vec_at_def vec_set_def incr_def INT_MAX_def exStart6_def exState6_def)

lemma ex6_run:
  "runCheck real_ops exParams exCalc6 6 exProfile6 exState6 =
     Some (exStart6\<lparr>tFlags := [20, 16, 16, 16, 16, 16], NumAnyErrors := [2], NumInterpErrors := [2],
                    NumInterpErrObs := [1], LevErrors := [0, 0, 0, 0, 0, 0],
                    tInterp := [- 9999, 284, - 9999, - 9999, 255, - 9999]\<rparr>)"
proof -
  have "stdLevelLoop real_ops exParams exLevels6 (pressures exProfile6)
          (tObsFinalOf exProfile6) (loopOrder (NumStd exLevels6))
          (loopStart exParams 6 exState6, 0) =
     Some (exStart6\<lparr>tFlags := [20, 16, 16, 16, 16, 16], NumAnyErrors := [2], NumInterpErrors := [2],
                    LevErrors := [0, 0, 0, 0, 0, 0],
                    tInterp := [- 9999, 284, - 9999, - 9999, 255, - 9999]\<rparr>, 2)"
    unfolding ex6_start ex6_order ex6_correct by (rule ex6_loops(1))
  from runCheck_from_loop [where calc = exCalc6, OF ex6_valid _ _ this]
  have "runCheck real_ops exParams exCalc6 6 exProfile6 exState6 =
     map_option (\<lambda>c. (exStart6\<lparr>tFlags := [20, 16, 16, 16, 16, 16], NumAnyErrors := [2],
        NumInterpErrors := [2], LevErrors := [0, 0, 0, 0, 0, 0],
        tInterp := [- 9999, 284, - 9999, - 9999, 255, - 9999]\<rparr>)\<lparr>NumInterpErrObs := c\<rparr>)
     (vec_incr (NumInterpErrObs (exStart6\<lparr>tFlags := [20, 16, 16, 16, 16, 16], NumAnyErrors := [2],
        NumInterpErrors := [2], LevErrors := [0, 0, 0, 0, 0, 0],
        tInterp := [- 9999, 284, - 9999, - 9999, 255, - 9999]\<rparr>)) 0)"
    by (simp add: exCalc6_def)
  then show ?thesis by (simp only: ex6_finish)
qed

lemma ex6_run_reversed:
  "checkInOrder (\<lambda>n. [1, 0]) real_ops exParams exCalc6 6 exProfile6 exState6 =
     Some (exStart6\<lparr>tFlags := [20, 16, 16, 16, 16, 16], NumAnyErrors := [2], NumInterpErrors := [2],
                    NumInterpErrObs := [1], LevErrors := [0, 0, 0, 0, 0, 0],
                    tInterp := [- 9999, 284, - 9999, - 9999, 255, - 9999]\<rparr>)"
proof -
  have "stdLevelLoop real_ops exParams (stdLevelsOf exCalc6 6 exProfile6 exState6)
          (pressures exProfile6) (tObsFinalOf exProfile6)
          ((\<lambda>n. [1, 0]) (NumStd (stdLevelsOf exCalc6 6 exProfile6 exState6)))
          (loopStart exParams 6 exState6, 0) =
     Some (exStart6\<lparr>tFlags := [20, 16, 16, 16, 16, 16], NumAnyErrors := [2], NumInterpErrors := [2],
                    LevErrors := [0, 0, 0, 0, 0, 0],
                    tInterp := [- 9999, 284, - 9999, - 9999, 255, - 9999]\<rparr>, 2)"
    unfolding ex6_start ex6_correct exCalc6_def by (rule ex6_loops(2))
  from checkInOrder_loop [where calc = exCalc6 and order = "\<lambda>n. [1, 0]", OF _ this]
  have "checkInOrder (\<lambda>n. [1, 0]) real_ops exParams exCalc6 6 exProfile6 exState6 =
     map_option (\<lambda>c. (exStart6\<lparr>tFlags := [20, 16, 16, 16, 16, 16], NumAnyErrors := [2],
        NumInterpErrors := [2], LevErrors := [0, 0, 0, 0, 0, 0],
        tInterp := [- 9999, 284, - 9999, - 9999, 255, - 9999]\<rparr>)\<lparr>NumInterpErrObs := c\<rparr>)
     (vec_incr (NumInterpErrObs (exStart6\<lparr>tFlags := [20, 16, 16, 16, 16, 16], NumAnyErrors := [2],
        NumInterpErrors := [2], LevErrors := [0, 0, 0, 0, 0, 0],
        tInterp := [- 9999, 284, - 9999, - 9999, 255, - 9999]\<rparr>)) 0)"
    by simp
  then show ?thesis by (simp only: ex6_finish)
qed

lemma ex6_rerun_steps:
  "checkLevel real_ops exParams exLevels6 (pressures exProfile6) exObsFinal6
     (exStart6\<lparr>tFlags := [20, 16, 16, 16, 16, 16], NumAnyErrors := [2], NumInterpErrors := [2],
                NumInterpErrObs := [1]\<rparr>) 0 0 =
     Some (exStart6\<lparr>tFlags := [20, 16, 16, 16, 16, 16], NumAnyErrors := [3], NumInterpErrors := [3],
                    NumInterpErrObs := [1], LevErrors := [0, 0, 0, - 1, - 1, - 1],
                    tInterp := [- 9999, 284, - 9999, - 9999, - 9999, - 9999]\<rparr>, 1)"
  "checkLevel real_ops exParams exLevels6 (pressures exProfile6) exObsFinal6
     (exStart6\<lparr>tFlags := [20, 16, 16, 16, 16, 16], NumAnyErrors := [3], NumInterpErrors := [3],
                    NumInterpErrObs := [1], LevErrors := [0, 0, 0, - 1, - 1, - 1],
                    tInterp := [- 9999, 284, - 9999, - 9999, - 9999, - 9999]\<rparr>) 1 1 =
     Some (exStart6\<lparr>tFlags := [20, 16, 16, 16, 16, 16], NumAnyErrors := [4], NumInterpErrors := [4],
                    NumInterpErrObs := [1], LevErrors := [0, 0, 0, 0, 0, 0],
                    tInterp := [- 9999, 284, - 9999, - 9999, 255, - 9999]\<rparr>, 2)"
  by (simp_all add: ex6_defs model_defs)

lemma ex6_rerun:
  "runCheck real_ops exParams exCalc6 6 exProfile6
     (exStart6\<lparr>tFlags := [20, 16, 16, 16, 16, 16], NumAnyErrors := [2], NumInterpErrors := [2],
                    NumInterpErrObs := [1], LevErrors := [0, 0, 0, 0, 0, 0],
                    tInterp := [- 9999, 284, - 9999, - 9999, 255, - 9999]\<rparr>) =
     Some (exStart6\<lparr>tFlags := [20, 16, 16, 16, 16, 16], NumAnyErrors := [4], NumInterpErrors := [4],
                    NumInterpErrObs := [2], LevErrors := [0, 0, 0, 0, 0, 0],
                    tInterp := [- 9999, 284, - 9999, - 9999, 255, - 9999]\<rparr>)"
proof -
  let ?out = "exStart6\<lparr>tFlags := [20, 16, 16, 16, 16, 16], NumAnyErrors := [2],
                    NumInterpErrors := [2],
                    NumInterpErrObs := [1], LevErrors := [0, 0, 0, 0, 0, 0],
                    tInterp := [- 9999, 284, - 9999, - 9999, 255, - 9999]\<rparr>"
  have v: "\<not> anyVectorEmpty (inputSizes exProfile6 ?out)" "allVectorsSameSize (inputSizes exProfile6 ?out)"
    by (simp_all add: anyVectorEmpty_def allVectorsSameSize_def inputSizes_def ex6_defs)
  have st: "loopStart exParams 6 ?out =
     exStart6\<lparr>tFlags := [20, 16, 16, 16, 16, 16], NumAnyErrors := [2], NumInterpErrors := [2],
                NumInterpErrObs := [1]\<rparr>"
    by (simp add: exStart6_def exState6_def exParams_def eval_nat_numeral)
  have "stdLevelLoop real_ops exParams exLevels6 (pressures exProfile6)
          (tObsFinalOf exProfile6) (loopOrder (NumStd exLevels6))
          (loopStart exParams 6 ?out, 0) =
     Some (exStart6\<lparr>tFlags := [20, 16, 16, 16, 16, 16], NumAnyErrors := [4], NumInterpErrors := [4],
                    NumInterpErrObs := [1], LevErrors := [0, 0, 0, 0, 0, 0],
                    tInterp := [- 9999, 284, - 9999, - 9999, 255, - 9999]\<rparr>, 2)"
    unfolding st ex6_order ex6_correct by (simp add: ex6_rerun_steps)
  from runCheck_from_loop [where calc = exCalc6, OF v _ _ this]
  show ?thesis
    by (simp add: exCalc6_def vec_incr_def vec_at_def vec_set_def incr_def INT_MAX_def
        exStart6_def exState6_def)
qed

subsection \<open>Well-formed inputs give a defined run\<close>

lemma scanBands_defined:
  assumes "i0 + length sls \<le> length gaps"
  shows "\<exists>g. scanBands ops gaps IPStd d i0 sls = Some g"
  using assms
proof (induction sls arbitrary: i0)
  case Nil
  then show ?case by simp
next
  case (Cons sl sls)
  from Cons.prems have "i0 < length gaps" "Suc i0 + length sls \<le> length gaps" by simp_all
  with Cons.IH [of "Suc i0"] show ?case by (simp add: vec_at_def)
qed

lemma vec_at_in_range: "0 \<le> i \<Longrightarrow> nat i < length v \<Longrightarrow> vec_at v i = Some (v ! nat i)"
  by (simp add: vec_at_def nat_less_iff)

lemma vec_set_in_range: "0 \<le> i \<Longrightarrow> nat i < length v \<Longrightarrow> vec_set v i x = Some (v[nat i := x])"
  by (simp add: vec_set_def nat_less_iff)

lemma vec_or_in_range:
  "0 \<le> i \<Longrightarrow> nat i < length v \<Longrightarrow> vec_or v i m = Some (v[nat i := v ! nat i OR m])"
  by (simp add: vec_or_def vec_at_in_range vec_set_in_range)

lemma vec_incr_in_range:
  "0 \<le> i \<Longrightarrow> nat i < length v \<Longrightarrow> v ! nat i < INT_MAX \<Longrightarrow>
     vec_incr v i = Some (v[nat i := v ! nat i + 1])"
  by (simp add: vec_incr_def vec_at_in_range vec_set_in_range incr_def)

lemma gapGuard_defined:
  assumes "0 \<le> SigB" "nat SigB < length prs" "nat SigB < length (LogP L)"
    and "0 \<le> SigA" "nat SigA < length prs" "nat SigA < length (LogP L)"
  shows "\<exists>b. gapGuard ops L prs PStd BigGap SigB SigA = Some b"
  using assms by (auto simp: gapGuard_def vec_at_in_range)

lemma interpolate_defined:
  assumes "0 \<le> jlev" "nat jlev < length (LogP L)" "0 \<le> SigB" "nat SigB < length tObsFinal"
    "nat SigB < length (LogP L)" "0 \<le> SigA" "nat SigA < length tObsFinal" "nat SigA < length (LogP L)"
  shows "\<exists>t. interpolate L tObsFinal jlev SigB SigA = Some t"
  using assms by (auto simp: interpolate_def vec_at_in_range Let_def)

lemma recordFailure_defined:
  assumes "NumAnyErrors s \<noteq> []" "NumAnyErrors s ! 0 < INT_MAX"
    and "NumInterpErrors s \<noteq> []" "NumInterpErrors s ! 0 < INT_MAX"
    and "n < INT_MAX"
    and "0 \<le> jlev" "0 \<le> SigB" "0 \<le> SigA"
    and "nat jlev < length (tFlags s)" "nat SigB < length (tFlags s)" "nat SigA < length (tFlags s)"
    and "nat jlev < length (LevErrors s)" "nat SigB < length (LevErrors s)"
      "nat SigA < length (LevErrors s)"
    and "\<forall>i < length (LevErrors s). LevErrors s ! i + 3 \<le> INT_MAX"
  shows "\<exists>r. recordFailure P s n jlev SigB SigA = Some r"
proof -
  let ?l0 = "LevErrors s"
  let ?l1 = "?l0[nat jlev := ?l0 ! nat jlev + 1]"
  let ?l2 = "?l1[nat SigB := ?l1 ! nat SigB + 1]"
  have b0: "?l0 ! i + 3 \<le> INT_MAX" if "i < length ?l0" for i using assms(15) that by simp
  have b1: "?l1 ! i + 2 \<le> INT_MAX" if "i < length ?l0" for i
    using b0 [OF that] b0 [of "nat jlev"] assms(12) by (simp add: nth_list_update)
  have b2: "?l2 ! i + 1 \<le> INT_MAX" if "i < length ?l0" for i
    using b1 [OF that] b1 [of "nat SigB"] assms(13) by (simp add: nth_list_update)
  have a: "vec_incr (NumAnyErrors s) 0 = Some ((NumAnyErrors s)[0 := NumAnyErrors s ! 0 + 1])"
    using assms(1,2) by (simp add: vec_incr_in_range)
  have b: "vec_incr (NumInterpErrors s) 0 = Some ((NumInterpErrors s)[0 := NumInterpErrors s ! 0 + 1])"
    using assms(3,4) by (simp add: vec_incr_in_range)
  have c: "incr n = Some (n + 1)" using assms(5) by (simp add: incr_def)
  have l1: "vec_incr ?l0 jlev = Some ?l1"
    using assms(6,12) b0 [of "nat jlev"] by (simp add: vec_incr_in_range)
  have l2: "vec_incr ?l1 SigB = Some ?l2"
    using assms(7,13) b1 [of "nat SigB"] by (simp add: vec_incr_in_range)
  have l3: "\<exists>l. vec_incr ?l2 SigA = Some l"
    using assms(8,14) b2 [of "nat SigA"] by (simp add: vec_incr_in_range)
  show ?thesis
    using a b c l1 l2 l3 assms(6-11)
    by (auto simp: recordFailure_def vec_or_in_range)
qed

lemma checkLevel_total:
  assumes wf: "levelWellFormed ops L prs N j"
    and lens: "N \<le> length (tFlags s)" "N \<le> length prs" "N \<le> length (LogP L)"
      "N \<le> length tObsFinal" "N \<le> length (LevErrors s)" "N \<le> length (tInterp s)"
    and tab: "length (StandardLevels P) \<le> length (BigGaps P)"
    and room: "NumAnyErrors s \<noteq> []" "NumAnyErrors s ! 0 < INT_MAX"
      "NumInterpErrors s \<noteq> []" "NumInterpErrors s ! 0 < INT_MAX" "n < INT_MAX"
      "\<forall>i < length (LevErrors s). LevErrors s ! i + 3 \<le> INT_MAX"
  shows "\<exists>r. checkLevel ops P L prs tObsFinal s n j = Some r"
proof -
  define jlev where "jlev = StdLev L ! nat j"
  define SigB where "SigB = SigBelow L ! nat j"
  define SigA where "SigA = SigAbove L ! nat j"
  from wf have j: "0 \<le> j" "nat j < length (StdLev L)" "nat j < length (SigBelow L)"
    "nat j < length (SigAbove L)"
    and jl: "0 \<le> jlev" "nat jlev < N"
    and rd: "f_round_hPa ops (prs ! nat jlev) \<noteq> None"
    and sb: "SigB = - 1 \<or> (0 \<le> SigB \<and> nat SigB < N)"
    and sa: "SigA = - 1 \<or> (0 \<le> SigA \<and> nat SigA < N)"
    by (simp_all add: levelWellFormed_def levelInRange_def jlev_def SigB_def SigA_def)
  have r1: "vec_at (StdLev L) j = Some jlev" using j by (simp add: vec_at_in_range jlev_def)
  have r2: "vec_at (tFlags s) jlev = Some (tFlags s ! nat jlev)"
    using jl lens(1) by (simp add: vec_at_in_range)
  have r3: "vec_at (SigBelow L) j = Some SigB" using j by (simp add: vec_at_in_range SigB_def)
  have r4: "vec_at (SigAbove L) j = Some SigA" using j by (simp add: vec_at_in_range SigA_def)
  have r5: "vec_at prs jlev = Some (prs ! nat jlev)" using jl lens(2) by (simp add: vec_at_in_range)
  from rd obtain IPStd where r6: "f_round_hPa ops (prs ! nat jlev) = Some IPStd" by auto
  from tab have "0 + length (StandardLevels P) \<le> length (BigGaps P)" by simp
  from scanBands_defined [OF this, where ops = ops and IPStd = IPStd and d = "ICheck_BigGapInit P"]
  obtain BigGap where r7: "selectBigGap ops P IPStd = Some BigGap"
    by (auto simp: selectBigGap_def)
  note rs = r1 r2 r3 r4 r5 r6 r7
  show ?thesis
  proof (cases "tFlags s ! nat jlev AND SurfaceLevelFlag P \<noteq> 0")
    case True
    then show ?thesis by (simp add: checkLevel_def r1 r2)
  next
    case ns: False
    show ?thesis
    proof (cases "NumSig L < max 3 (c_div (NumStd L) 2) \<or> SigB = - 1 \<or> SigA = - 1")
      case True
      with ns show ?thesis by (auto simp: checkLevel_def rs)
    next
      case ng: False
      with sb sa have b: "0 \<le> SigB" "nat SigB < N" and a: "0 \<le> SigA" "nat SigA < N" by auto
      from gapGuard_defined [of SigB prs L SigA ops "prs ! nat jlev" BigGap] a b lens
      obtain skip where r8: "gapGuard ops L prs (prs ! nat jlev) BigGap SigB SigA = Some skip"
        by auto
      from interpolate_defined [of jlev L SigB tObsFinal SigA] jl a b lens
      obtain tInt where r9: "interpolate L tObsFinal jlev SigB SigA = Some tInt" by auto
      have r10: "vec_set (tInterp s) jlev tInt = Some ((tInterp s)[nat jlev := tInt])"
        using jl lens(6) by (simp add: vec_set_in_range)
      have r11: "vec_at tObsFinal jlev = Some (tObsFinal ! nat jlev)"
        using jl lens(4) by (simp add: vec_at_in_range)
      from recordFailure_defined [of "s\<lparr>tInterp := (tInterp s)[nat jlev := tInt]\<rparr>" n jlev SigB SigA P]
        room jl a b lens
      obtain r where r12: "recordFailure P (s\<lparr>tInterp := (tInterp s)[nat jlev := tInt]\<rparr>) n jlev
          SigB SigA = Some r" by auto
      from ns ng show ?thesis
        by (simp add: checkLevel_def rs r8 r9 r10 r11 r12)
    qed
  qed
qed

lemma stepWellFormed_defined:
  assumes "stepWellFormed ops P L prs tObsFinal s n N jlevstd"
  shows "\<exists>s' n'. checkLevel ops P L prs tObsFinal s n jlevstd = Some (s', n')"
proof -
  from assms have le: "\<forall>i < length (LevErrors s). LevErrors s ! i + 3 \<le> INT_MAX"
    by (simp add: stepWellFormed_def)
  from assms have "\<exists>r. checkLevel ops P L prs tObsFinal s n jlevstd = Some r"
    by (intro checkLevel_total [where N = N] le) (simp_all add: stepWellFormed_def)
  then show ?thesis by auto
qed

lemma checkLevel_room:
  assumes step: "checkLevel ops P L prs tObsFinal s n j = Some (s', n')"
    and ne: "NumAnyErrors s \<noteq> []" "NumInterpErrors s \<noteq> []"
  shows "n' \<le> n + 1"
    and "NumAnyErrors s' \<noteq> []" and "NumAnyErrors s' ! 0 \<le> NumAnyErrors s ! 0 + 1"
    and "NumInterpErrors s' \<noteq> []" and "NumInterpErrors s' ! 0 \<le> NumInterpErrors s ! 0 + 1"
    and "LevErrors s' ! i \<le> LevErrors s ! i + 3"
proof -
  have "n' \<le> n + 1 \<and> NumAnyErrors s' \<noteq> [] \<and> NumAnyErrors s' ! 0 \<le> NumAnyErrors s ! 0 + 1 \<and>
    NumInterpErrors s' \<noteq> [] \<and> NumInterpErrors s' ! 0 \<le> NumInterpErrors s ! 0 + 1 \<and>
    LevErrors s' ! i \<le> LevErrors s ! i + 3"
  proof (cases "levelFails ops P L prs tObsFinal (tFlags s) j")
    case True
    note e = checkLevel_fails [OF step True]
    have "count_list (triple L j) (int i) \<le> length (triple L j)" by (rule count_le_length)
    then have "int (count_list (triple L j) (int i)) \<le> 3" by (simp add: triple_def)
    with e(14) [of i] have "LevErrors s' ! i \<le> LevErrors s ! i + 3" by simp
    with e(1) e(7) e(9) ne show ?thesis by simp
  next
    case False
    note e = checkLevel_not_fails [OF step False]
    have "NumAnyErrors s' = NumAnyErrors (s\<lparr>tInterp := tInterp s'\<rparr>)"
      "NumInterpErrors s' = NumInterpErrors (s\<lparr>tInterp := tInterp s'\<rparr>)"
      "LevErrors s' = LevErrors (s\<lparr>tInterp := tInterp s'\<rparr>)"
      using e(2) by simp_all
    then have "NumAnyErrors s' = NumAnyErrors s" "NumInterpErrors s' = NumInterpErrors s"
      "LevErrors s' = LevErrors s" by simp_all
    with e(1) ne show ?thesis by simp
  qed
  then show "n' \<le> n + 1"
    and "NumAnyErrors s' \<noteq> []" and "NumAnyErrors s' ! 0 \<le> NumAnyErrors s ! 0 + 1"
    and "NumInterpErrors s' \<noteq> []" and "NumInterpErrors s' ! 0 \<le> NumInterpErrors s ! 0 + 1"
    and "LevErrors s' ! i \<le> LevErrors s ! i + 3"
    by blast+
qed

lemma stdLevelLoop_total:
  assumes "\<forall>j \<in> set js. levelWellFormed ops L prs N j"
    and "N \<le> length (tFlags s)" "N \<le> length prs" "N \<le> length (LogP L)"
      "N \<le> length tObsFinal" "N \<le> length (LevErrors s)" "N \<le> length (tInterp s)"
    and "length (StandardLevels P) \<le> length (BigGaps P)"
    and "NumAnyErrors s \<noteq> []" "NumAnyErrors s ! 0 + int (length js) \<le> INT_MAX"
      "NumInterpErrors s \<noteq> []" "NumInterpErrors s ! 0 + int (length js) \<le> INT_MAX"
      "n + int (length js) \<le> INT_MAX"
      "\<forall>i < length (LevErrors s). LevErrors s ! i + 3 * int (length js) \<le> INT_MAX"
  shows "\<exists>r. stdLevelLoop ops P L prs tObsFinal js (s, n) = Some r"
  using assms
proof (induction js arbitrary: s n)
  case Nil
  then show ?case by simp
next
  case (Cons j js)
  have wf: "levelWellFormed ops L prs N j" using Cons.prems(1) by simp
  have room1: "NumAnyErrors s ! 0 < INT_MAX" "NumInterpErrors s ! 0 < INT_MAX" "n < INT_MAX"
    "\<forall>i < length (LevErrors s). LevErrors s ! i + 3 \<le> INT_MAX"
    using Cons.prems(10,12,13,14) by auto
  from checkLevel_total [OF wf Cons.prems(2-8) Cons.prems(9) room1(1) Cons.prems(11) room1(2,3,4)]
  obtain s1 n1 where step: "checkLevel ops P L prs tObsFinal s n j = Some (s1, n1)"
    by (cases "the (checkLevel ops P L prs tObsFinal s n j)") auto
  note r = checkLevel_room [OF step Cons.prems(9) Cons.prems(11)]
  note f = checkLevel_frame [OF step]
  note g = checkLevel_flags(1) [OF step]
  have le: "\<forall>i < length (LevErrors s1). LevErrors s1 ! i + 3 * int (length js) \<le> INT_MAX"
  proof (intro allI impI)
    fix i assume "i < length (LevErrors s1)"
    with f(1) Cons.prems(14) have "LevErrors s ! i + 3 * int (length (j # js)) \<le> INT_MAX" by simp
    with r(6) [of i] show "LevErrors s1 ! i + 3 * int (length js) \<le> INT_MAX" by simp
  qed
  have "\<exists>r. stdLevelLoop ops P L prs tObsFinal js (s1, n1) = Some r"
  proof (rule Cons.IH)
    show "\<forall>j \<in> set js. levelWellFormed ops L prs N j" using Cons.prems(1) by simp
    show "N \<le> length (tFlags s1)" using g Cons.prems(2) by simp
    show "N \<le> length prs" "N \<le> length (LogP L)" "N \<le> length tObsFinal"
      "length (StandardLevels P) \<le> length (BigGaps P)"
      using Cons.prems by simp_all
    show "N \<le> length (LevErrors s1)" using f(1) Cons.prems(6) by simp
    show "N \<le> length (tInterp s1)" using f(2) Cons.prems(7) by simp
    show "NumAnyErrors s1 \<noteq> []" by (rule r(2))
    show "NumInterpErrors s1 \<noteq> []" by (rule r(4))
    show "NumAnyErrors s1 ! 0 + int (length js) \<le> INT_MAX" using r(3) Cons.prems(10) by simp
    show "NumInterpErrors s1 ! 0 + int (length js) \<le> INT_MAX" using r(5) Cons.prems(12) by simp
    show "n1 + int (length js) \<le> INT_MAX" using r(1) Cons.prems(13) by simp
    show "\<forall>i < length (LevErrors s1). LevErrors s1 ! i + 3 * int (length js) \<le> INT_MAX" by (rule le)
  qed
  with step show ?case by simp
qed

text \<open>
  On valid and well-formed input \<open>runCheck\<close> is defined: no vector is read or written
  outside its range and no \<open>int\<close> overflows.
\<close>

lemma runCheck_defined:
  assumes valid: "\<not> anyVectorEmpty (inputSizes inp s)" "allVectorsSameSize (inputSizes inp s)"
    and wf: "wellFormed ops P calc numLevelsToCheck inp s"
  shows "\<exists>out. runCheck ops P calc numLevelsToCheck inp s = Some out"
proof -
  let ?L = "stdLevelsOf calc numLevelsToCheck inp s"
  let ?N = "nat numLevelsToCheck"
  let ?st = "loopStart P numLevelsToCheck s"
  from valid have sz: "length (tFlags s) = length (pressures inp)"
    "length (tObsFinalOf inp) = length (pressures inp)"
    using inputSizes_valid [of inp s] by (simp_all add: correctVector_def)
  from wf have nl: "0 \<le> numLevelsToCheck" and np: "?N \<le> length (pressures inp)"
    and nlp: "?N \<le> length (LogP ?L)" and tab: "length (StandardLevels P) \<le> length (BigGaps P)"
    and lv: "\<forall>j \<in> set (loopOrder (NumStd ?L)). levelWellFormed ops ?L (pressures inp) ?N j"
    and c1: "NumAnyErrors s \<noteq> []" "NumAnyErrors s ! 0 + NumStd ?L \<le> INT_MAX"
    and c2: "NumInterpErrors s \<noteq> []" "NumInterpErrors s ! 0 + NumStd ?L \<le> INT_MAX"
    and c3: "NumInterpErrObs s \<noteq> []" "NumInterpErrObs s ! 0 < INT_MAX"
    and c4: "3 * NumStd ?L \<le> INT_MAX"
    and c0: "0 \<le> NumStd ?L"
    by (simp_all add: wellFormed_def Let_def)
  have len: "int (length (loopOrder (NumStd ?L))) = NumStd ?L"
    using c0 by (simp add: loopOrder_def)
  have "\<exists>r. stdLevelLoop ops P ?L (pressures inp) (tObsFinalOf inp) (loopOrder (NumStd ?L)) (?st, 0)
          = Some r"
  proof (rule stdLevelLoop_total [where N = ?N])
    show "\<forall>j \<in> set (loopOrder (NumStd ?L)). levelWellFormed ops ?L (pressures inp) ?N j" by (rule lv)
    show "?N \<le> length (tFlags ?st)" using np sz by simp
    show "?N \<le> length (pressures inp)" by (rule np)
    show "?N \<le> length (LogP ?L)" by (rule nlp)
    show "?N \<le> length (tObsFinalOf inp)" using np sz by simp
    show "?N \<le> length (LevErrors ?st)" by simp
    show "?N \<le> length (tInterp ?st)" by simp
    show "length (StandardLevels P) \<le> length (BigGaps P)" by (rule tab)
    show "NumAnyErrors ?st \<noteq> []" using c1 by simp
    show "NumInterpErrors ?st \<noteq> []" using c2 by simp
    show "NumAnyErrors ?st ! 0 + int (length (loopOrder (NumStd ?L))) \<le> INT_MAX"
      using c1 unfolding len by simp
    show "NumInterpErrors ?st ! 0 + int (length (loopOrder (NumStd ?L))) \<le> INT_MAX"
      using c2 unfolding len by simp
    show "0 + int (length (loopOrder (NumStd ?L))) \<le> INT_MAX"
      using c4 c0 unfolding len by simp
    show "\<forall>i < length (LevErrors ?st).
            LevErrors ?st ! i + 3 * int (length (loopOrder (NumStd ?L))) \<le> INT_MAX"
      using c4 c0 unfolding len by simp
  qed
  then obtain s2 k where
    loop: "stdLevelLoop ops P ?L (pressures inp) (tObsFinalOf inp) (loopOrder (NumStd ?L)) (?st, 0)
          = Some (s2, k)"
    by (cases "the (stdLevelLoop ops P ?L (pressures inp) (tObsFinalOf inp)
                 (loopOrder (NumStd ?L)) (?st, 0))") auto
  from stdLevelLoop_frame [OF loop] have "NumInterpErrObs s2 = NumInterpErrObs s" by simp
  with c3 have "\<exists>c. vec_incr (NumInterpErrObs s2) 0 = Some c"
    by (simp add: vec_incr_in_range)
  with runCheck_from_loop [where calc = calc, OF valid nl refl loop] show ?thesis by auto
qed

text \<open>The concrete profile is well formed.\<close>

lemma ex_wellFormed: "wellFormed real_ops exParams exCalc 5 exProfile exState"
proof -
  have o: "loopOrder (NumStd exLevels) = [0, 1]"
    by (simp add: loopOrder_def exLevels_def upto_rec1)
  have l: "levelWellFormed real_ops exLevels (pressures exProfile) 5 0"
    "levelWellFormed real_ops exLevels (pressures exProfile) 5 1"
    by (simp_all add: levelWellFormed_def levelInRange_def exLevels_def exProfile_def
        real_ops_def c_round_def INT_MAX_def INT_MIN_def)
  show ?thesis
    unfolding wellFormed_def Let_def exCalc_def o
    using l by (simp add: exLevels_def exProfile_def exParams_def exState_def INT_MAX_def)
qed

lemma ex_fails1:
  "levelFails real_ops exParams exLevels (pressures exProfile) exObsFinal (tFlags exState) 1"
  by (simp add: levelFails_def passesGuards_def levelBigGap_def selectBigGap_def ex_defs
      real_ops_def c_round_def INT_MAX_def INT_MIN_def vec_at_def c_div_def
      interpValue_def exceedsTol_def TolRelax_def)

subsection \<open>The variants of the concrete profile\<close>

lemmas exD_defs = exLevelsDyadic_def exParamsRelaxed_def ex_defs

lemma exD_wellFormed:
  "stepWellFormed real_ops P exLevelsDyadic (pressures exProfile) obs exStart 0 5 0 \<longleftrightarrow>
     length (StandardLevels P) \<le> length (BigGaps P) \<and> 5 \<le> length obs"
  by (auto simp add: stepWellFormed_def levelWellFormed_def levelInRange_def exD_defs
      real_ops_def c_round_def INT_MAX_def INT_MIN_def)

lemma exD_passes:
  "passesGuards real_ops exParams exLevelsDyadic (pressures exProfile) (tFlags exStart) 0"
  "passesGuards real_ops exParamsRelaxed exLevelsDyadic (pressures exProfile) (tFlags exStart) 0"
  by (simp_all add: passesGuards_def levelBigGap_def selectBigGap_def exD_defs
      real_ops_def c_round_def INT_MAX_def INT_MIN_def vec_at_def c_div_def)

lemma exD_step_fails:
  "checkLevel real_ops exParams exLevelsDyadic (pressures exProfile) exObsFinal exStart 0 0 =
     Some (exStart\<lparr>tFlags := [20, 16, 16, 0, 0], NumAnyErrors := [1], NumInterpErrors := [1],
                   LevErrors := [0, 0, 0, - 1, - 1],
                   tInterp := [- 9999, 284, - 9999, - 9999, - 9999]\<rparr>, 1)"
  by (simp add: exD_defs model_defs)

lemma exD_step_passes:
  "checkLevel real_ops exParams exLevelsDyadic (pressures exProfile) (exObsFinal[1 := 569 / 2])
     exStart 0 0 =
     Some (exStart\<lparr>tInterp := [- 9999, 284, - 9999, - 9999, - 9999]\<rparr>, 0)"
  by (simp add: exD_defs model_defs)

lemma exD_step_strict:
  "checkLevel real_ops exParams exLevelsDyadic (pressures exProfile) (exObsFinal[1 := 1141 / 4])
     exStart 0 0 =
     Some (exStart\<lparr>tFlags := [20, 16, 16, 0, 0], NumAnyErrors := [1], NumInterpErrors := [1],
                   LevErrors := [0, 0, 0, - 1, - 1],
                   tInterp := [- 9999, 284, - 9999, - 9999, - 9999]\<rparr>, 1)"
  by (simp add: exD_defs model_defs)

lemma exD_step_relaxed:
  "checkLevel real_ops exParamsRelaxed exLevelsDyadic (pressures exProfile)
     (exObsFinal[1 := 1141 / 4]) exStart 0 0 =
     Some (exStart\<lparr>tInterp := [- 9999, 284, - 9999, - 9999, - 9999]\<rparr>, 0)"
  by (simp add: exD_defs model_defs)

lemma ex_step0_wellFormed:
  "stepWellFormed real_ops exParams exLevels (pressures exProfile) exObsFinal exStart 0 5 0"
  by (simp add: stepWellFormed_def levelWellFormed_def levelInRange_def ex_defs
      real_ops_def c_round_def INT_MAX_def INT_MIN_def)

section \<open>The claims\<close>

text \<open>
  Each claim is stated for one iteration of the loop (\<open>checkLevel\<close>) or for a whole call
  (\<open>runCheck\<close>). The claims on what the code computes and records (C2, C3 and C4) start
  from a well-formed iteration or call and conclude that it returns, with the result
  described. The claims on what a run leaves alone are stated for every run that
  returns; by \<open>runCheck_defined\<close> every valid and well-formed input has one.
\<close>

text \<open>
  Claim C1, as the specification states it, fails: the scan does not take the first
  band whose threshold is \<open>\<ge>\<close> the rounded pressure. At level 1 of the concrete profile
  the pressure is 92500 Pa, 925 hPa after rounding. The code passes over the band 1000
  and takes the band 500, whose gap of 400 hPa gives 40000 Pa; the first band with a
  threshold \<open>\<ge>\<close> 925 is the band 1000, whose gap of 500 hPa would give 50000 Pa.
\<close>

theorem selectBigGap_not_first_band_above:
  "f_round_hPa real_ops (pressures exProfile ! 1) = Some 925 \<and>
   levelBigGap real_ops exParams (pressures exProfile) 1 = Some 40000 \<and>
   spec_selectBigGap real_ops exParams 925 = Some 50000 \<and>
   levelBigGap real_ops exParams (pressures exProfile) 1 \<noteq> spec_selectBigGap real_ops exParams 925"
  by (simp add: levelBigGap_def spec_selectBigGap_def selectBigGap_def exParams_def exProfile_def
      real_ops_def c_round_def INT_MAX_def INT_MIN_def vec_at_def)

text \<open>
  Claim C1, amended. For the level \<open>jlev\<close> the gap threshold \<open>BigGap\<close> is found by
  scanning the table \<open>StandardLevels_\<close> from index 0 upwards and taking the first band
  whose threshold is \<open>\<le>\<close> the pressure of the level rounded to whole hPa; \<open>BigGap\<close> is the
  entry of \<open>BigGaps_\<close> at that index, converted from hPa to Pa. When no band is \<open>\<le>\<close> the
  rounded pressure, \<open>BigGap\<close> is the configured initial value.
\<close>

theorem selectBigGap_first_band_below:
  assumes "levelBigGap ops P prs jlev = Some BigGap"
  shows "\<exists>IPStd. f_round_hPa ops (prs ! nat jlev) = Some IPStd \<and>
           ((\<exists>i < length (StandardLevels P).
               StandardLevels P ! i \<le> f_of_int ops IPStd \<and>
               (\<forall>k < i. \<not> StandardLevels P ! k \<le> f_of_int ops IPStd) \<and>
               i < length (BigGaps P) \<and> BigGap = f_hPa_to_Pa ops (BigGaps P ! i)) \<or>
            ((\<forall>k < length (StandardLevels P). \<not> StandardLevels P ! k \<le> f_of_int ops IPStd) \<and>
             BigGap = ICheck_BigGapInit P))"
proof -
  from assms obtain IPStd where r: "f_round_hPa ops (prs ! nat jlev) = Some IPStd"
    and g: "selectBigGap ops P IPStd = Some BigGap"
    by (auto simp: levelBigGap_def split: Option.bind_splits)
  from scanBands_Some [OF g [unfolded selectBigGap_def]] r show ?thesis by simp
qed

theorem selectBigGap_first_band_below_witness:
  "levelBigGap real_ops exParams (pressures exProfile) 1 = Some 40000 \<and>
   (\<exists>IPStd. f_round_hPa real_ops (pressures exProfile ! nat 1) = Some IPStd \<and>
      ((\<exists>i < length (StandardLevels exParams).
          StandardLevels exParams ! i \<le> f_of_int real_ops IPStd \<and>
          (\<forall>k < i. \<not> StandardLevels exParams ! k \<le> f_of_int real_ops IPStd) \<and>
          i < length (BigGaps exParams) \<and> 40000 = f_hPa_to_Pa real_ops (BigGaps exParams ! i)) \<or>
       ((\<forall>k < length (StandardLevels exParams).
            \<not> StandardLevels exParams ! k \<le> f_of_int real_ops IPStd) \<and>
        40000 = ICheck_BigGapInit exParams)))"
proof -
  have h: "levelBigGap real_ops exParams (pressures exProfile) 1 = Some 40000"
    by (simp add: levelBigGap_def selectBigGap_def exParams_def exProfile_def
        real_ops_def c_round_def INT_MAX_def INT_MIN_def vec_at_def)
  from selectBigGap_first_band_below [OF h] h show ?thesis by blast
qed

text \<open>
  Claim C2. When the iteration for \<open>jlevstd\<close> is well formed and the level passes all
  guards, the iteration returns, and the value that it leaves in \<open>tInterp_[jlev]\<close> is
  \<open>tObsFinal[SigB] + (tObsFinal[SigA] - tObsFinal[SigB]) * Ratio\<close> with
  \<open>Ratio = (LogP_[jlev] - LogP_[SigB]) / (LogP_[SigA] - LogP_[SigB])\<close>: the linear
  interpolation in log-pressure between the two brackets. Only the corrected
  observations and the log-pressures occur in it. The operations are those of the
  code, in its order (the quotient first); the statement holds for every reading of
  the float arithmetic. On the instance below every operation is exact in \<open>float\<close>.
\<close>

theorem checkLevel_interpolates:
  assumes "stepWellFormed ops P L prs tObsFinal s n N jlevstd"
    and "passesGuards ops P L prs (tFlags s) jlevstd"
  shows "\<exists>s' n'. checkLevel ops P L prs tObsFinal s n jlevstd = Some (s', n') \<and>
         tInterp s' ! nat (StdLev L ! nat jlevstd) =
           tObsFinal ! nat (SigBelow L ! nat jlevstd) +
           (tObsFinal ! nat (SigAbove L ! nat jlevstd) - tObsFinal ! nat (SigBelow L ! nat jlevstd)) *
           ((LogP L ! nat (StdLev L ! nat jlevstd) - LogP L ! nat (SigBelow L ! nat jlevstd)) /
            (LogP L ! nat (SigAbove L ! nat jlevstd) - LogP L ! nat (SigBelow L ! nat jlevstd)))"
proof -
  from stepWellFormed_defined [OF assms(1)] obtain s' n'
    where step: "checkLevel ops P L prs tObsFinal s n jlevstd = Some (s', n')" by blast
  from checkLevel_eval [OF step assms(2)]
  have rng: "nat (StdLev L ! nat jlevstd) < length (tInterp s)" by (simp add: nat_less_iff)
  have "tInterp s' = (tInterp s)[nat (StdLev L ! nat jlevstd) := interpValue L tObsFinal jlevstd]"
  proof (cases "levelFails ops P L prs tObsFinal (tFlags s) jlevstd")
    case True
    from checkLevel_fails(2) [OF step True] show ?thesis .
  next
    case False
    from checkLevel_not_fails(4) [OF step False] assms(2) show ?thesis by simp
  qed
  with rng have "tInterp s' ! nat (StdLev L ! nat jlevstd) =
           tObsFinal ! nat (SigBelow L ! nat jlevstd) +
           (tObsFinal ! nat (SigAbove L ! nat jlevstd) - tObsFinal ! nat (SigBelow L ! nat jlevstd)) *
           ((LogP L ! nat (StdLev L ! nat jlevstd) - LogP L ! nat (SigBelow L ! nat jlevstd)) /
            (LogP L ! nat (SigAbove L ! nat jlevstd) - LogP L ! nat (SigBelow L ! nat jlevstd)))"
    by (simp add: interpValue_def Let_def)
  with step show ?thesis by blast
qed

theorem checkLevel_interpolates_witness:
  "stepWellFormed real_ops exParams exLevelsDyadic (pressures exProfile) exObsFinal exStart 0 5 0 \<and>
   passesGuards real_ops exParams exLevelsDyadic (pressures exProfile) (tFlags exStart) 0 \<and>
   (\<exists>s' n'. checkLevel real_ops exParams exLevelsDyadic (pressures exProfile) exObsFinal exStart 0 0 =
       Some (s', n') \<and>
     tInterp s' = [- 9999, 284, - 9999, - 9999, - 9999] \<and>
     tInterp s' ! 1 = 288 + (280 - 288) * ((45 / 4 - 23 / 2) / (11 - 23 / 2)))"
proof -
  have w: "stepWellFormed real_ops exParams exLevelsDyadic (pressures exProfile) exObsFinal exStart 0 5 0"
    by (simp add: exD_wellFormed) (simp add: ex_defs)
  from exD_step_fails checkLevel_interpolates [OF w exD_passes(1)] w exD_passes(1)
  show ?thesis by (simp add: exD_defs)
qed

text \<open>
  Claim C3. For a well-formed iteration whose level passes all guards, the iteration
  returns, and the tolerance test fails (the iteration counts an error in \<open>NumErrors\<close>)
  exactly when \<open>|tObsFinal[jlev] - tInterp_[jlev]| > ICheck_TInterpTol * TolRelax\<close>, where
  \<open>TolRelax\<close> is
  \<open>ICheck_TolRelax\<close> when the pressure of the level is strictly below
  \<open>ICheck_TolRelaxPThresh\<close> and 1 otherwise. This is also the meaning of \<open>levelFails\<close>
  for such a level. When the test passes, flags, counters and \<open>LevErrors_\<close> stay as
  they are. The instances below have a level at 925 hPa that misses the interpolated
  284 K by 6 K, by 0.5 K and by 1.25 K; the last one fails the tolerance of 1 K and
  passes the relaxed tolerance of 1.5 K.
\<close>

theorem checkLevel_tolerance:
  assumes "stepWellFormed ops P L prs tObsFinal s n N jlevstd"
    and "passesGuards ops P L prs (tFlags s) jlevstd"
  shows "\<exists>s' n'. checkLevel ops P L prs tObsFinal s n jlevstd = Some (s', n') \<and>
         (levelFails ops P L prs tObsFinal (tFlags s) jlevstd \<longleftrightarrow>
            \<bar>tObsFinal ! nat (StdLev L ! nat jlevstd) - tInterp s' ! nat (StdLev L ! nat jlevstd)\<bar> >
            ICheck_TInterpTol P *
              (if prs ! nat (StdLev L ! nat jlevstd) < ICheck_TolRelaxPThresh P
               then ICheck_TolRelax P else 1)) \<and>
         (if \<bar>tObsFinal ! nat (StdLev L ! nat jlevstd) - tInterp s' ! nat (StdLev L ! nat jlevstd)\<bar> >
             ICheck_TInterpTol P *
               (if prs ! nat (StdLev L ! nat jlevstd) < ICheck_TolRelaxPThresh P
                then ICheck_TolRelax P else 1)
          then n' = n + 1
          else n' = n \<and> tFlags s' = tFlags s \<and> NumAnyErrors s' = NumAnyErrors s \<and>
               NumInterpErrors s' = NumInterpErrors s \<and> LevErrors s' = LevErrors s)"
proof -
  from stepWellFormed_defined [OF assms(1)] obtain s' n'
    where step: "checkLevel ops P L prs tObsFinal s n jlevstd = Some (s', n')" by blast
  from checkLevel_eval [OF step assms(2)]
  have rng: "nat (StdLev L ! nat jlevstd) < length (tInterp s)" by (simp add: nat_less_iff)
  have ti: "tInterp s' = (tInterp s)[nat (StdLev L ! nat jlevstd) := interpValue L tObsFinal jlevstd]"
  proof (cases "levelFails ops P L prs tObsFinal (tFlags s) jlevstd")
    case True
    from checkLevel_fails(2) [OF step True] show ?thesis .
  next
    case False
    from checkLevel_not_fails(4) [OF step False] assms(2) show ?thesis by simp
  qed
  have val: "tInterp s' ! nat (StdLev L ! nat jlevstd) = interpValue L tObsFinal jlevstd"
    using ti rng by simp
  have iff: "levelFails ops P L prs tObsFinal (tFlags s) jlevstd \<longleftrightarrow>
            \<bar>tObsFinal ! nat (StdLev L ! nat jlevstd) - tInterp s' ! nat (StdLev L ! nat jlevstd)\<bar> >
            ICheck_TInterpTol P *
              (if prs ! nat (StdLev L ! nat jlevstd) < ICheck_TolRelaxPThresh P
               then ICheck_TolRelax P else 1)"
    using assms(2) by (simp add: levelFails_def exceedsTol_def TolRelax_def val)
  have "if \<bar>tObsFinal ! nat (StdLev L ! nat jlevstd) - tInterp s' ! nat (StdLev L ! nat jlevstd)\<bar> >
             ICheck_TInterpTol P *
               (if prs ! nat (StdLev L ! nat jlevstd) < ICheck_TolRelaxPThresh P
                then ICheck_TolRelax P else 1)
          then n' = n + 1
          else n' = n \<and> tFlags s' = tFlags s \<and> NumAnyErrors s' = NumAnyErrors s \<and>
               NumInterpErrors s' = NumInterpErrors s \<and> LevErrors s' = LevErrors s"
  proof (cases "levelFails ops P L prs tObsFinal (tFlags s) jlevstd")
    case True
    from checkLevel_fails(1) [OF step True] True iff show ?thesis by simp
  next
    case False
    note e = checkLevel_not_fails [OF step False]
    have "tFlags s' = tFlags (s\<lparr>tInterp := tInterp s'\<rparr>)"
      "NumAnyErrors s' = NumAnyErrors (s\<lparr>tInterp := tInterp s'\<rparr>)"
      "NumInterpErrors s' = NumInterpErrors (s\<lparr>tInterp := tInterp s'\<rparr>)"
      "LevErrors s' = LevErrors (s\<lparr>tInterp := tInterp s'\<rparr>)"
      using e(2) by simp_all
    then have "tFlags s' = tFlags s \<and> NumAnyErrors s' = NumAnyErrors s \<and>
               NumInterpErrors s' = NumInterpErrors s \<and> LevErrors s' = LevErrors s"
      by simp
    with e(1) False iff show ?thesis by simp
  qed
  with step iff show ?thesis by blast
qed

theorem checkLevel_tolerance_witness:
  "stepWellFormed real_ops exParams exLevelsDyadic (pressures exProfile) exObsFinal exStart 0 5 0 \<and>
   passesGuards real_ops exParams exLevelsDyadic (pressures exProfile) (tFlags exStart) 0 \<and>
   passesGuards real_ops exParamsRelaxed exLevelsDyadic (pressures exProfile) (tFlags exStart) 0 \<and>
   checkLevel real_ops exParams exLevelsDyadic (pressures exProfile) exObsFinal exStart 0 0 =
     Some (exStart\<lparr>tFlags := [20, 16, 16, 0, 0], NumAnyErrors := [1], NumInterpErrors := [1],
                   LevErrors := [0, 0, 0, - 1, - 1],
                   tInterp := [- 9999, 284, - 9999, - 9999, - 9999]\<rparr>, 1) \<and>
   levelFails real_ops exParams exLevelsDyadic (pressures exProfile) exObsFinal (tFlags exStart) 0 \<and>
   \<bar>(290 :: real) - 284\<bar> > 1 * 1 \<and>
   checkLevel real_ops exParams exLevelsDyadic (pressures exProfile) (exObsFinal[1 := 569 / 2])
     exStart 0 0 =
     Some (exStart\<lparr>tInterp := [- 9999, 284, - 9999, - 9999, - 9999]\<rparr>, 0) \<and>
   \<not> levelFails real_ops exParams exLevelsDyadic (pressures exProfile) (exObsFinal[1 := 569 / 2])
       (tFlags exStart) 0 \<and>
   \<not> \<bar>(569 / 2 :: real) - 284\<bar> > 1 * 1 \<and>
   pressures exProfile ! 1 < ICheck_TolRelaxPThresh exParamsRelaxed \<and>
   \<not> pressures exProfile ! 1 < ICheck_TolRelaxPThresh exParams \<and>
   checkLevel real_ops exParamsRelaxed exLevelsDyadic (pressures exProfile)
     (exObsFinal[1 := 1141 / 4]) exStart 0 0 =
     Some (exStart\<lparr>tInterp := [- 9999, 284, - 9999, - 9999, - 9999]\<rparr>, 0) \<and>
   \<not> levelFails real_ops exParamsRelaxed exLevelsDyadic (pressures exProfile)
       (exObsFinal[1 := 1141 / 4]) (tFlags exStart) 0 \<and>
   \<not> \<bar>(1141 / 4 :: real) - 284\<bar> > 1 * (3 / 2) \<and>
   checkLevel real_ops exParams exLevelsDyadic (pressures exProfile) (exObsFinal[1 := 1141 / 4])
     exStart 0 0 =
     Some (exStart\<lparr>tFlags := [20, 16, 16, 0, 0], NumAnyErrors := [1], NumInterpErrors := [1],
                   LevErrors := [0, 0, 0, - 1, - 1],
                   tInterp := [- 9999, 284, - 9999, - 9999, - 9999]\<rparr>, 1) \<and>
   levelFails real_ops exParams exLevelsDyadic (pressures exProfile) (exObsFinal[1 := 1141 / 4])
       (tFlags exStart) 0 \<and>
   \<bar>(1141 / 4 :: real) - 284\<bar> > 1 * 1"
proof -
  have w: "stepWellFormed real_ops P exLevelsDyadic (pressures exProfile) obs exStart 0 5 0"
    if "P = exParams \<or> P = exParamsRelaxed" "length obs = 5" for P obs
    using that by (auto simp: exD_wellFormed exParamsRelaxed_def exParams_def)
  have w1: "stepWellFormed real_ops exParams exLevelsDyadic (pressures exProfile) exObsFinal
      exStart 0 5 0"
    by (rule w) (simp_all add: exObsFinal_def)
  have w2: "stepWellFormed real_ops exParams exLevelsDyadic (pressures exProfile)
      (exObsFinal[1 := 569 / 2]) exStart 0 5 0"
    by (rule w) (simp_all add: exObsFinal_def)
  have w3: "stepWellFormed real_ops exParamsRelaxed exLevelsDyadic (pressures exProfile)
      (exObsFinal[1 := 1141 / 4]) exStart 0 5 0"
    by (rule w) (simp_all add: exObsFinal_def)
  have w4: "stepWellFormed real_ops exParams exLevelsDyadic (pressures exProfile)
      (exObsFinal[1 := 1141 / 4]) exStart 0 5 0"
    by (rule w) (simp_all add: exObsFinal_def)
  have a: "levelFails real_ops exParams exLevelsDyadic (pressures exProfile) exObsFinal
      (tFlags exStart) 0"
    using exD_step_fails checkLevel_tolerance [OF w1 exD_passes(1)] by (simp add: exD_defs)
  have b: "\<not> levelFails real_ops exParams exLevelsDyadic (pressures exProfile)
      (exObsFinal[1 := 569 / 2]) (tFlags exStart) 0"
    using exD_step_passes checkLevel_tolerance [OF w2 exD_passes(1)] by (simp add: exD_defs)
  have c: "\<not> levelFails real_ops exParamsRelaxed exLevelsDyadic (pressures exProfile)
      (exObsFinal[1 := 1141 / 4]) (tFlags exStart) 0"
    using exD_step_relaxed checkLevel_tolerance [OF w3 exD_passes(2)] by (simp add: exD_defs)
  have d: "levelFails real_ops exParams exLevelsDyadic (pressures exProfile)
      (exObsFinal[1 := 1141 / 4]) (tFlags exStart) 0"
    using exD_step_strict checkLevel_tolerance [OF w4 exD_passes(1)] by (simp add: exD_defs)
  have e: "pressures exProfile ! 1 < ICheck_TolRelaxPThresh exParamsRelaxed"
    "\<not> pressures exProfile ! 1 < ICheck_TolRelaxPThresh exParams"
    by (simp_all add: exD_defs)
  have f: "\<bar>(290 :: real) - 284\<bar> > 1 * 1" "\<not> \<bar>(569 / 2 :: real) - 284\<bar> > 1 * 1"
    "\<not> \<bar>(1141 / 4 :: real) - 284\<bar> > 1 * (3 / 2)" "\<bar>(1141 / 4 :: real) - 284\<bar> > 1 * 1"
    by simp_all
  from w1 exD_passes exD_step_fails a f(1) exD_step_passes b f(2) e exD_step_relaxed c f(3)
    exD_step_strict d f(4)
  show ?thesis by blast
qed

text \<open>
  Claim C4. When a standard level of a well-formed iteration fails the tolerance test,
  the iteration returns; it increments \<open>NumErrors\<close>, \<open>NumAnyErrors[0]\<close> and
  \<open>NumInterpErrors[0]\<close> by exactly one, ORs \<open>InterpolationFlag\<close> into
  the flag words of the standard level and of its two brackets (and into no other),
  and increments \<open>LevErrors_\<close> once for each of the three positions \<open>jlev\<close>, \<open>SigB\<close>, \<open>SigA\<close>
  (\<open>count_list\<close> counts how many of the three are the index \<open>i\<close>). A valid and
  well-formed call, with flag constants that share no bit, returns, and \<open>LevErrors_[i]\<close>
  ends at \<open>-1\<close> plus one increment for every failing standard level in whose triple \<open>i\<close>
  occurs, and the two counters grow by the number of failing standard levels.
\<close>

theorem failed_level_bookkeeping:
  "(stepWellFormed ops P L prs tObsFinal s n N jlevstd \<and>
    levelFails ops P L prs tObsFinal (tFlags s) jlevstd
    \<longrightarrow> (\<exists>s' n'. checkLevel ops P L prs tObsFinal s n jlevstd = Some (s', n') \<and>
        n' = n + 1 \<and>
        NumAnyErrors s' = (NumAnyErrors s)[0 := NumAnyErrors s ! 0 + 1] \<and>
        NumInterpErrors s' = (NumInterpErrors s)[0 := NumInterpErrors s ! 0 + 1] \<and>
        (\<forall>k \<in> set (triple L jlevstd).
           0 \<le> k \<and> nat k < length (tFlags s) \<and> nat k < length (LevErrors s)) \<and>
        (\<forall>i. tFlags s' ! i =
           (if int i \<in> set (triple L jlevstd)
            then tFlags s ! i OR InterpolationFlag P else tFlags s ! i)) \<and>
        (\<forall>i. LevErrors s' ! i = LevErrors s ! i + int (count_list (triple L jlevstd) (int i))))) \<and>
   (\<not> anyVectorEmpty (inputSizes inp s0) \<and> allVectorsSameSize (inputSizes inp s0) \<and>
    wellFormed ops P calc numLevelsToCheck inp s0 \<and>
    InterpolationFlag P AND SurfaceLevelFlag P = 0
    \<longrightarrow> (\<exists>out. runCheck ops P calc numLevelsToCheck inp s0 = Some out \<and>
        (\<forall>i < nat numLevelsToCheck. LevErrors out ! i = - 1 +
           (\<Sum>j\<leftarrow>loopOrder (NumStd (stdLevelsOf calc numLevelsToCheck inp s0)).
              if levelFails ops P (stdLevelsOf calc numLevelsToCheck inp s0) (pressures inp)
                   (tObsFinalOf inp) (tFlags s0) j
              then int (count_list (triple (stdLevelsOf calc numLevelsToCheck inp s0) j) (int i))
              else 0)) \<and>
        NumAnyErrors out = (NumAnyErrors s0)[0 := NumAnyErrors s0 ! 0 +
           int (length (filter (levelFails ops P (stdLevelsOf calc numLevelsToCheck inp s0)
                  (pressures inp) (tObsFinalOf inp) (tFlags s0))
                (loopOrder (NumStd (stdLevelsOf calc numLevelsToCheck inp s0)))))] \<and>
        NumInterpErrors out = (NumInterpErrors s0)[0 := NumInterpErrors s0 ! 0 +
           int (length (filter (levelFails ops P (stdLevelsOf calc numLevelsToCheck inp s0)
                  (pressures inp) (tObsFinalOf inp) (tFlags s0))
                (loopOrder (NumStd (stdLevelsOf calc numLevelsToCheck inp s0)))))]))"
proof (intro conjI impI)
  assume a: "stepWellFormed ops P L prs tObsFinal s n N jlevstd \<and>
    levelFails ops P L prs tObsFinal (tFlags s) jlevstd"
  then have wf: "stepWellFormed ops P L prs tObsFinal s n N jlevstd"
    and fails: "levelFails ops P L prs tObsFinal (tFlags s) jlevstd" by simp_all
  from stepWellFormed_defined [OF wf] obtain s' n'
    where step: "checkLevel ops P L prs tObsFinal s n jlevstd = Some (s', n')" by blast
  note e = checkLevel_fails [OF step fails]
  have "n' = n + 1" by (rule e(1))
  moreover have "NumAnyErrors s' = (NumAnyErrors s)[0 := NumAnyErrors s ! 0 + 1]" by (rule e(7))
  moreover have "NumInterpErrors s' = (NumInterpErrors s)[0 := NumInterpErrors s ! 0 + 1]"
    by (rule e(9))
  moreover have "\<forall>k \<in> set (triple L jlevstd).
           0 \<le> k \<and> nat k < length (tFlags s) \<and> nat k < length (LevErrors s)" by (rule e(10))
  moreover have "\<forall>i. tFlags s' ! i =
           (if int i \<in> set (triple L jlevstd)
            then tFlags s ! i OR InterpolationFlag P else tFlags s ! i)" using e(13) by blast
  moreover have "\<forall>i. LevErrors s' ! i =
           LevErrors s ! i + int (count_list (triple L jlevstd) (int i))"
    using e(14) by blast
  ultimately show "\<exists>s' n'. checkLevel ops P L prs tObsFinal s n jlevstd = Some (s', n') \<and>
        n' = n + 1 \<and>
        NumAnyErrors s' = (NumAnyErrors s)[0 := NumAnyErrors s ! 0 + 1] \<and>
        NumInterpErrors s' = (NumInterpErrors s)[0 := NumInterpErrors s ! 0 + 1] \<and>
        (\<forall>k \<in> set (triple L jlevstd).
           0 \<le> k \<and> nat k < length (tFlags s) \<and> nat k < length (LevErrors s)) \<and>
        (\<forall>i. tFlags s' ! i =
           (if int i \<in> set (triple L jlevstd)
            then tFlags s ! i OR InterpolationFlag P else tFlags s ! i)) \<and>
        (\<forall>i. LevErrors s' ! i = LevErrors s ! i + int (count_list (triple L jlevstd) (int i)))"
    using step by blast
next
  let ?L = "stdLevelsOf calc numLevelsToCheck inp s0"
  let ?F = "levelFails ops P ?L (pressures inp) (tObsFinalOf inp) (tFlags s0)"
  assume b: "\<not> anyVectorEmpty (inputSizes inp s0) \<and> allVectorsSameSize (inputSizes inp s0) \<and>
    wellFormed ops P calc numLevelsToCheck inp s0 \<and>
    InterpolationFlag P AND SurfaceLevelFlag P = 0"
  then have H: "InterpolationFlag P AND SurfaceLevelFlag P = 0"
    and valid: "\<not> anyVectorEmpty (inputSizes inp s0)" "allVectorsSameSize (inputSizes inp s0)"
    and wf: "wellFormed ops P calc numLevelsToCheck inp s0" by simp_all
  from runCheck_defined [OF valid wf] obtain out
    where run: "runCheck ops P calc numLevelsToCheck inp s0 = Some out" by blast
  from run valid obtain s2 k where
    loop: "stdLevelLoop ops P ?L (pressures inp) (tObsFinalOf inp)
           (loopOrder (NumStd ?L)) (loopStart P numLevelsToCheck s0, 0) = Some (s2, k)"
    and pos: "0 < k \<Longrightarrow> NumInterpErrObs s2 \<noteq> [] \<and>
           out = s2\<lparr>NumInterpErrObs := (NumInterpErrObs s2)[0 := NumInterpErrObs s2 ! 0 + 1]\<rparr>"
    and zero: "\<not> 0 < k \<Longrightarrow> out = s2"
    by (auto elim: runCheck_SomeE)
  have eq: "LevErrors out = LevErrors s2 \<and> NumAnyErrors out = NumAnyErrors s2 \<and>
            NumInterpErrors out = NumInterpErrors s2"
  proof (cases "0 < k")
    case True
    let ?o = "s2\<lparr>NumInterpErrObs := (NumInterpErrObs s2)[0 := NumInterpErrObs s2 ! 0 + 1]\<rparr>"
    from pos [OF True] have "LevErrors out = LevErrors ?o" "NumAnyErrors out = NumAnyErrors ?o"
      "NumInterpErrors out = NumInterpErrors ?o" by simp_all
    then show ?thesis by simp
  next
    case False
    from zero [OF False] show ?thesis by simp
  qed
  note t = stdLevelLoop_totals [OF H loop]
  have "\<forall>i < nat numLevelsToCheck. LevErrors out ! i = - 1 +
           (\<Sum>j\<leftarrow>loopOrder (NumStd ?L). if ?F j then int (count_list (triple ?L j) (int i)) else 0)"
    using t(3) eq by simp
  moreover have "NumAnyErrors out = (NumAnyErrors s0)[0 := NumAnyErrors s0 ! 0 +
           int (length (filter ?F (loopOrder (NumStd ?L))))]"
    using t(1) eq by simp
  moreover have "NumInterpErrors out = (NumInterpErrors s0)[0 := NumInterpErrors s0 ! 0 +
           int (length (filter ?F (loopOrder (NumStd ?L))))]"
    using t(2) eq by simp
  ultimately show "\<exists>out. runCheck ops P calc numLevelsToCheck inp s0 = Some out \<and>
        (\<forall>i < nat numLevelsToCheck. LevErrors out ! i = - 1 +
           (\<Sum>j\<leftarrow>loopOrder (NumStd ?L). if ?F j then int (count_list (triple ?L j) (int i)) else 0)) \<and>
        NumAnyErrors out = (NumAnyErrors s0)[0 := NumAnyErrors s0 ! 0 +
           int (length (filter ?F (loopOrder (NumStd ?L))))] \<and>
        NumInterpErrors out = (NumInterpErrors s0)[0 := NumInterpErrors s0 ! 0 +
           int (length (filter ?F (loopOrder (NumStd ?L))))]"
    using run by blast
qed

theorem failed_level_bookkeeping_witness:
  "stepWellFormed real_ops exParams exLevels (pressures exProfile) exObsFinal exStart 0 5 0 \<and>
   levelFails real_ops exParams exLevels (pressures exProfile) exObsFinal (tFlags exStart) 0 \<and>
   checkLevel real_ops exParams exLevels (pressures exProfile) exObsFinal exStart 0 0 =
     Some (exStart\<lparr>tFlags := [20, 16, 16, 0, 0], NumAnyErrors := [1], NumInterpErrors := [1],
                   LevErrors := [0, 0, 0, - 1, - 1],
                   tInterp := [- 9999, 284, - 9999, - 9999, - 9999]\<rparr>, 1) \<and>
   triple exLevels 0 = [1, 0, 2] \<and>
   tFlags exStart = [4, 0, 0, 0, 0] \<and> LevErrors exStart = [- 1, - 1, - 1, - 1, - 1] \<and>
   \<not> anyVectorEmpty (inputSizes exProfile exState) \<and>
   allVectorsSameSize (inputSizes exProfile exState) \<and>
   wellFormed real_ops exParams exCalc 5 exProfile exState \<and>
   InterpolationFlag exParams AND SurfaceLevelFlag exParams = 0 \<and>
   runCheck real_ops exParams exCalc 5 exProfile exState =
     Some (exStart\<lparr>tFlags := [20, 16, 16, 16, 16], NumAnyErrors := [2], NumInterpErrors := [2],
                   NumInterpErrObs := [1], LevErrors := [0, 0, 1, 0, 0],
                   tInterp := [- 9999, 284, - 9999, 270, - 9999]\<rparr>) \<and>
   (\<Sum>j\<leftarrow>loopOrder (NumStd (stdLevelsOf exCalc 5 exProfile exState)).
      if levelFails real_ops exParams (stdLevelsOf exCalc 5 exProfile exState) (pressures exProfile)
           (tObsFinalOf exProfile) (tFlags exState) j
      then int (count_list (triple (stdLevelsOf exCalc 5 exProfile exState) j) (int 2))
      else 0) = 2"
proof -
  let ?Y = "exStart\<lparr>tFlags := [20, 16, 16, 16, 16], NumAnyErrors := [2], NumInterpErrors := [2],
                   NumInterpErrObs := [1], LevErrors := [0, 0, 1, 0, 0],
                   tInterp := [- 9999, 284, - 9999, 270, - 9999]\<rparr>"
  have H: "InterpolationFlag exParams AND SurfaceLevelFlag exParams = 0"
    by (simp add: exParams_def)
  note T = failed_level_bookkeeping [of real_ops exParams exLevels "pressures exProfile" exObsFinal
      exStart 0 5 0 exProfile exState exCalc 5]
  from T ex_valid ex_wellFormed H
  obtain out where run: "runCheck real_ops exParams exCalc 5 exProfile exState = Some out"
    and all: "\<forall>i < nat 5. LevErrors out ! i = - 1 +
           (\<Sum>j\<leftarrow>loopOrder (NumStd (stdLevelsOf exCalc 5 exProfile exState)).
              if levelFails real_ops exParams (stdLevelsOf exCalc 5 exProfile exState)
                   (pressures exProfile) (tObsFinalOf exProfile) (tFlags exState) j
              then int (count_list (triple (stdLevelsOf exCalc 5 exProfile exState) j) (int i))
              else 0)"
    by blast
  from run ex_run have out: "out = ?Y" by simp
  have "(2 :: nat) < nat 5" by simp
  from all [rule_format, OF this]
  have "LevErrors ?Y ! 2 = - 1 +
           (\<Sum>j\<leftarrow>loopOrder (NumStd (stdLevelsOf exCalc 5 exProfile exState)).
              if levelFails real_ops exParams (stdLevelsOf exCalc 5 exProfile exState)
                   (pressures exProfile) (tObsFinalOf exProfile) (tFlags exState) j
              then int (count_list (triple (stdLevelsOf exCalc 5 exProfile exState) j) (int 2))
              else 0)" unfolding out .
  moreover have "LevErrors ?Y ! 2 = 1" by simp
  ultimately have S: "(\<Sum>j\<leftarrow>loopOrder (NumStd (stdLevelsOf exCalc 5 exProfile exState)).
              if levelFails real_ops exParams (stdLevelsOf exCalc 5 exProfile exState)
                   (pressures exProfile) (tObsFinalOf exProfile) (tFlags exState) j
              then int (count_list (triple (stdLevelsOf exCalc 5 exProfile exState) j) (int 2))
              else 0) = 2"
    by linarith
  have "triple exLevels 0 = [1, 0, 2]" "tFlags exStart = [4, 0, 0, 0, 0]"
    "LevErrors exStart = [- 1, - 1, - 1, - 1, - 1]"
    by (simp_all add: triple_def exLevels_def exStart_def exState_def)
  with S H ex_step0 ex_fails0 ex_run ex_valid ex_wellFormed ex_step0_wellFormed
  show ?thesis by simp
qed

text \<open>
  Claim C5. An iteration is skipped without a trace (the state and \<open>NumErrors\<close> after
  it are those before it, so \<open>tInterp_[jlev]\<close> keeps the missing value) whenever
  \<open>NumSig_ < max(3, NumStd_ / 2)\<close>, or \<open>SigB\<close> or \<open>SigA\<close> is \<open>-1\<close>, or the pressure
  difference from the lower bracket to the level or from the level to the upper
  bracket exceeds the selected \<open>BigGap\<close>, or the log-pressures of the two brackets are
  equal. Consequently, when the input is valid and \<open>NumStd_\<close> is 0 or every standard
  level is skipped by a guard, \<open>runCheck\<close> returns the state it was given with
  \<open>LevErrors_\<close> all \<open>-1\<close> and \<open>tInterp_\<close> all \<open>missingValueFloat\<close>: flags and counters are
  those of the input.
\<close>

theorem skipped_levels_leave_no_trace:
  "(checkLevel ops P L prs tObsFinal s n jlevstd = Some (s', n') \<and>
    (NumSig L < max 3 (c_div (NumStd L) 2) \<or>
     SigBelow L ! nat jlevstd = - 1 \<or> SigAbove L ! nat jlevstd = - 1 \<or>
     (\<exists>BigGap. levelBigGap ops P prs (StdLev L ! nat jlevstd) = Some BigGap \<and>
        (prs ! nat (SigBelow L ! nat jlevstd) - prs ! nat (StdLev L ! nat jlevstd) > BigGap \<or>
         prs ! nat (StdLev L ! nat jlevstd) - prs ! nat (SigAbove L ! nat jlevstd) > BigGap)) \<or>
     f_eq ops (LogP L ! nat (SigBelow L ! nat jlevstd)) (LogP L ! nat (SigAbove L ! nat jlevstd)))
    \<longrightarrow> s' = s \<and> n' = n) \<and>
   (runCheck ops P calc numLevelsToCheck inp s0 = Some out \<and>
    \<not> anyVectorEmpty (inputSizes inp s0) \<and> allVectorsSameSize (inputSizes inp s0) \<and>
    (NumStd (stdLevelsOf calc numLevelsToCheck inp s0) = 0 \<or>
     (\<forall>j. 0 \<le> j \<and> j < NumStd (stdLevelsOf calc numLevelsToCheck inp s0) \<longrightarrow>
        \<not> passesGuards ops P (stdLevelsOf calc numLevelsToCheck inp s0) (pressures inp)
            (tFlags s0) j))
    \<longrightarrow> out = s0\<lparr>LevErrors := replicate (nat numLevelsToCheck) (- 1),
                  tInterp := replicate (nat numLevelsToCheck) (missingValueFloat P)\<rparr>)"
proof (intro conjI impI)
  assume a: "checkLevel ops P L prs tObsFinal s n jlevstd = Some (s', n') \<and>
    (NumSig L < max 3 (c_div (NumStd L) 2) \<or>
     SigBelow L ! nat jlevstd = - 1 \<or> SigAbove L ! nat jlevstd = - 1 \<or>
     (\<exists>BigGap. levelBigGap ops P prs (StdLev L ! nat jlevstd) = Some BigGap \<and>
        (prs ! nat (SigBelow L ! nat jlevstd) - prs ! nat (StdLev L ! nat jlevstd) > BigGap \<or>
         prs ! nat (StdLev L ! nat jlevstd) - prs ! nat (SigAbove L ! nat jlevstd) > BigGap)) \<or>
     f_eq ops (LogP L ! nat (SigBelow L ! nat jlevstd)) (LogP L ! nat (SigAbove L ! nat jlevstd)))"
  then have "\<not> passesGuards ops P L prs (tFlags s) jlevstd"
    by (auto simp: passesGuards_def Let_def split: option.splits)
  with a checkLevel_skip [of ops P L prs tObsFinal s n jlevstd s' n']
  show "s' = s" and "n' = n" by simp_all
next
  let ?L = "stdLevelsOf calc numLevelsToCheck inp s0"
  assume b: "runCheck ops P calc numLevelsToCheck inp s0 = Some out \<and>
    \<not> anyVectorEmpty (inputSizes inp s0) \<and> allVectorsSameSize (inputSizes inp s0) \<and>
    (NumStd ?L = 0 \<or>
     (\<forall>j. 0 \<le> j \<and> j < NumStd ?L \<longrightarrow>
        \<not> passesGuards ops P ?L (pressures inp) (tFlags s0) j))"
  then obtain s2 k where
    loop: "stdLevelLoop ops P ?L (pressures inp) (tObsFinalOf inp)
           (loopOrder (NumStd ?L)) (loopStart P numLevelsToCheck s0, 0) = Some (s2, k)"
    and zero: "\<not> 0 < k \<Longrightarrow> out = s2"
    by (auto elim: runCheck_SomeE)
  from b have "\<forall>j \<in> set (loopOrder (NumStd ?L)).
      \<not> passesGuards ops P ?L (pressures inp) (tFlags (loopStart P numLevelsToCheck s0)) j"
    by (auto simp: set_loopOrder)
  from stdLevelLoop_all_skipped [OF loop this]
  have "s2 = loopStart P numLevelsToCheck s0" "k = 0" by simp_all
  with zero show "out = loopStart P numLevelsToCheck s0" by simp
qed

theorem skipped_levels_leave_no_trace_witness:
  "checkLevel real_ops exParams (exLevels\<lparr>SigBelow := [- 1, 2]\<rparr>) (pressures exProfile) exObsFinal
     exStart 0 0 = Some (exStart, 0) \<and>
   SigBelow (exLevels\<lparr>SigBelow := [- 1, 2]\<rparr>) ! nat 0 = - 1 \<and>
   runCheck real_ops exParams (\<lambda>n prs t f. exLevels\<lparr>NumSig := 2\<rparr>) 5 exProfile exState =
     Some (exState\<lparr>LevErrors := replicate (nat 5) (- 1),
                   tInterp := replicate (nat 5) (missingValueFloat exParams)\<rparr>) \<and>
   \<not> anyVectorEmpty (inputSizes exProfile exState) \<and> allVectorsSameSize (inputSizes exProfile exState) \<and>
   \<not> passesGuards real_ops exParams (exLevels\<lparr>NumSig := 2\<rparr>) (pressures exProfile) (tFlags exState) 0 \<and>
   \<not> passesGuards real_ops exParams (exLevels\<lparr>NumSig := 2\<rparr>) (pressures exProfile) (tFlags exState) 1"
proof -
  have p: "\<not> passesGuards real_ops exParams (exLevels\<lparr>NumSig := 2\<rparr>) (pressures exProfile)
             (tFlags exState) j" for j
    by (simp add: passesGuards_def exLevels_def c_div_def)
  have sk: "\<forall>j. 0 \<le> j \<and> j < NumStd (exLevels\<lparr>NumSig := 2\<rparr>) \<longrightarrow>
     \<not> passesGuards real_ops exParams (exLevels\<lparr>NumSig := 2\<rparr>) (pressures exProfile) (tFlags exState) j"
    using p by simp
  from skipped_levels_leave_no_trace [of real_ops exParams "exLevels\<lparr>SigBelow := [- 1, 2]\<rparr>"
      "pressures exProfile" exObsFinal exStart 0 0 exStart 0
      "\<lambda>n prs t f. exLevels\<lparr>NumSig := 2\<rparr>" 5 exProfile exState exStart]
    ex_no_bracket_step ex_sparse_run ex_valid sk p
  show ?thesis by (simp add: exLevels_def)
qed

text \<open>
  Claim C6. A standard level whose flag word has a bit of \<open>SurfaceLevelFlag\<close> set is
  never evaluated. Its iteration returns at line 72 whatever the observations are:
  it is defined as soon as \<open>StdLev_[jlevstd]\<close> and \<open>tFlags[jlev]\<close> can be read, and it
  leaves the state and \<open>NumErrors\<close> as they were (no flag, counter or \<open>LevErrors_\<close>
  changes). Over a whole valid call, \<open>tInterp_\<close> at a level whose input flags carry the
  surface bit is still \<open>missingValueFloat\<close> at the end.
\<close>

theorem surface_level_never_evaluated:
  "(vec_at (StdLev L) jlevstd = Some jlev \<and> vec_at (tFlags s) jlev = Some fl \<and>
    fl AND SurfaceLevelFlag P \<noteq> 0
    \<longrightarrow> checkLevel ops P L prs tObsFinal s n jlevstd = Some (s, n)) \<and>
   (runCheck ops P calc numLevelsToCheck inp s0 = Some out \<and>
    \<not> anyVectorEmpty (inputSizes inp s0) \<and> allVectorsSameSize (inputSizes inp s0) \<and>
    lev < nat numLevelsToCheck \<and> tFlags s0 ! lev AND SurfaceLevelFlag P \<noteq> 0
    \<longrightarrow> tInterp out ! lev = missingValueFloat P)"
proof (intro conjI impI)
  assume "vec_at (StdLev L) jlevstd = Some jlev \<and> vec_at (tFlags s) jlev = Some fl \<and>
    fl AND SurfaceLevelFlag P \<noteq> 0"
  then show "checkLevel ops P L prs tObsFinal s n jlevstd = Some (s, n)"
    by (simp add: checkLevel_def)
next
  let ?L = "stdLevelsOf calc numLevelsToCheck inp s0"
  assume b: "runCheck ops P calc numLevelsToCheck inp s0 = Some out \<and>
    \<not> anyVectorEmpty (inputSizes inp s0) \<and> allVectorsSameSize (inputSizes inp s0) \<and>
    lev < nat numLevelsToCheck \<and> tFlags s0 ! lev AND SurfaceLevelFlag P \<noteq> 0"
  then obtain s2 k where
    loop: "stdLevelLoop ops P ?L (pressures inp) (tObsFinalOf inp)
           (loopOrder (NumStd ?L)) (loopStart P numLevelsToCheck s0, 0) = Some (s2, k)"
    and pos: "0 < k \<Longrightarrow> NumInterpErrObs s2 \<noteq> [] \<and>
           out = s2\<lparr>NumInterpErrObs := (NumInterpErrObs s2)[0 := NumInterpErrObs s2 ! 0 + 1]\<rparr>"
    and zero: "\<not> 0 < k \<Longrightarrow> out = s2"
    by (auto elim: runCheck_SomeE)
  have ti: "tInterp out = tInterp s2"
  proof (cases "0 < k")
    case True
    from pos [OF True] have "tInterp out =
      tInterp (s2\<lparr>NumInterpErrObs := (NumInterpErrObs s2)[0 := NumInterpErrObs s2 ! 0 + 1]\<rparr>)"
      by simp
    then show ?thesis by simp
  next
    case False
    from zero [OF False] show ?thesis by simp
  qed
  from b have "tFlags (loopStart P numLevelsToCheck s0) ! lev AND SurfaceLevelFlag P \<noteq> 0"
    by simp
  from stdLevelLoop_surface [OF loop this] b
  show "tInterp out ! lev = missingValueFloat P" by (simp add: ti)
qed

theorem surface_level_never_evaluated_witness:
  "vec_at (StdLev exLevels) 0 = Some 1 \<and>
   vec_at (tFlags (exStart\<lparr>tFlags := [4, 4, 0, 0, 0]\<rparr>)) 1 = Some 4 \<and>
   (4 :: 32 word) AND SurfaceLevelFlag exParams \<noteq> 0 \<and>
   checkLevel real_ops exParams exLevels (pressures exProfile) exObsFinal
     (exStart\<lparr>tFlags := [4, 4, 0, 0, 0]\<rparr>) 0 0 = Some (exStart\<lparr>tFlags := [4, 4, 0, 0, 0]\<rparr>, 0) \<and>
   runCheck real_ops exParams exCalc 5 exProfile (exState\<lparr>tFlags := [4, 4, 0, 0, 0]\<rparr>) =
   Some (exStart\<lparr>tFlags := [4, 4, 16, 16, 16], NumAnyErrors := [1], NumInterpErrors := [1],
                 NumInterpErrObs := [1], LevErrors := [- 1, - 1, 0, 0, 0],
                 tInterp := [- 9999, - 9999, - 9999, 270, - 9999]\<rparr>) \<and>
   tInterp (exStart\<lparr>tFlags := [4, 4, 16, 16, 16], NumAnyErrors := [1], NumInterpErrors := [1],
                 NumInterpErrObs := [1], LevErrors := [- 1, - 1, 0, 0, 0],
                 tInterp := [- 9999, - 9999, - 9999, 270, - 9999]\<rparr>) ! 1 = missingValueFloat exParams"
proof -
  have v: "\<not> anyVectorEmpty (inputSizes exProfile (exState\<lparr>tFlags := [4, 4, 0, 0, 0]\<rparr>))"
    "allVectorsSameSize (inputSizes exProfile (exState\<lparr>tFlags := [4, 4, 0, 0, 0]\<rparr>))"
    by (simp_all add: anyVectorEmpty_def allVectorsSameSize_def inputSizes_def ex_defs)
  have h: "vec_at (StdLev exLevels) 0 = Some 1"
    "vec_at (tFlags (exStart\<lparr>tFlags := [4, 4, 0, 0, 0]\<rparr>)) 1 = Some 4"
    "(4 :: 32 word) AND SurfaceLevelFlag exParams \<noteq> 0"
    "(1 :: nat) < nat 5"
    "tFlags (exState\<lparr>tFlags := [4, 4, 0, 0, 0]\<rparr>) ! 1 AND SurfaceLevelFlag exParams \<noteq> 0"
    by (simp_all add: vec_at_def exLevels_def exParams_def)
  from surface_level_never_evaluated [of exLevels 0 1 "exStart\<lparr>tFlags := [4, 4, 0, 0, 0]\<rparr>" 4
      exParams real_ops "pressures exProfile" exObsFinal 0 exCalc 5 exProfile
      "exState\<lparr>tFlags := [4, 4, 0, 0, 0]\<rparr>"
      "exStart\<lparr>tFlags := [4, 4, 16, 16, 16], NumAnyErrors := [1], NumInterpErrors := [1],
                 NumInterpErrObs := [1], LevErrors := [- 1, - 1, 0, 0, 0],
                 tInterp := [- 9999, - 9999, - 9999, 270, - 9999]\<rparr>" 1]
    h v ex_surface_run
  show ?thesis by (simp add: exParams_def)
qed

text \<open>
  Claim C7. When one of the five input vectors (pressure, observed temperature,
  background temperature, flags, bias correction) is empty, or when they do not all
  have the same length, \<open>runCheck\<close> returns normally; the state it returns is the state
  it was given but for one more warning, which is the message about an empty vector
  in the first case and the message about the sizes in the second. Flags, counters,
  \<open>LevErrors_\<close> and \<open>tInterp_\<close> are not touched.
\<close>

theorem runCheck_rejects_bad_input:
  assumes "pressures inp = [] \<or> tObs inp = [] \<or> tBkg inp = [] \<or> tFlags s = [] \<or>
           tObsCorrection inp = [] \<or>
           length (tObs inp) \<noteq> length (pressures inp) \<or>
           length (tBkg inp) \<noteq> length (pressures inp) \<or>
           length (tFlags s) \<noteq> length (pressures inp) \<or>
           length (tObsCorrection inp) \<noteq> length (pressures inp)"
  shows "runCheck ops P calc numLevelsToCheck inp s =
           Some (s\<lparr>warnings := warnings s @
             [if pressures inp = [] \<or> tObs inp = [] \<or> tBkg inp = [] \<or> tFlags s = [] \<or>
                 tObsCorrection inp = []
              then ''At least one vector is empty. Check will not be performed.''
              else ''Not all vectors have the same size. Check will not be performed.'']\<rparr>)"
proof (cases "anyVectorEmpty (inputSizes inp s)")
  case True
  then show ?thesis by (simp add: runCheck_def anyVectorEmpty_inputSizes)
next
  case False
  with assms have "\<not> allVectorsSameSize (inputSizes inp s)"
    using inputSizes_valid [of inp s] by auto
  with False show ?thesis by (simp add: runCheck_def anyVectorEmpty_inputSizes)
qed

theorem runCheck_rejects_bad_input_witness:
  "runCheck real_ops exParams exCalc 5 (exProfile\<lparr>pressures := []\<rparr>) exState =
     Some (exState\<lparr>warnings := [''At least one vector is empty. Check will not be performed.'']\<rparr>)
   \<and> runCheck real_ops exParams exCalc 5 (exProfile\<lparr>tBkg := [288, 284]\<rparr>) exState =
     Some (exState\<lparr>warnings :=
       [''Not all vectors have the same size. Check will not be performed.'']\<rparr>)"
  using runCheck_rejects_bad_input [of "exProfile\<lparr>pressures := []\<rparr>" exState real_ops exParams exCalc 5]
    runCheck_rejects_bad_input [of "exProfile\<lparr>tBkg := [288, 284]\<rparr>" exState real_ops exParams exCalc 5]
  by (simp add: exProfile_def exState_def)

text \<open>
  Claim C8. In one call of \<open>runCheck\<close> the counter \<open>NumInterpErrObs[0]\<close> is incremented
  once when the input is valid and at least one of the standard levels
  \<open>0, \<dots>, NumStd_ - 1\<close> fails the tolerance test, however many of them fail; otherwise
  the counter is left as it is. A level fails during the call exactly if some level
  fails when judged at the flags of the input (\<open>stdLevelLoop_NumErrors\<close>), which is
  how the condition is written here.
\<close>

theorem NumInterpErrObs_once_per_profile:
  assumes "runCheck ops P calc numLevelsToCheck inp s = Some out"
  shows "if \<not> anyVectorEmpty (inputSizes inp s) \<and> allVectorsSameSize (inputSizes inp s) \<and>
            (\<exists>j. 0 \<le> j \<and> j < NumStd (stdLevelsOf calc numLevelsToCheck inp s) \<and>
               levelFails ops P (stdLevelsOf calc numLevelsToCheck inp s) (pressures inp)
                 (tObsFinalOf inp) (tFlags s) j)
         then NumInterpErrObs s \<noteq> [] \<and>
              NumInterpErrObs out = (NumInterpErrObs s)[0 := NumInterpErrObs s ! 0 + 1]
         else NumInterpErrObs out = NumInterpErrObs s"
proof (cases "\<not> anyVectorEmpty (inputSizes inp s) \<and> allVectorsSameSize (inputSizes inp s)")
  case False
  from runCheck_invalid [OF assms False] obtain w where "out = s\<lparr>warnings := w\<rparr>" by blast
  with False show ?thesis by auto
next
  case True
  let ?L = "stdLevelsOf calc numLevelsToCheck inp s"
  from True assms obtain s2 k where
    loop: "stdLevelLoop ops P ?L (pressures inp) (tObsFinalOf inp)
           (loopOrder (NumStd ?L)) (loopStart P numLevelsToCheck s, 0) = Some (s2, k)"
    and pos: "0 < k \<Longrightarrow> NumInterpErrObs s2 \<noteq> [] \<and>
           out = s2\<lparr>NumInterpErrObs := (NumInterpErrObs s2)[0 := NumInterpErrObs s2 ! 0 + 1]\<rparr>"
    and zero: "\<not> 0 < k \<Longrightarrow> out = s2"
    by (auto elim: runCheck_SomeE)
  from stdLevelLoop_frame [OF loop] have same: "NumInterpErrObs s2 = NumInterpErrObs s" by simp
  from stdLevelLoop_NumErrors [OF loop]
  have iff: "0 < k \<longleftrightarrow> (\<exists>j. 0 \<le> j \<and> j < NumStd ?L \<and>
                  levelFails ops P ?L (pressures inp) (tObsFinalOf inp) (tFlags s) j)"
    by (auto simp: set_loopOrder)
  show ?thesis
  proof (cases "0 < k")
    case k: True
    from pos [OF k] same have "NumInterpErrObs s \<noteq> []"
      "NumInterpErrObs out = (NumInterpErrObs s)[0 := NumInterpErrObs s ! 0 + 1]"
      by simp_all
    with k iff True show ?thesis by auto
  next
    case k: False
    from zero [OF k] same have "NumInterpErrObs out = NumInterpErrObs s" by simp
    with k iff show ?thesis by auto
  qed
qed

theorem NumInterpErrObs_once_per_profile_witness:
  "runCheck real_ops exParams exCalc 5 exProfile exState =
     Some (exStart\<lparr>tFlags := [20, 16, 16, 16, 16], NumAnyErrors := [2], NumInterpErrors := [2],
                   NumInterpErrObs := [1], LevErrors := [0, 0, 1, 0, 0],
                   tInterp := [- 9999, 284, - 9999, 270, - 9999]\<rparr>) \<and>
   levelFails real_ops exParams exLevels (pressures exProfile) exObsFinal (tFlags exState) 0 \<and>
   levelFails real_ops exParams exLevels (pressures exProfile) exObsFinal (tFlags exState) 1 \<and>
   NumInterpErrObs exState = [0] \<and>
   NumInterpErrObs (exStart\<lparr>tFlags := [20, 16, 16, 16, 16], NumAnyErrors := [2],
       NumInterpErrors := [2], NumInterpErrObs := [1], LevErrors := [0, 0, 1, 0, 0],
       tInterp := [- 9999, 284, - 9999, 270, - 9999]\<rparr>) =
     (NumInterpErrObs exState)[0 := NumInterpErrObs exState ! 0 + 1] \<and>
   runCheck real_ops exParams (\<lambda>n prs t f. exLevels\<lparr>NumSig := 2\<rparr>) 5 exProfile exState =
     Some exStart \<and>
   NumInterpErrObs exStart = NumInterpErrObs exState"
proof -
  let ?out = "exStart\<lparr>tFlags := [20, 16, 16, 16, 16], NumAnyErrors := [2],
       NumInterpErrors := [2], NumInterpErrObs := [1], LevErrors := [0, 0, 1, 0, 0],
       tInterp := [- 9999, 284, - 9999, 270, - 9999]\<rparr>"
  have f0: "levelFails real_ops exParams exLevels (pressures exProfile) exObsFinal (tFlags exState) 0"
    using ex_fails0 by (simp add: exStart_def)
  have "\<exists>j. 0 \<le> j \<and> j < NumStd (stdLevelsOf exCalc 5 exProfile exState) \<and>
          levelFails real_ops exParams (stdLevelsOf exCalc 5 exProfile exState) (pressures exProfile)
            (tObsFinalOf exProfile) (tFlags exState) j"
    using ex_fails_at_input by (intro exI [of _ 0]) (simp add: exCalc_def exLevels_def)
  with NumInterpErrObs_once_per_profile [OF ex_run] ex_valid
  have a: "NumInterpErrObs ?out = (NumInterpErrObs exState)[0 := NumInterpErrObs exState ! 0 + 1]"
    by simp
  have "\<not> (\<exists>j. 0 \<le> j \<and>
          j < NumStd (stdLevelsOf (\<lambda>n prs t f. exLevels\<lparr>NumSig := 2\<rparr>) 5 exProfile exState) \<and>
          levelFails real_ops exParams
            (stdLevelsOf (\<lambda>n prs t f. exLevels\<lparr>NumSig := 2\<rparr>) 5 exProfile exState)
            (pressures exProfile) (tObsFinalOf exProfile) (tFlags exState) j)"
    by (simp add: levelFails_def passesGuards_def exLevels_def c_div_def)
  with NumInterpErrObs_once_per_profile [OF ex_sparse_run]
  have b: "NumInterpErrObs exStart = NumInterpErrObs exState" by simp
  have "NumInterpErrObs exState = [0]" by (simp add: exState_def)
  with a b f0 ex_fails1 ex_run ex_sparse_run show ?thesis by blast
qed

text \<open>
  Claim C9. Take a valid call of \<open>runCheck\<close> in which the triples (standard level and
  its two brackets) of the standard levels that pass the guards are pairwise
  disjoint. Visiting the standard levels \<open>0, \<dots>, NumStd_ - 1\<close> in any other order
  (\<open>checkInOrder\<close> with an order that lists each of them once) returns the same state:
  the same flags, counters, \<open>LevErrors_\<close> and \<open>tInterp_\<close>. And when \<open>runCheck\<close> is run
  again on the state it returned, with \<open>calcStdLevels\<close> giving the same classification
  for the new flags, the flags do not change any more.
\<close>

theorem order_independent_and_idempotent_flags:
  "(runCheck ops P calc numLevelsToCheck inp s = Some out \<and>
    checkInOrder order ops P calc numLevelsToCheck inp s = Some out' \<and>
    \<not> anyVectorEmpty (inputSizes inp s) \<and> allVectorsSameSize (inputSizes inp s) \<and>
    distinct (order (NumStd (stdLevelsOf calc numLevelsToCheck inp s))) \<and>
    set (order (NumStd (stdLevelsOf calc numLevelsToCheck inp s))) =
      set (loopOrder (NumStd (stdLevelsOf calc numLevelsToCheck inp s))) \<and>
    (\<forall>j k. 0 \<le> j \<and> j < NumStd (stdLevelsOf calc numLevelsToCheck inp s) \<and>
           0 \<le> k \<and> k < NumStd (stdLevelsOf calc numLevelsToCheck inp s) \<and> j \<noteq> k \<and>
           passesGuards ops P (stdLevelsOf calc numLevelsToCheck inp s) (pressures inp) (tFlags s) j \<and>
           passesGuards ops P (stdLevelsOf calc numLevelsToCheck inp s) (pressures inp) (tFlags s) k
           \<longrightarrow> set (triple (stdLevelsOf calc numLevelsToCheck inp s) j) \<inter>
               set (triple (stdLevelsOf calc numLevelsToCheck inp s) k) = {})
    \<longrightarrow> out' = out) \<and>
   (runCheck ops P calc numLevelsToCheck inp s = Some out \<and>
    runCheck ops P calc numLevelsToCheck inp out = Some out2 \<and>
    stdLevelsOf calc numLevelsToCheck inp out = stdLevelsOf calc numLevelsToCheck inp s
    \<longrightarrow> tFlags out2 = tFlags out)"
proof (intro conjI impI)
  let ?L = "stdLevelsOf calc numLevelsToCheck inp s"
  let ?st = "loopStart P numLevelsToCheck s"
  assume a: "runCheck ops P calc numLevelsToCheck inp s = Some out \<and>
    checkInOrder order ops P calc numLevelsToCheck inp s = Some out' \<and>
    \<not> anyVectorEmpty (inputSizes inp s) \<and> allVectorsSameSize (inputSizes inp s) \<and>
    distinct (order (NumStd ?L)) \<and> set (order (NumStd ?L)) = set (loopOrder (NumStd ?L)) \<and>
    (\<forall>j k. 0 \<le> j \<and> j < NumStd ?L \<and> 0 \<le> k \<and> k < NumStd ?L \<and> j \<noteq> k \<and>
           passesGuards ops P ?L (pressures inp) (tFlags s) j \<and>
           passesGuards ops P ?L (pressures inp) (tFlags s) k
           \<longrightarrow> set (triple ?L j) \<inter> set (triple ?L k) = {})"
  then obtain s1 k1 where
    l1: "stdLevelLoop ops P ?L (pressures inp) (tObsFinalOf inp)
           (loopOrder (NumStd ?L)) (?st, 0) = Some (s1, k1)"
    and pos1: "0 < k1 \<Longrightarrow> NumInterpErrObs s1 \<noteq> [] \<and>
           out = s1\<lparr>NumInterpErrObs := (NumInterpErrObs s1)[0 := NumInterpErrObs s1 ! 0 + 1]\<rparr>"
    and zero1: "\<not> 0 < k1 \<Longrightarrow> out = s1"
    by (auto elim: runCheck_SomeE)
  from a obtain s2 k2 where
    l2: "stdLevelLoop ops P ?L (pressures inp) (tObsFinalOf inp)
           (order (NumStd ?L)) (?st, 0) = Some (s2, k2)"
    and pos2: "0 < k2 \<Longrightarrow> NumInterpErrObs s2 \<noteq> [] \<and>
           out' = s2\<lparr>NumInterpErrObs := (NumInterpErrObs s2)[0 := NumInterpErrObs s2 ! 0 + 1]\<rparr>"
    and zero2: "\<not> 0 < k2 \<Longrightarrow> out' = s2"
    by (auto elim: checkInOrder_SomeE)
  have ap: "evaluatedApart ops P ?L (pressures inp) (loopOrder (NumStd ?L)) (tFlags ?st)"
    unfolding evaluatedApart_def
  proof (intro conjI ballI impI)
    show "distinct (loopOrder (NumStd ?L))" by (simp add: loopOrder_def)
  next
    fix k assume "k \<in> set (loopOrder (NumStd ?L))"
    with stdLevelLoop_defined [OF l1] show "0 \<le> StdLev ?L ! nat k" by blast
  next
    fix j k assume "j \<in> set (loopOrder (NumStd ?L))" "k \<in> set (loopOrder (NumStd ?L))"
      and "j \<noteq> k \<and> passesGuards ops P ?L (pressures inp) (tFlags ?st) j \<and>
           passesGuards ops P ?L (pressures inp) (tFlags ?st) k"
    with a show "set (triple ?L j) \<inter> set (triple ?L k) = {}"
      by (simp add: set_loopOrder)
  qed
  from a have "distinct (order (NumStd ?L))"
    "set (order (NumStd ?L)) = set (loopOrder (NumStd ?L))" by simp_all
  from stdLevelLoop_order [OF ap this l1 l2] have eq: "s2 = s1" "k2 = k1" by simp_all
  show "out' = out"
  proof (cases "0 < k1")
    case True
    with pos1 pos2 eq show ?thesis by simp
  next
    case False
    with zero1 zero2 eq show ?thesis by simp
  qed
next
  let ?L = "stdLevelsOf calc numLevelsToCheck inp s"
  assume b: "runCheck ops P calc numLevelsToCheck inp s = Some out \<and>
    runCheck ops P calc numLevelsToCheck inp out = Some out2 \<and>
    stdLevelsOf calc numLevelsToCheck inp out = ?L"
  show "tFlags out2 = tFlags out"
  proof (cases "\<not> anyVectorEmpty (inputSizes inp s) \<and> allVectorsSameSize (inputSizes inp s)")
    case False
    with b runCheck_invalid [of ops P calc numLevelsToCheck inp s out]
    obtain w where w: "out = s\<lparr>warnings := w\<rparr>" by blast
    then have "inputSizes inp out = inputSizes inp s" by (simp add: inputSizes_def)
    with False b runCheck_invalid [of ops P calc numLevelsToCheck inp out out2]
    obtain w2 where "out2 = out\<lparr>warnings := w2\<rparr>" by auto
    then show ?thesis by simp
  next
    case True
    with b obtain s1 k1 where
      l1: "stdLevelLoop ops P ?L (pressures inp) (tObsFinalOf inp)
           (loopOrder (NumStd ?L)) (loopStart P numLevelsToCheck s, 0) = Some (s1, k1)"
      and pos1: "0 < k1 \<Longrightarrow> NumInterpErrObs s1 \<noteq> [] \<and>
           out = s1\<lparr>NumInterpErrObs := (NumInterpErrObs s1)[0 := NumInterpErrObs s1 ! 0 + 1]\<rparr>"
      and zero1: "\<not> 0 < k1 \<Longrightarrow> out = s1"
      by (auto elim: runCheck_SomeE)
    have fo: "tFlags out = tFlags s1"
    proof (cases "0 < k1")
      case True
      from pos1 [OF True] have "tFlags out =
        tFlags (s1\<lparr>NumInterpErrObs := (NumInterpErrObs s1)[0 := NumInterpErrObs s1 ! 0 + 1]\<rparr>)"
        by simp
      then show ?thesis by simp
    next
      case False
      from zero1 [OF False] show ?thesis by simp
    qed
    from stdLevelLoop_flags [OF l1] have "length (tFlags s1) = length (tFlags s)" by simp
    with fo have "inputSizes inp out = inputSizes inp s" by (simp add: inputSizes_def)
    with True have v2: "\<not> anyVectorEmpty (inputSizes inp out)" "allVectorsSameSize (inputSizes inp out)"
      by simp_all
    from b have r2: "runCheck ops P calc numLevelsToCheck inp out = Some out2" by simp
    from b have L2: "stdLevelsOf calc numLevelsToCheck inp out = ?L" by simp
    from runCheck_SomeE [OF r2 v2] obtain s2 k2 where
      l2: "stdLevelLoop ops P (stdLevelsOf calc numLevelsToCheck inp out) (pressures inp)
             (tObsFinalOf inp) (loopOrder (NumStd (stdLevelsOf calc numLevelsToCheck inp out)))
             (loopStart P numLevelsToCheck out, 0) = Some (s2, k2)"
      and pos2: "0 < k2 \<Longrightarrow> NumInterpErrObs s2 \<noteq> [] \<and>
           out2 = s2\<lparr>NumInterpErrObs := (NumInterpErrObs s2)[0 := NumInterpErrObs s2 ! 0 + 1]\<rparr>"
      and zero2: "\<not> 0 < k2 \<Longrightarrow> out2 = s2"
      by blast
    have fo2: "tFlags out2 = tFlags s2"
    proof (cases "0 < k2")
      case True
      from pos2 [OF True] have "tFlags out2 =
        tFlags (s2\<lparr>NumInterpErrObs := (NumInterpErrObs s2)[0 := NumInterpErrObs s2 ! 0 + 1]\<rparr>)"
        by simp
      then show ?thesis by simp
    next
      case False
      from zero2 [OF False] show ?thesis by simp
    qed
    from stdLevelLoop_saturated [OF l1] fo
    have sat: "\<forall>j \<in> set (loopOrder (NumStd ?L)).
        levelFails ops P ?L (pressures inp) (tObsFinalOf inp)
          (tFlags (loopStart P numLevelsToCheck out)) j \<longrightarrow>
        (\<forall>i. int i \<in> set (triple ?L j) \<longrightarrow>
           tFlags (loopStart P numLevelsToCheck out) ! i OR InterpolationFlag P =
           tFlags (loopStart P numLevelsToCheck out) ! i)"
      by simp
    from l2 have l2': "stdLevelLoop ops P ?L (pressures inp) (tObsFinalOf inp)
        (loopOrder (NumStd ?L)) (loopStart P numLevelsToCheck out, 0) = Some (s2, k2)"
      unfolding L2 .
    from stdLevelLoop_no_new_flags [OF l2' sat] have "tFlags s2 = tFlags out" by simp
    with fo2 show ?thesis by simp
  qed
qed

theorem order_independent_and_idempotent_flags_witness:
  "runCheck real_ops exParams exCalc6 6 exProfile6 exState6 =
     Some (exStart6\<lparr>tFlags := [20, 16, 16, 16, 16, 16], NumAnyErrors := [2], NumInterpErrors := [2],
                    NumInterpErrObs := [1], LevErrors := [0, 0, 0, 0, 0, 0],
                    tInterp := [- 9999, 284, - 9999, - 9999, 255, - 9999]\<rparr>) \<and>
   checkInOrder (\<lambda>n. [1, 0]) real_ops exParams exCalc6 6 exProfile6 exState6 =
     Some (exStart6\<lparr>tFlags := [20, 16, 16, 16, 16, 16], NumAnyErrors := [2], NumInterpErrors := [2],
                    NumInterpErrObs := [1], LevErrors := [0, 0, 0, 0, 0, 0],
                    tInterp := [- 9999, 284, - 9999, - 9999, 255, - 9999]\<rparr>) \<and>
   \<not> anyVectorEmpty (inputSizes exProfile6 exState6) \<and>
   allVectorsSameSize (inputSizes exProfile6 exState6) \<and>
   distinct [1, 0 :: int] \<and> set [1, 0] = set (loopOrder (NumStd exLevels6)) \<and>
   passesGuards real_ops exParams exLevels6 (pressures exProfile6) (tFlags exState6) 0 \<and>
   passesGuards real_ops exParams exLevels6 (pressures exProfile6) (tFlags exState6) 1 \<and>
   set (triple exLevels6 0) \<inter> set (triple exLevels6 1) = {} \<and>
   runCheck real_ops exParams exCalc6 6 exProfile6
     (exStart6\<lparr>tFlags := [20, 16, 16, 16, 16, 16], NumAnyErrors := [2], NumInterpErrors := [2],
                    NumInterpErrObs := [1], LevErrors := [0, 0, 0, 0, 0, 0],
                    tInterp := [- 9999, 284, - 9999, - 9999, 255, - 9999]\<rparr>) =
     Some (exStart6\<lparr>tFlags := [20, 16, 16, 16, 16, 16], NumAnyErrors := [4], NumInterpErrors := [4],
                    NumInterpErrObs := [2], LevErrors := [0, 0, 0, 0, 0, 0],
                    tInterp := [- 9999, 284, - 9999, - 9999, 255, - 9999]\<rparr>) \<and>
   tFlags (exStart6\<lparr>tFlags := [20, 16, 16, 16, 16, 16], NumAnyErrors := [4], NumInterpErrors := [4],
                    NumInterpErrObs := [2], LevErrors := [0, 0, 0, 0, 0, 0],
                    tInterp := [- 9999, 284, - 9999, - 9999, 255, - 9999]\<rparr>) =
   tFlags (exStart6\<lparr>tFlags := [20, 16, 16, 16, 16, 16], NumAnyErrors := [2], NumInterpErrors := [2],
                    NumInterpErrObs := [1], LevErrors := [0, 0, 0, 0, 0, 0],
                    tInterp := [- 9999, 284, - 9999, - 9999, 255, - 9999]\<rparr>)"
proof -
  let ?out = "exStart6\<lparr>tFlags := [20, 16, 16, 16, 16, 16], NumAnyErrors := [2],
                    NumInterpErrors := [2],
                    NumInterpErrObs := [1], LevErrors := [0, 0, 0, 0, 0, 0],
                    tInterp := [- 9999, 284, - 9999, - 9999, 255, - 9999]\<rparr>"
  let ?out2 = "exStart6\<lparr>tFlags := [20, 16, 16, 16, 16, 16], NumAnyErrors := [4],
                    NumInterpErrors := [4],
                    NumInterpErrObs := [2], LevErrors := [0, 0, 0, 0, 0, 0],
                    tInterp := [- 9999, 284, - 9999, - 9999, 255, - 9999]\<rparr>"
  have d: "distinct [1, 0 :: int]" "set [1, 0] = set (loopOrder (NumStd exLevels6))"
    by (auto simp: ex6_order)
  have p: "passesGuards real_ops exParams exLevels6 (pressures exProfile6) (tFlags exState6) 0"
    "passesGuards real_ops exParams exLevels6 (pressures exProfile6) (tFlags exState6) 1"
    by (simp_all add: passesGuards_def levelBigGap_def selectBigGap_def ex6_defs
        real_ops_def c_round_def INT_MAX_def INT_MIN_def vec_at_def c_div_def)
  have t: "set (triple exLevels6 0) \<inter> set (triple exLevels6 1) = {}"
    by (simp add: triple_def exLevels6_def)
  have n: "NumStd exLevels6 = 2" by (simp add: exLevels6_def)
  have dj: "\<forall>j k. 0 \<le> j \<and> j < NumStd exLevels6 \<and> 0 \<le> k \<and> k < NumStd exLevels6 \<and> j \<noteq> k \<and>
           passesGuards real_ops exParams exLevels6 (pressures exProfile6) (tFlags exState6) j \<and>
           passesGuards real_ops exParams exLevels6 (pressures exProfile6) (tFlags exState6) k
           \<longrightarrow> set (triple exLevels6 j) \<inter> set (triple exLevels6 k) = {}"
  proof (intro allI impI)
    fix j k :: int
    assume "0 \<le> j \<and> j < NumStd exLevels6 \<and> 0 \<le> k \<and> k < NumStd exLevels6 \<and> j \<noteq> k \<and>
           passesGuards real_ops exParams exLevels6 (pressures exProfile6) (tFlags exState6) j \<and>
           passesGuards real_ops exParams exLevels6 (pressures exProfile6) (tFlags exState6) k"
    then have "0 \<le> j \<and> j < 2 \<and> 0 \<le> k \<and> k < 2 \<and> j \<noteq> k" unfolding n by blast
    then have "(j = 0 \<and> k = 1) \<or> (j = 1 \<and> k = 0)" by presburger
    with t show "set (triple exLevels6 j) \<inter> set (triple exLevels6 k) = {}" by auto
  qed
  note T = order_independent_and_idempotent_flags [of real_ops exParams exCalc6 6 exProfile6
      exState6 ?out "\<lambda>n. [1, 0]" ?out ?out2]
  from T ex6_run ex6_run_reversed ex6_valid d dj ex6_rerun
  have "?out = ?out \<and> tFlags ?out2 = tFlags ?out" by (simp add: exCalc6_def)
  with ex6_run ex6_run_reversed ex6_valid d p t ex6_rerun show ?thesis by blast
qed

text \<open>
  Claim C10. \<open>runCheck\<close> never clears a bit of a flag word: after the call every
  \<open>tFlags[i]\<close> contains the bits it had before. Each word is either unchanged or has
  gained exactly the bits of \<open>InterpolationFlag\<close>, and the second happens only at an
  index that is the central level or a bracket of a standard level that fails the
  check.
\<close>

theorem tFlags_only_gain_InterpolationFlag:
  assumes "runCheck ops P calc numLevelsToCheck inp s = Some out"
  shows "length (tFlags out) = length (tFlags s) \<and>
         (\<forall>i < length (tFlags s).
            tFlags out ! i AND tFlags s ! i = tFlags s ! i \<and>
            (tFlags out ! i = tFlags s ! i \<or>
             tFlags out ! i = tFlags s ! i OR InterpolationFlag P \<and>
             (\<exists>j. 0 \<le> j \<and> j < NumStd (stdLevelsOf calc numLevelsToCheck inp s) \<and>
                levelFails ops P (stdLevelsOf calc numLevelsToCheck inp s) (pressures inp)
                  (tObsFinalOf inp) (tFlags s) j \<and>
                int i \<in> set (triple (stdLevelsOf calc numLevelsToCheck inp s) j))))"
proof (cases "\<not> anyVectorEmpty (inputSizes inp s) \<and> allVectorsSameSize (inputSizes inp s)")
  case False
  from runCheck_invalid [OF assms False] obtain w where "out = s\<lparr>warnings := w\<rparr>" by blast
  then show ?thesis by simp
next
  case True
  let ?L = "stdLevelsOf calc numLevelsToCheck inp s"
  from True assms obtain s2 k where
    loop: "stdLevelLoop ops P ?L (pressures inp) (tObsFinalOf inp)
           (loopOrder (NumStd ?L)) (loopStart P numLevelsToCheck s, 0) = Some (s2, k)"
    and pos: "0 < k \<Longrightarrow> NumInterpErrObs s2 \<noteq> [] \<and>
           out = s2\<lparr>NumInterpErrObs := (NumInterpErrObs s2)[0 := NumInterpErrObs s2 ! 0 + 1]\<rparr>"
    and zero: "\<not> 0 < k \<Longrightarrow> out = s2"
    by (auto elim: runCheck_SomeE)
  have fo: "tFlags out = tFlags s2"
  proof (cases "0 < k")
    case True
    from pos [OF True] have "tFlags out =
      tFlags (s2\<lparr>NumInterpErrObs := (NumInterpErrObs s2)[0 := NumInterpErrObs s2 ! 0 + 1]\<rparr>)"
      by simp
    then show ?thesis by simp
  next
    case False
    from zero [OF False] show ?thesis by simp
  qed
  from stdLevelLoop_flags [OF loop]
  have len: "length (tFlags s2) = length (tFlags s)"
    and rel: "\<And>i. tFlags s2 ! i = tFlags s ! i \<or>
           (tFlags s2 ! i = tFlags s ! i OR InterpolationFlag P \<and>
            (\<exists>j \<in> set (loopOrder (NumStd ?L)).
               levelFails ops P ?L (pressures inp) (tObsFinalOf inp) (tFlags s) j \<and>
               int i \<in> set (triple ?L j)))"
    by simp_all
  have "tFlags out ! i AND tFlags s ! i = tFlags s ! i \<and>
            (tFlags out ! i = tFlags s ! i \<or>
             tFlags out ! i = tFlags s ! i OR InterpolationFlag P \<and>
             (\<exists>j. 0 \<le> j \<and> j < NumStd ?L \<and>
                levelFails ops P ?L (pressures inp) (tObsFinalOf inp) (tFlags s) j \<and>
                int i \<in> set (triple ?L j)))" for i
  proof -
    from rel [of i] have keep: "tFlags s2 ! i AND tFlags s ! i = tFlags s ! i"
      by (auto simp: and.commute)
    from rel [of i] have "tFlags s2 ! i = tFlags s ! i \<or>
             tFlags s2 ! i = tFlags s ! i OR InterpolationFlag P \<and>
             (\<exists>j. 0 \<le> j \<and> j < NumStd ?L \<and>
                levelFails ops P ?L (pressures inp) (tObsFinalOf inp) (tFlags s) j \<and>
                int i \<in> set (triple ?L j))"
      by (auto simp: set_loopOrder)
    with keep show ?thesis by (simp add: fo)
  qed
  with len fo show ?thesis by simp
qed

theorem tFlags_only_gain_InterpolationFlag_witness:
  "runCheck real_ops exParams exCalc 5 exProfile exState =
     Some (exStart\<lparr>tFlags := [20, 16, 16, 16, 16], NumAnyErrors := [2], NumInterpErrors := [2],
                   NumInterpErrObs := [1], LevErrors := [0, 0, 1, 0, 0],
                   tInterp := [- 9999, 284, - 9999, 270, - 9999]\<rparr>) \<and>
   tFlags exState = [4, 0, 0, 0, 0] \<and> InterpolationFlag exParams = 16 \<and>
   (20 :: 32 word) AND 4 = 4 \<and> (20 :: 32 word) = 4 OR 16 \<and> (16 :: 32 word) = 0 OR 16 \<and>
   triple exLevels 0 = [1, 0, 2] \<and> triple exLevels 1 = [3, 2, 4]"
  using tFlags_only_gain_InterpolationFlag [OF ex_run] ex_run
  by (simp add: exState_def exParams_def triple_def exLevels_def)

end
